theory Spec2Isabelle
  imports Main "HOL-Library.AList" "HOL-Library.Sublist"
begin

section \<open>Python values, texts and dictionaries\<close>

text \<open>
  The program is a single Python module, \<^verbatim>\<open>postgresql-mcp.py\<close>. Its values are
  the JSON scalars that reach it through the tool interface and the configuration.
  Floating point numbers are left out. A text is a \<^typ>\<open>string\<close>, the UTF-8 bytes of
  the Python \<^verbatim>\<open>str\<close>.
\<close>

datatype pyval = PNone | PBool bool | PInt int | PStr string

text \<open>
  A Python \<^verbatim>\<open>dict\<close> with text keys keeps its insertion order, so it is an
  association list: \<^verbatim>\<open>d[k] = v\<close> is \<^const>\<open>AList.update\<close> (it replaces in place
  or appends), \<^verbatim>\<open>d.get(k)\<close> is \<^const>\<open>map_of\<close>.
\<close>

type_synonym pydict = "(string \<times> pyval) list"

text \<open>
  The argument \<^verbatim>\<open>data\<close> of \<^verbatim>\<open>insert_data\<close> and \<^verbatim>\<open>update_data\<close> is tested
  with \<^verbatim>\<open>isinstance\<close>, so it keeps its dynamic type.
\<close>

datatype pydata = DVal pyval | DDict pydict | DList "pydata list"

text \<open>Truth value testing (\<^verbatim>\<open>if x:\<close>, \<^verbatim>\<open>not x\<close>).\<close>

fun truthy :: "pyval \<Rightarrow> bool" where
  "truthy PNone = False"
| "truthy (PBool b) = b"
| "truthy (PInt n) = (n \<noteq> 0)"
| "truthy (PStr s) = (s \<noteq> [])"

fun truthy_data :: "pydata \<Rightarrow> bool" where
  "truthy_data (DVal v) = truthy v"
| "truthy_data (DDict d) = (d \<noteq> [])"
| "truthy_data (DList xs) = (xs \<noteq> [])"

fun is_dict :: "pydata \<Rightarrow> bool" where
  "is_dict (DDict d) = True"
| "is_dict x = False"

subsection \<open>Decimal rendering of integers\<close>

definition digit_char :: "nat \<Rightarrow> char" where
  "digit_char d = ''0123456789'' ! d"

fun str_nat :: "nat \<Rightarrow> string" where
  "str_nat n = (if n < 10 then [digit_char n] else str_nat (n div 10) @ [digit_char (n mod 10)])"

declare str_nat.simps [simp del]

definition str_int :: "int \<Rightarrow> string" where
  "str_int i = (if i < 0 then CHR ''-'' # str_nat (nat (- i)) else str_nat (nat i))"

text \<open>\<^verbatim>\<open>str(v)\<close>, as an f-string renders a value.\<close>

fun py_str :: "pyval \<Rightarrow> string" where
  "py_str PNone = ''None''"
| "py_str (PBool b) = (if b then ''True'' else ''False'')"
| "py_str (PInt n) = str_int n"
| "py_str (PStr s) = s"

subsection \<open>Text operations\<close>

text \<open>
  A text is the UTF-8 encoding of a Python \<^verbatim>\<open>str\<close>. The methods \<^verbatim>\<open>str.strip\<close> and
  \<^verbatim>\<open>str.upper\<close> work on characters, so a text is first split into its characters:
  the first byte of a character tells how many bytes the character has.
\<close>

definition utf8_len :: "char \<Rightarrow> nat" where
  "utf8_len c =
     (let n = (of_char c :: nat)
      in if n < 0xC0 then 1 else if n < 0xE0 then 2 else if n < 0xF0 then 3 else 4)"

fun utf8_chars :: "string \<Rightarrow> string list" where
  "utf8_chars [] = []"
| "utf8_chars (c # cs) =
     (c # take (utf8_len c - 1) cs) # utf8_chars (drop (utf8_len c - 1) cs)"

text \<open>The code point of one character, and the bytes of a code point.\<close>

fun code_point :: "string \<Rightarrow> nat" where
  "code_point [a] = of_char a"
| "code_point [a, b] = (of_char a mod 32) * 64 + of_char b mod 64"
| "code_point [a, b, c] =
     (of_char a mod 16) * 4096 + (of_char b mod 64) * 64 + of_char c mod 64"
| "code_point [a, b, c, d] =
     (of_char a mod 8) * 262144 + (of_char b mod 64) * 4096 + (of_char c mod 64) * 64
       + of_char d mod 64"
| "code_point cs = 0"

definition utf8 :: "nat \<Rightarrow> string" where
  "utf8 n =
     (if n < 0x80 then [char_of n]
      else if n < 0x800 then [char_of (0xC0 + n div 64), char_of (0x80 + n mod 64)]
      else if n < 0x10000 then
        [char_of (0xE0 + n div 4096), char_of (0x80 + n div 64 mod 64), char_of (0x80 + n mod 64)]
      else
        [char_of (0xF0 + n div 262144), char_of (0x80 + n div 4096 mod 64),
         char_of (0x80 + n div 64 mod 64), char_of (0x80 + n mod 64)])"

text \<open>
  \<^verbatim>\<open>str.strip()\<close> removes the leading and the trailing characters for which
  \<^verbatim>\<open>str.isspace\<close> holds. These are the 29 code points below (Python 3.11, Unicode 14).
\<close>

definition whitespace :: "nat list" where
  "whitespace =
     [0x9, 0xA, 0xB, 0xC, 0xD, 0x1C, 0x1D, 0x1E, 0x1F, 0x20, 0x85, 0xA0, 0x1680,
      0x2000, 0x2001, 0x2002, 0x2003, 0x2004, 0x2005, 0x2006, 0x2007, 0x2008, 0x2009, 0x200A,
      0x2028, 0x2029, 0x202F, 0x205F, 0x3000]"

definition isspace :: "string \<Rightarrow> bool" where
  "isspace ch = (code_point ch \<in> set whitespace)"

definition strip :: "string \<Rightarrow> string" where
  "strip s = concat (rev (dropWhile isspace (rev (dropWhile isspace (utf8_chars s)))))"

text \<open>
  \<^verbatim>\<open>str.upper()\<close> replaces every character by its upper case, which may be several
  characters. \<open>upper_table\<close> lists every code point above \<^verbatim>\<open>0x7F\<close> that
  \<^verbatim>\<open>str.upper\<close> changes, with the code points it becomes (Python 3.11, Unicode 14),
  in pieces named by their first code point; the letters \<^verbatim>\<open>a-z\<close> become \<^verbatim>\<open>A-Z\<close>
  and every other character is kept.
\<close>

definition upper_char :: "char \<Rightarrow> char" where
  "upper_char c =
     (case map_of (zip ''abcdefghijklmnopqrstuvwxyz'' ''ABCDEFGHIJKLMNOPQRSTUVWXYZ'') c of
        None \<Rightarrow> c | Some u \<Rightarrow> u)"

definition upper_table_0080 :: "(nat \<times> nat list) list" where
  "upper_table_0080 =
     [(0xB5, [0x39C]), (0xDF, [0x53, 0x53]), (0xE0, [0xC0]), (0xE1, [0xC1]),
      (0xE2, [0xC2]), (0xE3, [0xC3]), (0xE4, [0xC4]), (0xE5, [0xC5]), (0xE6, [0xC6]),
      (0xE7, [0xC7]), (0xE8, [0xC8]), (0xE9, [0xC9]), (0xEA, [0xCA]), (0xEB, [0xCB]),
      (0xEC, [0xCC]), (0xED, [0xCD]), (0xEE, [0xCE]), (0xEF, [0xCF]), (0xF0, [0xD0]),
      (0xF1, [0xD1]), (0xF2, [0xD2]), (0xF3, [0xD3]), (0xF4, [0xD4]), (0xF5, [0xD5]),
      (0xF6, [0xD6]), (0xF8, [0xD8]), (0xF9, [0xD9]), (0xFA, [0xDA]), (0xFB, [0xDB]),
      (0xFC, [0xDC]), (0xFD, [0xDD]), (0xFE, [0xDE]), (0xFF, [0x178]), (0x101, [0x100]),
      (0x103, [0x102]), (0x105, [0x104]), (0x107, [0x106]), (0x109, [0x108]),
      (0x10B, [0x10A]), (0x10D, [0x10C]), (0x10F, [0x10E]), (0x111, [0x110]),
      (0x113, [0x112]), (0x115, [0x114]), (0x117, [0x116]), (0x119, [0x118]),
      (0x11B, [0x11A]), (0x11D, [0x11C]), (0x11F, [0x11E]), (0x121, [0x120]),
      (0x123, [0x122]), (0x125, [0x124]), (0x127, [0x126]), (0x129, [0x128]),
      (0x12B, [0x12A]), (0x12D, [0x12C]), (0x12F, [0x12E]), (0x131, [0x49]),
      (0x133, [0x132]), (0x135, [0x134]), (0x137, [0x136]), (0x13A, [0x139]),
      (0x13C, [0x13B]), (0x13E, [0x13D]), (0x140, [0x13F]), (0x142, [0x141]),
      (0x144, [0x143]), (0x146, [0x145]), (0x148, [0x147]), (0x149, [0x2BC, 0x4E]),
      (0x14B, [0x14A]), (0x14D, [0x14C]), (0x14F, [0x14E]), (0x151, [0x150]),
      (0x153, [0x152]), (0x155, [0x154]), (0x157, [0x156]), (0x159, [0x158]),
      (0x15B, [0x15A]), (0x15D, [0x15C]), (0x15F, [0x15E]), (0x161, [0x160]),
      (0x163, [0x162]), (0x165, [0x164]), (0x167, [0x166]), (0x169, [0x168]),
      (0x16B, [0x16A]), (0x16D, [0x16C]), (0x16F, [0x16E]), (0x171, [0x170]),
      (0x173, [0x172]), (0x175, [0x174]), (0x177, [0x176]), (0x17A, [0x179]),
      (0x17C, [0x17B]), (0x17E, [0x17D]), (0x17F, [0x53])]"

definition upper_table_0180 :: "(nat \<times> nat list) list" where
  "upper_table_0180 =
     [(0x180, [0x243]), (0x183, [0x182]), (0x185, [0x184]), (0x188, [0x187]),
      (0x18C, [0x18B]), (0x192, [0x191]), (0x195, [0x1F6]), (0x199, [0x198]),
      (0x19A, [0x23D]), (0x19E, [0x220]), (0x1A1, [0x1A0]), (0x1A3, [0x1A2]),
      (0x1A5, [0x1A4]), (0x1A8, [0x1A7]), (0x1AD, [0x1AC]), (0x1B0, [0x1AF]),
      (0x1B4, [0x1B3]), (0x1B6, [0x1B5]), (0x1B9, [0x1B8]), (0x1BD, [0x1BC]),
      (0x1BF, [0x1F7]), (0x1C5, [0x1C4]), (0x1C6, [0x1C4]), (0x1C8, [0x1C7]),
      (0x1C9, [0x1C7]), (0x1CB, [0x1CA]), (0x1CC, [0x1CA]), (0x1CE, [0x1CD]),
      (0x1D0, [0x1CF]), (0x1D2, [0x1D1]), (0x1D4, [0x1D3]), (0x1D6, [0x1D5]),
      (0x1D8, [0x1D7]), (0x1DA, [0x1D9]), (0x1DC, [0x1DB]), (0x1DD, [0x18E]),
      (0x1DF, [0x1DE]), (0x1E1, [0x1E0]), (0x1E3, [0x1E2]), (0x1E5, [0x1E4]),
      (0x1E7, [0x1E6]), (0x1E9, [0x1E8]), (0x1EB, [0x1EA]), (0x1ED, [0x1EC]),
      (0x1EF, [0x1EE]), (0x1F0, [0x4A, 0x30C]), (0x1F2, [0x1F1]), (0x1F3, [0x1F1]),
      (0x1F5, [0x1F4]), (0x1F9, [0x1F8]), (0x1FB, [0x1FA]), (0x1FD, [0x1FC]),
      (0x1FF, [0x1FE]), (0x201, [0x200]), (0x203, [0x202]), (0x205, [0x204]),
      (0x207, [0x206]), (0x209, [0x208]), (0x20B, [0x20A]), (0x20D, [0x20C]),
      (0x20F, [0x20E]), (0x211, [0x210]), (0x213, [0x212]), (0x215, [0x214]),
      (0x217, [0x216]), (0x219, [0x218]), (0x21B, [0x21A]), (0x21D, [0x21C]),
      (0x21F, [0x21E]), (0x223, [0x222]), (0x225, [0x224]), (0x227, [0x226]),
      (0x229, [0x228]), (0x22B, [0x22A]), (0x22D, [0x22C]), (0x22F, [0x22E]),
      (0x231, [0x230]), (0x233, [0x232]), (0x23C, [0x23B]), (0x23F, [0x2C7E]),
      (0x240, [0x2C7F]), (0x242, [0x241]), (0x247, [0x246]), (0x249, [0x248]),
      (0x24B, [0x24A]), (0x24D, [0x24C]), (0x24F, [0x24E])]"

definition upper_table_0250 :: "(nat \<times> nat list) list" where
  "upper_table_0250 =
     [(0x250, [0x2C6F]), (0x251, [0x2C6D]), (0x252, [0x2C70]), (0x253, [0x181]),
      (0x254, [0x186]), (0x256, [0x189]), (0x257, [0x18A]), (0x259, [0x18F]),
      (0x25B, [0x190]), (0x25C, [0xA7AB]), (0x260, [0x193]), (0x261, [0xA7AC]),
      (0x263, [0x194]), (0x265, [0xA78D]), (0x266, [0xA7AA]), (0x268, [0x197]),
      (0x269, [0x196]), (0x26A, [0xA7AE]), (0x26B, [0x2C62]), (0x26C, [0xA7AD]),
      (0x26F, [0x19C]), (0x271, [0x2C6E]), (0x272, [0x19D]), (0x275, [0x19F]),
      (0x27D, [0x2C64]), (0x280, [0x1A6]), (0x282, [0xA7C5]), (0x283, [0x1A9]),
      (0x287, [0xA7B1]), (0x288, [0x1AE]), (0x289, [0x244]), (0x28A, [0x1B1]),
      (0x28B, [0x1B2]), (0x28C, [0x245]), (0x292, [0x1B7]), (0x29D, [0xA7B2]),
      (0x29E, [0xA7B0]), (0x345, [0x399]), (0x371, [0x370]), (0x373, [0x372]),
      (0x377, [0x376]), (0x37B, [0x3FD]), (0x37C, [0x3FE]), (0x37D, [0x3FF]),
      (0x390, [0x399, 0x308, 0x301]), (0x3AC, [0x386]), (0x3AD, [0x388]),
      (0x3AE, [0x389]), (0x3AF, [0x38A]), (0x3B0, [0x3A5, 0x308, 0x301]),
      (0x3B1, [0x391]), (0x3B2, [0x392]), (0x3B3, [0x393]), (0x3B4, [0x394]),
      (0x3B5, [0x395]), (0x3B6, [0x396]), (0x3B7, [0x397]), (0x3B8, [0x398]),
      (0x3B9, [0x399]), (0x3BA, [0x39A]), (0x3BB, [0x39B]), (0x3BC, [0x39C]),
      (0x3BD, [0x39D]), (0x3BE, [0x39E]), (0x3BF, [0x39F]), (0x3C0, [0x3A0]),
      (0x3C1, [0x3A1]), (0x3C2, [0x3A3]), (0x3C3, [0x3A3]), (0x3C4, [0x3A4]),
      (0x3C5, [0x3A5]), (0x3C6, [0x3A6]), (0x3C7, [0x3A7]), (0x3C8, [0x3A8]),
      (0x3C9, [0x3A9]), (0x3CA, [0x3AA]), (0x3CB, [0x3AB]), (0x3CC, [0x38C]),
      (0x3CD, [0x38E]), (0x3CE, [0x38F]), (0x3D0, [0x392]), (0x3D1, [0x398]),
      (0x3D5, [0x3A6]), (0x3D6, [0x3A0]), (0x3D7, [0x3CF]), (0x3D9, [0x3D8]),
      (0x3DB, [0x3DA]), (0x3DD, [0x3DC]), (0x3DF, [0x3DE]), (0x3E1, [0x3E0]),
      (0x3E3, [0x3E2]), (0x3E5, [0x3E4]), (0x3E7, [0x3E6]), (0x3E9, [0x3E8]),
      (0x3EB, [0x3EA]), (0x3ED, [0x3EC]), (0x3EF, [0x3EE]), (0x3F0, [0x39A]),
      (0x3F1, [0x3A1]), (0x3F2, [0x3F9]), (0x3F3, [0x37F]), (0x3F5, [0x395]),
      (0x3F8, [0x3F7]), (0x3FB, [0x3FA])]"

definition upper_table_0400 :: "(nat \<times> nat list) list" where
  "upper_table_0400 =
     [(0x430, [0x410]), (0x431, [0x411]), (0x432, [0x412]), (0x433, [0x413]),
      (0x434, [0x414]), (0x435, [0x415]), (0x436, [0x416]), (0x437, [0x417]),
      (0x438, [0x418]), (0x439, [0x419]), (0x43A, [0x41A]), (0x43B, [0x41B]),
      (0x43C, [0x41C]), (0x43D, [0x41D]), (0x43E, [0x41E]), (0x43F, [0x41F]),
      (0x440, [0x420]), (0x441, [0x421]), (0x442, [0x422]), (0x443, [0x423]),
      (0x444, [0x424]), (0x445, [0x425]), (0x446, [0x426]), (0x447, [0x427]),
      (0x448, [0x428]), (0x449, [0x429]), (0x44A, [0x42A]), (0x44B, [0x42B]),
      (0x44C, [0x42C]), (0x44D, [0x42D]), (0x44E, [0x42E]), (0x44F, [0x42F]),
      (0x450, [0x400]), (0x451, [0x401]), (0x452, [0x402]), (0x453, [0x403]),
      (0x454, [0x404]), (0x455, [0x405]), (0x456, [0x406]), (0x457, [0x407]),
      (0x458, [0x408]), (0x459, [0x409]), (0x45A, [0x40A]), (0x45B, [0x40B]),
      (0x45C, [0x40C]), (0x45D, [0x40D]), (0x45E, [0x40E]), (0x45F, [0x40F])]"

definition upper_table_0460 :: "(nat \<times> nat list) list" where
  "upper_table_0460 =
     [(0x461, [0x460]), (0x463, [0x462]), (0x465, [0x464]), (0x467, [0x466]),
      (0x469, [0x468]), (0x46B, [0x46A]), (0x46D, [0x46C]), (0x46F, [0x46E]),
      (0x471, [0x470]), (0x473, [0x472]), (0x475, [0x474]), (0x477, [0x476]),
      (0x479, [0x478]), (0x47B, [0x47A]), (0x47D, [0x47C]), (0x47F, [0x47E]),
      (0x481, [0x480]), (0x48B, [0x48A]), (0x48D, [0x48C]), (0x48F, [0x48E]),
      (0x491, [0x490]), (0x493, [0x492]), (0x495, [0x494]), (0x497, [0x496]),
      (0x499, [0x498]), (0x49B, [0x49A]), (0x49D, [0x49C]), (0x49F, [0x49E]),
      (0x4A1, [0x4A0]), (0x4A3, [0x4A2]), (0x4A5, [0x4A4]), (0x4A7, [0x4A6]),
      (0x4A9, [0x4A8]), (0x4AB, [0x4AA]), (0x4AD, [0x4AC]), (0x4AF, [0x4AE]),
      (0x4B1, [0x4B0]), (0x4B3, [0x4B2]), (0x4B5, [0x4B4]), (0x4B7, [0x4B6]),
      (0x4B9, [0x4B8]), (0x4BB, [0x4BA]), (0x4BD, [0x4BC]), (0x4BF, [0x4BE]),
      (0x4C2, [0x4C1]), (0x4C4, [0x4C3]), (0x4C6, [0x4C5]), (0x4C8, [0x4C7]),
      (0x4CA, [0x4C9]), (0x4CC, [0x4CB]), (0x4CE, [0x4CD]), (0x4CF, [0x4C0]),
      (0x4D1, [0x4D0]), (0x4D3, [0x4D2]), (0x4D5, [0x4D4]), (0x4D7, [0x4D6]),
      (0x4D9, [0x4D8]), (0x4DB, [0x4DA]), (0x4DD, [0x4DC]), (0x4DF, [0x4DE]),
      (0x4E1, [0x4E0]), (0x4E3, [0x4E2]), (0x4E5, [0x4E4]), (0x4E7, [0x4E6]),
      (0x4E9, [0x4E8]), (0x4EB, [0x4EA]), (0x4ED, [0x4EC]), (0x4EF, [0x4EE]),
      (0x4F1, [0x4F0]), (0x4F3, [0x4F2]), (0x4F5, [0x4F4]), (0x4F7, [0x4F6]),
      (0x4F9, [0x4F8]), (0x4FB, [0x4FA]), (0x4FD, [0x4FC]), (0x4FF, [0x4FE]),
      (0x501, [0x500]), (0x503, [0x502]), (0x505, [0x504]), (0x507, [0x506]),
      (0x509, [0x508]), (0x50B, [0x50A]), (0x50D, [0x50C]), (0x50F, [0x50E]),
      (0x511, [0x510]), (0x513, [0x512]), (0x515, [0x514]), (0x517, [0x516]),
      (0x519, [0x518]), (0x51B, [0x51A]), (0x51D, [0x51C]), (0x51F, [0x51E]),
      (0x521, [0x520]), (0x523, [0x522]), (0x525, [0x524]), (0x527, [0x526]),
      (0x529, [0x528]), (0x52B, [0x52A]), (0x52D, [0x52C]), (0x52F, [0x52E])]"

definition upper_table_0530 :: "(nat \<times> nat list) list" where
  "upper_table_0530 =
     [(0x561, [0x531]), (0x562, [0x532]), (0x563, [0x533]), (0x564, [0x534]),
      (0x565, [0x535]), (0x566, [0x536]), (0x567, [0x537]), (0x568, [0x538]),
      (0x569, [0x539]), (0x56A, [0x53A]), (0x56B, [0x53B]), (0x56C, [0x53C]),
      (0x56D, [0x53D]), (0x56E, [0x53E]), (0x56F, [0x53F]), (0x570, [0x540]),
      (0x571, [0x541]), (0x572, [0x542]), (0x573, [0x543]), (0x574, [0x544]),
      (0x575, [0x545]), (0x576, [0x546]), (0x577, [0x547]), (0x578, [0x548]),
      (0x579, [0x549]), (0x57A, [0x54A]), (0x57B, [0x54B]), (0x57C, [0x54C]),
      (0x57D, [0x54D]), (0x57E, [0x54E]), (0x57F, [0x54F]), (0x580, [0x550]),
      (0x581, [0x551]), (0x582, [0x552]), (0x583, [0x553]), (0x584, [0x554]),
      (0x585, [0x555]), (0x586, [0x556]), (0x587, [0x535, 0x552]), (0x10D0, [0x1C90]),
      (0x10D1, [0x1C91]), (0x10D2, [0x1C92]), (0x10D3, [0x1C93]), (0x10D4, [0x1C94]),
      (0x10D5, [0x1C95]), (0x10D6, [0x1C96]), (0x10D7, [0x1C97]), (0x10D8, [0x1C98]),
      (0x10D9, [0x1C99]), (0x10DA, [0x1C9A]), (0x10DB, [0x1C9B]), (0x10DC, [0x1C9C]),
      (0x10DD, [0x1C9D]), (0x10DE, [0x1C9E]), (0x10DF, [0x1C9F]), (0x10E0, [0x1CA0]),
      (0x10E1, [0x1CA1]), (0x10E2, [0x1CA2]), (0x10E3, [0x1CA3]), (0x10E4, [0x1CA4]),
      (0x10E5, [0x1CA5]), (0x10E6, [0x1CA6]), (0x10E7, [0x1CA7]), (0x10E8, [0x1CA8]),
      (0x10E9, [0x1CA9]), (0x10EA, [0x1CAA]), (0x10EB, [0x1CAB]), (0x10EC, [0x1CAC]),
      (0x10ED, [0x1CAD]), (0x10EE, [0x1CAE]), (0x10EF, [0x1CAF]), (0x10F0, [0x1CB0]),
      (0x10F1, [0x1CB1]), (0x10F2, [0x1CB2]), (0x10F3, [0x1CB3]), (0x10F4, [0x1CB4]),
      (0x10F5, [0x1CB5]), (0x10F6, [0x1CB6]), (0x10F7, [0x1CB7]), (0x10F8, [0x1CB8]),
      (0x10F9, [0x1CB9]), (0x10FA, [0x1CBA]), (0x10FD, [0x1CBD]), (0x10FE, [0x1CBE]),
      (0x10FF, [0x1CBF]), (0x13F8, [0x13F0]), (0x13F9, [0x13F1]), (0x13FA, [0x13F2]),
      (0x13FB, [0x13F3]), (0x13FC, [0x13F4]), (0x13FD, [0x13F5]), (0x1C80, [0x412]),
      (0x1C81, [0x414]), (0x1C82, [0x41E]), (0x1C83, [0x421]), (0x1C84, [0x422]),
      (0x1C85, [0x422]), (0x1C86, [0x42A]), (0x1C87, [0x462]), (0x1C88, [0xA64A]),
      (0x1D79, [0xA77D]), (0x1D7D, [0x2C63]), (0x1D8E, [0xA7C6])]"

definition upper_table_1E00 :: "(nat \<times> nat list) list" where
  "upper_table_1E00 =
     [(0x1E01, [0x1E00]), (0x1E03, [0x1E02]), (0x1E05, [0x1E04]), (0x1E07, [0x1E06]),
      (0x1E09, [0x1E08]), (0x1E0B, [0x1E0A]), (0x1E0D, [0x1E0C]), (0x1E0F, [0x1E0E]),
      (0x1E11, [0x1E10]), (0x1E13, [0x1E12]), (0x1E15, [0x1E14]), (0x1E17, [0x1E16]),
      (0x1E19, [0x1E18]), (0x1E1B, [0x1E1A]), (0x1E1D, [0x1E1C]), (0x1E1F, [0x1E1E]),
      (0x1E21, [0x1E20]), (0x1E23, [0x1E22]), (0x1E25, [0x1E24]), (0x1E27, [0x1E26]),
      (0x1E29, [0x1E28]), (0x1E2B, [0x1E2A]), (0x1E2D, [0x1E2C]), (0x1E2F, [0x1E2E]),
      (0x1E31, [0x1E30]), (0x1E33, [0x1E32]), (0x1E35, [0x1E34]), (0x1E37, [0x1E36]),
      (0x1E39, [0x1E38]), (0x1E3B, [0x1E3A]), (0x1E3D, [0x1E3C]), (0x1E3F, [0x1E3E]),
      (0x1E41, [0x1E40]), (0x1E43, [0x1E42]), (0x1E45, [0x1E44]), (0x1E47, [0x1E46]),
      (0x1E49, [0x1E48]), (0x1E4B, [0x1E4A]), (0x1E4D, [0x1E4C]), (0x1E4F, [0x1E4E]),
      (0x1E51, [0x1E50]), (0x1E53, [0x1E52]), (0x1E55, [0x1E54]), (0x1E57, [0x1E56]),
      (0x1E59, [0x1E58]), (0x1E5B, [0x1E5A]), (0x1E5D, [0x1E5C]), (0x1E5F, [0x1E5E]),
      (0x1E61, [0x1E60]), (0x1E63, [0x1E62]), (0x1E65, [0x1E64]), (0x1E67, [0x1E66]),
      (0x1E69, [0x1E68]), (0x1E6B, [0x1E6A]), (0x1E6D, [0x1E6C]), (0x1E6F, [0x1E6E]),
      (0x1E71, [0x1E70]), (0x1E73, [0x1E72]), (0x1E75, [0x1E74]), (0x1E77, [0x1E76]),
      (0x1E79, [0x1E78]), (0x1E7B, [0x1E7A]), (0x1E7D, [0x1E7C]), (0x1E7F, [0x1E7E])]"

definition upper_table_1E80 :: "(nat \<times> nat list) list" where
  "upper_table_1E80 =
     [(0x1E81, [0x1E80]), (0x1E83, [0x1E82]), (0x1E85, [0x1E84]), (0x1E87, [0x1E86]),
      (0x1E89, [0x1E88]), (0x1E8B, [0x1E8A]), (0x1E8D, [0x1E8C]), (0x1E8F, [0x1E8E]),
      (0x1E91, [0x1E90]), (0x1E93, [0x1E92]), (0x1E95, [0x1E94]),
      (0x1E96, [0x48, 0x331]), (0x1E97, [0x54, 0x308]), (0x1E98, [0x57, 0x30A]),
      (0x1E99, [0x59, 0x30A]), (0x1E9A, [0x41, 0x2BE]), (0x1E9B, [0x1E60]),
      (0x1EA1, [0x1EA0]), (0x1EA3, [0x1EA2]), (0x1EA5, [0x1EA4]), (0x1EA7, [0x1EA6]),
      (0x1EA9, [0x1EA8]), (0x1EAB, [0x1EAA]), (0x1EAD, [0x1EAC]), (0x1EAF, [0x1EAE]),
      (0x1EB1, [0x1EB0]), (0x1EB3, [0x1EB2]), (0x1EB5, [0x1EB4]), (0x1EB7, [0x1EB6]),
      (0x1EB9, [0x1EB8]), (0x1EBB, [0x1EBA]), (0x1EBD, [0x1EBC]), (0x1EBF, [0x1EBE]),
      (0x1EC1, [0x1EC0]), (0x1EC3, [0x1EC2]), (0x1EC5, [0x1EC4]), (0x1EC7, [0x1EC6]),
      (0x1EC9, [0x1EC8]), (0x1ECB, [0x1ECA]), (0x1ECD, [0x1ECC]), (0x1ECF, [0x1ECE]),
      (0x1ED1, [0x1ED0]), (0x1ED3, [0x1ED2]), (0x1ED5, [0x1ED4]), (0x1ED7, [0x1ED6]),
      (0x1ED9, [0x1ED8]), (0x1EDB, [0x1EDA]), (0x1EDD, [0x1EDC]), (0x1EDF, [0x1EDE]),
      (0x1EE1, [0x1EE0]), (0x1EE3, [0x1EE2]), (0x1EE5, [0x1EE4]), (0x1EE7, [0x1EE6]),
      (0x1EE9, [0x1EE8]), (0x1EEB, [0x1EEA]), (0x1EED, [0x1EEC]), (0x1EEF, [0x1EEE]),
      (0x1EF1, [0x1EF0]), (0x1EF3, [0x1EF2]), (0x1EF5, [0x1EF4]), (0x1EF7, [0x1EF6]),
      (0x1EF9, [0x1EF8]), (0x1EFB, [0x1EFA]), (0x1EFD, [0x1EFC]), (0x1EFF, [0x1EFE])]"

definition upper_table_1F00 :: "(nat \<times> nat list) list" where
  "upper_table_1F00 =
     [(0x1F00, [0x1F08]), (0x1F01, [0x1F09]), (0x1F02, [0x1F0A]), (0x1F03, [0x1F0B]),
      (0x1F04, [0x1F0C]), (0x1F05, [0x1F0D]), (0x1F06, [0x1F0E]), (0x1F07, [0x1F0F]),
      (0x1F10, [0x1F18]), (0x1F11, [0x1F19]), (0x1F12, [0x1F1A]), (0x1F13, [0x1F1B]),
      (0x1F14, [0x1F1C]), (0x1F15, [0x1F1D]), (0x1F20, [0x1F28]), (0x1F21, [0x1F29]),
      (0x1F22, [0x1F2A]), (0x1F23, [0x1F2B]), (0x1F24, [0x1F2C]), (0x1F25, [0x1F2D]),
      (0x1F26, [0x1F2E]), (0x1F27, [0x1F2F]), (0x1F30, [0x1F38]), (0x1F31, [0x1F39]),
      (0x1F32, [0x1F3A]), (0x1F33, [0x1F3B]), (0x1F34, [0x1F3C]), (0x1F35, [0x1F3D]),
      (0x1F36, [0x1F3E]), (0x1F37, [0x1F3F]), (0x1F40, [0x1F48]), (0x1F41, [0x1F49]),
      (0x1F42, [0x1F4A]), (0x1F43, [0x1F4B]), (0x1F44, [0x1F4C]), (0x1F45, [0x1F4D]),
      (0x1F50, [0x3A5, 0x313]), (0x1F51, [0x1F59]), (0x1F52, [0x3A5, 0x313, 0x300]),
      (0x1F53, [0x1F5B]), (0x1F54, [0x3A5, 0x313, 0x301]), (0x1F55, [0x1F5D]),
      (0x1F56, [0x3A5, 0x313, 0x342]), (0x1F57, [0x1F5F]), (0x1F60, [0x1F68]),
      (0x1F61, [0x1F69]), (0x1F62, [0x1F6A]), (0x1F63, [0x1F6B]), (0x1F64, [0x1F6C]),
      (0x1F65, [0x1F6D]), (0x1F66, [0x1F6E]), (0x1F67, [0x1F6F]), (0x1F70, [0x1FBA]),
      (0x1F71, [0x1FBB]), (0x1F72, [0x1FC8]), (0x1F73, [0x1FC9]), (0x1F74, [0x1FCA]),
      (0x1F75, [0x1FCB]), (0x1F76, [0x1FDA]), (0x1F77, [0x1FDB]), (0x1F78, [0x1FF8]),
      (0x1F79, [0x1FF9]), (0x1F7A, [0x1FEA]), (0x1F7B, [0x1FEB]), (0x1F7C, [0x1FFA]),
      (0x1F7D, [0x1FFB])]"

definition upper_table_1F80 :: "(nat \<times> nat list) list" where
  "upper_table_1F80 =
     [(0x1F80, [0x1F08, 0x399]), (0x1F81, [0x1F09, 0x399]), (0x1F82, [0x1F0A, 0x399]),
      (0x1F83, [0x1F0B, 0x399]), (0x1F84, [0x1F0C, 0x399]), (0x1F85, [0x1F0D, 0x399]),
      (0x1F86, [0x1F0E, 0x399]), (0x1F87, [0x1F0F, 0x399]), (0x1F88, [0x1F08, 0x399]),
      (0x1F89, [0x1F09, 0x399]), (0x1F8A, [0x1F0A, 0x399]), (0x1F8B, [0x1F0B, 0x399]),
      (0x1F8C, [0x1F0C, 0x399]), (0x1F8D, [0x1F0D, 0x399]), (0x1F8E, [0x1F0E, 0x399]),
      (0x1F8F, [0x1F0F, 0x399]), (0x1F90, [0x1F28, 0x399]), (0x1F91, [0x1F29, 0x399]),
      (0x1F92, [0x1F2A, 0x399]), (0x1F93, [0x1F2B, 0x399]), (0x1F94, [0x1F2C, 0x399]),
      (0x1F95, [0x1F2D, 0x399]), (0x1F96, [0x1F2E, 0x399]), (0x1F97, [0x1F2F, 0x399]),
      (0x1F98, [0x1F28, 0x399]), (0x1F99, [0x1F29, 0x399]), (0x1F9A, [0x1F2A, 0x399]),
      (0x1F9B, [0x1F2B, 0x399]), (0x1F9C, [0x1F2C, 0x399]), (0x1F9D, [0x1F2D, 0x399]),
      (0x1F9E, [0x1F2E, 0x399]), (0x1F9F, [0x1F2F, 0x399]), (0x1FA0, [0x1F68, 0x399]),
      (0x1FA1, [0x1F69, 0x399]), (0x1FA2, [0x1F6A, 0x399]), (0x1FA3, [0x1F6B, 0x399]),
      (0x1FA4, [0x1F6C, 0x399]), (0x1FA5, [0x1F6D, 0x399]), (0x1FA6, [0x1F6E, 0x399]),
      (0x1FA7, [0x1F6F, 0x399]), (0x1FA8, [0x1F68, 0x399]), (0x1FA9, [0x1F69, 0x399]),
      (0x1FAA, [0x1F6A, 0x399]), (0x1FAB, [0x1F6B, 0x399]), (0x1FAC, [0x1F6C, 0x399]),
      (0x1FAD, [0x1F6D, 0x399]), (0x1FAE, [0x1F6E, 0x399]), (0x1FAF, [0x1F6F, 0x399]),
      (0x1FB0, [0x1FB8]), (0x1FB1, [0x1FB9]), (0x1FB2, [0x1FBA, 0x399]),
      (0x1FB3, [0x391, 0x399]), (0x1FB4, [0x386, 0x399]), (0x1FB6, [0x391, 0x342]),
      (0x1FB7, [0x391, 0x342, 0x399]), (0x1FBC, [0x391, 0x399]), (0x1FBE, [0x399]),
      (0x1FC2, [0x1FCA, 0x399]), (0x1FC3, [0x397, 0x399]), (0x1FC4, [0x389, 0x399]),
      (0x1FC6, [0x397, 0x342]), (0x1FC7, [0x397, 0x342, 0x399]),
      (0x1FCC, [0x397, 0x399]), (0x1FD0, [0x1FD8]), (0x1FD1, [0x1FD9]),
      (0x1FD2, [0x399, 0x308, 0x300]), (0x1FD3, [0x399, 0x308, 0x301]),
      (0x1FD6, [0x399, 0x342]), (0x1FD7, [0x399, 0x308, 0x342]), (0x1FE0, [0x1FE8]),
      (0x1FE1, [0x1FE9]), (0x1FE2, [0x3A5, 0x308, 0x300]),
      (0x1FE3, [0x3A5, 0x308, 0x301]), (0x1FE4, [0x3A1, 0x313]), (0x1FE5, [0x1FEC]),
      (0x1FE6, [0x3A5, 0x342]), (0x1FE7, [0x3A5, 0x308, 0x342]),
      (0x1FF2, [0x1FFA, 0x399]), (0x1FF3, [0x3A9, 0x399]), (0x1FF4, [0x38F, 0x399]),
      (0x1FF6, [0x3A9, 0x342]), (0x1FF7, [0x3A9, 0x342, 0x399]),
      (0x1FFC, [0x3A9, 0x399])]"

definition upper_table_2000 :: "(nat \<times> nat list) list" where
  "upper_table_2000 =
     [(0x214E, [0x2132]), (0x2170, [0x2160]), (0x2171, [0x2161]), (0x2172, [0x2162]),
      (0x2173, [0x2163]), (0x2174, [0x2164]), (0x2175, [0x2165]), (0x2176, [0x2166]),
      (0x2177, [0x2167]), (0x2178, [0x2168]), (0x2179, [0x2169]), (0x217A, [0x216A]),
      (0x217B, [0x216B]), (0x217C, [0x216C]), (0x217D, [0x216D]), (0x217E, [0x216E]),
      (0x217F, [0x216F]), (0x2184, [0x2183]), (0x24D0, [0x24B6]), (0x24D1, [0x24B7]),
      (0x24D2, [0x24B8]), (0x24D3, [0x24B9]), (0x24D4, [0x24BA]), (0x24D5, [0x24BB]),
      (0x24D6, [0x24BC]), (0x24D7, [0x24BD]), (0x24D8, [0x24BE]), (0x24D9, [0x24BF]),
      (0x24DA, [0x24C0]), (0x24DB, [0x24C1]), (0x24DC, [0x24C2]), (0x24DD, [0x24C3]),
      (0x24DE, [0x24C4]), (0x24DF, [0x24C5]), (0x24E0, [0x24C6]), (0x24E1, [0x24C7]),
      (0x24E2, [0x24C8]), (0x24E3, [0x24C9]), (0x24E4, [0x24CA]), (0x24E5, [0x24CB]),
      (0x24E6, [0x24CC]), (0x24E7, [0x24CD]), (0x24E8, [0x24CE]), (0x24E9, [0x24CF])]"

definition upper_table_2C00 :: "(nat \<times> nat list) list" where
  "upper_table_2C00 =
     [(0x2C30, [0x2C00]), (0x2C31, [0x2C01]), (0x2C32, [0x2C02]), (0x2C33, [0x2C03]),
      (0x2C34, [0x2C04]), (0x2C35, [0x2C05]), (0x2C36, [0x2C06]), (0x2C37, [0x2C07]),
      (0x2C38, [0x2C08]), (0x2C39, [0x2C09]), (0x2C3A, [0x2C0A]), (0x2C3B, [0x2C0B]),
      (0x2C3C, [0x2C0C]), (0x2C3D, [0x2C0D]), (0x2C3E, [0x2C0E]), (0x2C3F, [0x2C0F]),
      (0x2C40, [0x2C10]), (0x2C41, [0x2C11]), (0x2C42, [0x2C12]), (0x2C43, [0x2C13]),
      (0x2C44, [0x2C14]), (0x2C45, [0x2C15]), (0x2C46, [0x2C16]), (0x2C47, [0x2C17]),
      (0x2C48, [0x2C18]), (0x2C49, [0x2C19]), (0x2C4A, [0x2C1A]), (0x2C4B, [0x2C1B]),
      (0x2C4C, [0x2C1C]), (0x2C4D, [0x2C1D]), (0x2C4E, [0x2C1E]), (0x2C4F, [0x2C1F]),
      (0x2C50, [0x2C20]), (0x2C51, [0x2C21]), (0x2C52, [0x2C22]), (0x2C53, [0x2C23]),
      (0x2C54, [0x2C24]), (0x2C55, [0x2C25]), (0x2C56, [0x2C26]), (0x2C57, [0x2C27]),
      (0x2C58, [0x2C28]), (0x2C59, [0x2C29]), (0x2C5A, [0x2C2A]), (0x2C5B, [0x2C2B]),
      (0x2C5C, [0x2C2C]), (0x2C5D, [0x2C2D]), (0x2C5E, [0x2C2E]), (0x2C5F, [0x2C2F]),
      (0x2C61, [0x2C60]), (0x2C65, [0x23A]), (0x2C66, [0x23E]), (0x2C68, [0x2C67]),
      (0x2C6A, [0x2C69]), (0x2C6C, [0x2C6B]), (0x2C73, [0x2C72]), (0x2C76, [0x2C75]),
      (0x2C81, [0x2C80]), (0x2C83, [0x2C82]), (0x2C85, [0x2C84]), (0x2C87, [0x2C86]),
      (0x2C89, [0x2C88]), (0x2C8B, [0x2C8A]), (0x2C8D, [0x2C8C]), (0x2C8F, [0x2C8E]),
      (0x2C91, [0x2C90]), (0x2C93, [0x2C92]), (0x2C95, [0x2C94]), (0x2C97, [0x2C96]),
      (0x2C99, [0x2C98]), (0x2C9B, [0x2C9A]), (0x2C9D, [0x2C9C]), (0x2C9F, [0x2C9E]),
      (0x2CA1, [0x2CA0]), (0x2CA3, [0x2CA2]), (0x2CA5, [0x2CA4]), (0x2CA7, [0x2CA6]),
      (0x2CA9, [0x2CA8]), (0x2CAB, [0x2CAA]), (0x2CAD, [0x2CAC]), (0x2CAF, [0x2CAE]),
      (0x2CB1, [0x2CB0]), (0x2CB3, [0x2CB2]), (0x2CB5, [0x2CB4]), (0x2CB7, [0x2CB6]),
      (0x2CB9, [0x2CB8]), (0x2CBB, [0x2CBA]), (0x2CBD, [0x2CBC]), (0x2CBF, [0x2CBE]),
      (0x2CC1, [0x2CC0]), (0x2CC3, [0x2CC2]), (0x2CC5, [0x2CC4]), (0x2CC7, [0x2CC6]),
      (0x2CC9, [0x2CC8]), (0x2CCB, [0x2CCA]), (0x2CCD, [0x2CCC]), (0x2CCF, [0x2CCE]),
      (0x2CD1, [0x2CD0]), (0x2CD3, [0x2CD2]), (0x2CD5, [0x2CD4]), (0x2CD7, [0x2CD6]),
      (0x2CD9, [0x2CD8]), (0x2CDB, [0x2CDA]), (0x2CDD, [0x2CDC]), (0x2CDF, [0x2CDE]),
      (0x2CE1, [0x2CE0]), (0x2CE3, [0x2CE2]), (0x2CEC, [0x2CEB]), (0x2CEE, [0x2CED]),
      (0x2CF3, [0x2CF2]), (0x2D00, [0x10A0]), (0x2D01, [0x10A1]), (0x2D02, [0x10A2]),
      (0x2D03, [0x10A3]), (0x2D04, [0x10A4]), (0x2D05, [0x10A5]), (0x2D06, [0x10A6]),
      (0x2D07, [0x10A7]), (0x2D08, [0x10A8]), (0x2D09, [0x10A9]), (0x2D0A, [0x10AA]),
      (0x2D0B, [0x10AB]), (0x2D0C, [0x10AC]), (0x2D0D, [0x10AD]), (0x2D0E, [0x10AE]),
      (0x2D0F, [0x10AF]), (0x2D10, [0x10B0]), (0x2D11, [0x10B1]), (0x2D12, [0x10B2]),
      (0x2D13, [0x10B3]), (0x2D14, [0x10B4]), (0x2D15, [0x10B5]), (0x2D16, [0x10B6]),
      (0x2D17, [0x10B7]), (0x2D18, [0x10B8]), (0x2D19, [0x10B9]), (0x2D1A, [0x10BA]),
      (0x2D1B, [0x10BB]), (0x2D1C, [0x10BC]), (0x2D1D, [0x10BD]), (0x2D1E, [0x10BE]),
      (0x2D1F, [0x10BF]), (0x2D20, [0x10C0]), (0x2D21, [0x10C1]), (0x2D22, [0x10C2]),
      (0x2D23, [0x10C3]), (0x2D24, [0x10C4]), (0x2D25, [0x10C5]), (0x2D27, [0x10C7]),
      (0x2D2D, [0x10CD])]"

definition upper_table_A000 :: "(nat \<times> nat list) list" where
  "upper_table_A000 =
     [(0xA641, [0xA640]), (0xA643, [0xA642]), (0xA645, [0xA644]), (0xA647, [0xA646]),
      (0xA649, [0xA648]), (0xA64B, [0xA64A]), (0xA64D, [0xA64C]), (0xA64F, [0xA64E]),
      (0xA651, [0xA650]), (0xA653, [0xA652]), (0xA655, [0xA654]), (0xA657, [0xA656]),
      (0xA659, [0xA658]), (0xA65B, [0xA65A]), (0xA65D, [0xA65C]), (0xA65F, [0xA65E]),
      (0xA661, [0xA660]), (0xA663, [0xA662]), (0xA665, [0xA664]), (0xA667, [0xA666]),
      (0xA669, [0xA668]), (0xA66B, [0xA66A]), (0xA66D, [0xA66C]), (0xA681, [0xA680]),
      (0xA683, [0xA682]), (0xA685, [0xA684]), (0xA687, [0xA686]), (0xA689, [0xA688]),
      (0xA68B, [0xA68A]), (0xA68D, [0xA68C]), (0xA68F, [0xA68E]), (0xA691, [0xA690]),
      (0xA693, [0xA692]), (0xA695, [0xA694]), (0xA697, [0xA696]), (0xA699, [0xA698]),
      (0xA69B, [0xA69A]), (0xA723, [0xA722]), (0xA725, [0xA724]), (0xA727, [0xA726]),
      (0xA729, [0xA728]), (0xA72B, [0xA72A]), (0xA72D, [0xA72C]), (0xA72F, [0xA72E]),
      (0xA733, [0xA732]), (0xA735, [0xA734]), (0xA737, [0xA736]), (0xA739, [0xA738]),
      (0xA73B, [0xA73A]), (0xA73D, [0xA73C]), (0xA73F, [0xA73E]), (0xA741, [0xA740]),
      (0xA743, [0xA742]), (0xA745, [0xA744]), (0xA747, [0xA746]), (0xA749, [0xA748]),
      (0xA74B, [0xA74A]), (0xA74D, [0xA74C]), (0xA74F, [0xA74E]), (0xA751, [0xA750]),
      (0xA753, [0xA752]), (0xA755, [0xA754]), (0xA757, [0xA756]), (0xA759, [0xA758]),
      (0xA75B, [0xA75A]), (0xA75D, [0xA75C]), (0xA75F, [0xA75E]), (0xA761, [0xA760]),
      (0xA763, [0xA762]), (0xA765, [0xA764]), (0xA767, [0xA766]), (0xA769, [0xA768]),
      (0xA76B, [0xA76A]), (0xA76D, [0xA76C]), (0xA76F, [0xA76E]), (0xA77A, [0xA779]),
      (0xA77C, [0xA77B]), (0xA77F, [0xA77E]), (0xA781, [0xA780]), (0xA783, [0xA782]),
      (0xA785, [0xA784]), (0xA787, [0xA786]), (0xA78C, [0xA78B]), (0xA791, [0xA790]),
      (0xA793, [0xA792]), (0xA794, [0xA7C4]), (0xA797, [0xA796]), (0xA799, [0xA798]),
      (0xA79B, [0xA79A]), (0xA79D, [0xA79C]), (0xA79F, [0xA79E]), (0xA7A1, [0xA7A0]),
      (0xA7A3, [0xA7A2]), (0xA7A5, [0xA7A4]), (0xA7A7, [0xA7A6]), (0xA7A9, [0xA7A8]),
      (0xA7B5, [0xA7B4]), (0xA7B7, [0xA7B6]), (0xA7B9, [0xA7B8]), (0xA7BB, [0xA7BA]),
      (0xA7BD, [0xA7BC]), (0xA7BF, [0xA7BE]), (0xA7C1, [0xA7C0]), (0xA7C3, [0xA7C2]),
      (0xA7C8, [0xA7C7]), (0xA7CA, [0xA7C9]), (0xA7D1, [0xA7D0]), (0xA7D7, [0xA7D6]),
      (0xA7D9, [0xA7D8]), (0xA7F6, [0xA7F5])]"

definition upper_table_AB00 :: "(nat \<times> nat list) list" where
  "upper_table_AB00 =
     [(0xAB53, [0xA7B3]), (0xAB70, [0x13A0]), (0xAB71, [0x13A1]), (0xAB72, [0x13A2]),
      (0xAB73, [0x13A3]), (0xAB74, [0x13A4]), (0xAB75, [0x13A5]), (0xAB76, [0x13A6]),
      (0xAB77, [0x13A7]), (0xAB78, [0x13A8]), (0xAB79, [0x13A9]), (0xAB7A, [0x13AA]),
      (0xAB7B, [0x13AB]), (0xAB7C, [0x13AC]), (0xAB7D, [0x13AD]), (0xAB7E, [0x13AE]),
      (0xAB7F, [0x13AF]), (0xAB80, [0x13B0]), (0xAB81, [0x13B1]), (0xAB82, [0x13B2]),
      (0xAB83, [0x13B3]), (0xAB84, [0x13B4]), (0xAB85, [0x13B5]), (0xAB86, [0x13B6]),
      (0xAB87, [0x13B7]), (0xAB88, [0x13B8]), (0xAB89, [0x13B9]), (0xAB8A, [0x13BA]),
      (0xAB8B, [0x13BB]), (0xAB8C, [0x13BC]), (0xAB8D, [0x13BD]), (0xAB8E, [0x13BE]),
      (0xAB8F, [0x13BF]), (0xAB90, [0x13C0]), (0xAB91, [0x13C1]), (0xAB92, [0x13C2]),
      (0xAB93, [0x13C3]), (0xAB94, [0x13C4]), (0xAB95, [0x13C5]), (0xAB96, [0x13C6]),
      (0xAB97, [0x13C7]), (0xAB98, [0x13C8]), (0xAB99, [0x13C9]), (0xAB9A, [0x13CA]),
      (0xAB9B, [0x13CB]), (0xAB9C, [0x13CC]), (0xAB9D, [0x13CD]), (0xAB9E, [0x13CE]),
      (0xAB9F, [0x13CF]), (0xABA0, [0x13D0]), (0xABA1, [0x13D1]), (0xABA2, [0x13D2]),
      (0xABA3, [0x13D3]), (0xABA4, [0x13D4]), (0xABA5, [0x13D5]), (0xABA6, [0x13D6]),
      (0xABA7, [0x13D7]), (0xABA8, [0x13D8]), (0xABA9, [0x13D9]), (0xABAA, [0x13DA]),
      (0xABAB, [0x13DB]), (0xABAC, [0x13DC]), (0xABAD, [0x13DD]), (0xABAE, [0x13DE]),
      (0xABAF, [0x13DF]), (0xABB0, [0x13E0]), (0xABB1, [0x13E1]), (0xABB2, [0x13E2]),
      (0xABB3, [0x13E3]), (0xABB4, [0x13E4]), (0xABB5, [0x13E5]), (0xABB6, [0x13E6]),
      (0xABB7, [0x13E7]), (0xABB8, [0x13E8]), (0xABB9, [0x13E9]), (0xABBA, [0x13EA]),
      (0xABBB, [0x13EB]), (0xABBC, [0x13EC]), (0xABBD, [0x13ED]), (0xABBE, [0x13EE]),
      (0xABBF, [0x13EF])]"

definition upper_table_FB00 :: "(nat \<times> nat list) list" where
  "upper_table_FB00 =
     [(0xFB00, [0x46, 0x46]), (0xFB01, [0x46, 0x49]), (0xFB02, [0x46, 0x4C]),
      (0xFB03, [0x46, 0x46, 0x49]), (0xFB04, [0x46, 0x46, 0x4C]), (0xFB05, [0x53, 0x54]),
      (0xFB06, [0x53, 0x54]), (0xFB13, [0x544, 0x546]), (0xFB14, [0x544, 0x535]),
      (0xFB15, [0x544, 0x53B]), (0xFB16, [0x54E, 0x546]), (0xFB17, [0x544, 0x53D]),
      (0xFF41, [0xFF21]), (0xFF42, [0xFF22]), (0xFF43, [0xFF23]), (0xFF44, [0xFF24]),
      (0xFF45, [0xFF25]), (0xFF46, [0xFF26]), (0xFF47, [0xFF27]), (0xFF48, [0xFF28]),
      (0xFF49, [0xFF29]), (0xFF4A, [0xFF2A]), (0xFF4B, [0xFF2B]), (0xFF4C, [0xFF2C]),
      (0xFF4D, [0xFF2D]), (0xFF4E, [0xFF2E]), (0xFF4F, [0xFF2F]), (0xFF50, [0xFF30]),
      (0xFF51, [0xFF31]), (0xFF52, [0xFF32]), (0xFF53, [0xFF33]), (0xFF54, [0xFF34]),
      (0xFF55, [0xFF35]), (0xFF56, [0xFF36]), (0xFF57, [0xFF37]), (0xFF58, [0xFF38]),
      (0xFF59, [0xFF39]), (0xFF5A, [0xFF3A])]"

definition upper_table_10000 :: "(nat \<times> nat list) list" where
  "upper_table_10000 =
     [(0x10428, [0x10400]), (0x10429, [0x10401]), (0x1042A, [0x10402]),
      (0x1042B, [0x10403]), (0x1042C, [0x10404]), (0x1042D, [0x10405]),
      (0x1042E, [0x10406]), (0x1042F, [0x10407]), (0x10430, [0x10408]),
      (0x10431, [0x10409]), (0x10432, [0x1040A]), (0x10433, [0x1040B]),
      (0x10434, [0x1040C]), (0x10435, [0x1040D]), (0x10436, [0x1040E]),
      (0x10437, [0x1040F]), (0x10438, [0x10410]), (0x10439, [0x10411]),
      (0x1043A, [0x10412]), (0x1043B, [0x10413]), (0x1043C, [0x10414]),
      (0x1043D, [0x10415]), (0x1043E, [0x10416]), (0x1043F, [0x10417]),
      (0x10440, [0x10418]), (0x10441, [0x10419]), (0x10442, [0x1041A]),
      (0x10443, [0x1041B]), (0x10444, [0x1041C]), (0x10445, [0x1041D]),
      (0x10446, [0x1041E]), (0x10447, [0x1041F]), (0x10448, [0x10420]),
      (0x10449, [0x10421]), (0x1044A, [0x10422]), (0x1044B, [0x10423]),
      (0x1044C, [0x10424]), (0x1044D, [0x10425]), (0x1044E, [0x10426]),
      (0x1044F, [0x10427]), (0x104D8, [0x104B0]), (0x104D9, [0x104B1]),
      (0x104DA, [0x104B2]), (0x104DB, [0x104B3]), (0x104DC, [0x104B4]),
      (0x104DD, [0x104B5]), (0x104DE, [0x104B6]), (0x104DF, [0x104B7]),
      (0x104E0, [0x104B8]), (0x104E1, [0x104B9]), (0x104E2, [0x104BA]),
      (0x104E3, [0x104BB]), (0x104E4, [0x104BC]), (0x104E5, [0x104BD]),
      (0x104E6, [0x104BE]), (0x104E7, [0x104BF]), (0x104E8, [0x104C0]),
      (0x104E9, [0x104C1]), (0x104EA, [0x104C2]), (0x104EB, [0x104C3]),
      (0x104EC, [0x104C4]), (0x104ED, [0x104C5]), (0x104EE, [0x104C6]),
      (0x104EF, [0x104C7]), (0x104F0, [0x104C8]), (0x104F1, [0x104C9]),
      (0x104F2, [0x104CA]), (0x104F3, [0x104CB]), (0x104F4, [0x104CC]),
      (0x104F5, [0x104CD]), (0x104F6, [0x104CE]), (0x104F7, [0x104CF]),
      (0x104F8, [0x104D0]), (0x104F9, [0x104D1]), (0x104FA, [0x104D2]),
      (0x104FB, [0x104D3])]"

definition upper_table_10500 :: "(nat \<times> nat list) list" where
  "upper_table_10500 =
     [(0x10597, [0x10570]), (0x10598, [0x10571]), (0x10599, [0x10572]),
      (0x1059A, [0x10573]), (0x1059B, [0x10574]), (0x1059C, [0x10575]),
      (0x1059D, [0x10576]), (0x1059E, [0x10577]), (0x1059F, [0x10578]),
      (0x105A0, [0x10579]), (0x105A1, [0x1057A]), (0x105A3, [0x1057C]),
      (0x105A4, [0x1057D]), (0x105A5, [0x1057E]), (0x105A6, [0x1057F]),
      (0x105A7, [0x10580]), (0x105A8, [0x10581]), (0x105A9, [0x10582]),
      (0x105AA, [0x10583]), (0x105AB, [0x10584]), (0x105AC, [0x10585]),
      (0x105AD, [0x10586]), (0x105AE, [0x10587]), (0x105AF, [0x10588]),
      (0x105B0, [0x10589]), (0x105B1, [0x1058A]), (0x105B3, [0x1058C]),
      (0x105B4, [0x1058D]), (0x105B5, [0x1058E]), (0x105B6, [0x1058F]),
      (0x105B7, [0x10590]), (0x105B8, [0x10591]), (0x105B9, [0x10592]),
      (0x105BB, [0x10594]), (0x105BC, [0x10595]), (0x10CC0, [0x10C80]),
      (0x10CC1, [0x10C81]), (0x10CC2, [0x10C82]), (0x10CC3, [0x10C83]),
      (0x10CC4, [0x10C84]), (0x10CC5, [0x10C85]), (0x10CC6, [0x10C86]),
      (0x10CC7, [0x10C87]), (0x10CC8, [0x10C88]), (0x10CC9, [0x10C89]),
      (0x10CCA, [0x10C8A]), (0x10CCB, [0x10C8B]), (0x10CCC, [0x10C8C]),
      (0x10CCD, [0x10C8D]), (0x10CCE, [0x10C8E]), (0x10CCF, [0x10C8F]),
      (0x10CD0, [0x10C90]), (0x10CD1, [0x10C91]), (0x10CD2, [0x10C92]),
      (0x10CD3, [0x10C93]), (0x10CD4, [0x10C94]), (0x10CD5, [0x10C95]),
      (0x10CD6, [0x10C96]), (0x10CD7, [0x10C97]), (0x10CD8, [0x10C98]),
      (0x10CD9, [0x10C99]), (0x10CDA, [0x10C9A]), (0x10CDB, [0x10C9B]),
      (0x10CDC, [0x10C9C]), (0x10CDD, [0x10C9D]), (0x10CDE, [0x10C9E]),
      (0x10CDF, [0x10C9F]), (0x10CE0, [0x10CA0]), (0x10CE1, [0x10CA1]),
      (0x10CE2, [0x10CA2]), (0x10CE3, [0x10CA3]), (0x10CE4, [0x10CA4]),
      (0x10CE5, [0x10CA5]), (0x10CE6, [0x10CA6]), (0x10CE7, [0x10CA7]),
      (0x10CE8, [0x10CA8]), (0x10CE9, [0x10CA9]), (0x10CEA, [0x10CAA]),
      (0x10CEB, [0x10CAB]), (0x10CEC, [0x10CAC]), (0x10CED, [0x10CAD]),
      (0x10CEE, [0x10CAE]), (0x10CEF, [0x10CAF]), (0x10CF0, [0x10CB0]),
      (0x10CF1, [0x10CB1]), (0x10CF2, [0x10CB2]), (0x118C0, [0x118A0]),
      (0x118C1, [0x118A1]), (0x118C2, [0x118A2]), (0x118C3, [0x118A3]),
      (0x118C4, [0x118A4]), (0x118C5, [0x118A5]), (0x118C6, [0x118A6]),
      (0x118C7, [0x118A7]), (0x118C8, [0x118A8]), (0x118C9, [0x118A9]),
      (0x118CA, [0x118AA]), (0x118CB, [0x118AB]), (0x118CC, [0x118AC]),
      (0x118CD, [0x118AD]), (0x118CE, [0x118AE]), (0x118CF, [0x118AF]),
      (0x118D0, [0x118B0]), (0x118D1, [0x118B1]), (0x118D2, [0x118B2]),
      (0x118D3, [0x118B3]), (0x118D4, [0x118B4]), (0x118D5, [0x118B5]),
      (0x118D6, [0x118B6]), (0x118D7, [0x118B7]), (0x118D8, [0x118B8]),
      (0x118D9, [0x118B9]), (0x118DA, [0x118BA]), (0x118DB, [0x118BB]),
      (0x118DC, [0x118BC]), (0x118DD, [0x118BD]), (0x118DE, [0x118BE]),
      (0x118DF, [0x118BF]), (0x16E60, [0x16E40]), (0x16E61, [0x16E41]),
      (0x16E62, [0x16E42]), (0x16E63, [0x16E43]), (0x16E64, [0x16E44]),
      (0x16E65, [0x16E45]), (0x16E66, [0x16E46]), (0x16E67, [0x16E47]),
      (0x16E68, [0x16E48]), (0x16E69, [0x16E49]), (0x16E6A, [0x16E4A]),
      (0x16E6B, [0x16E4B]), (0x16E6C, [0x16E4C]), (0x16E6D, [0x16E4D]),
      (0x16E6E, [0x16E4E]), (0x16E6F, [0x16E4F]), (0x16E70, [0x16E50]),
      (0x16E71, [0x16E51]), (0x16E72, [0x16E52]), (0x16E73, [0x16E53]),
      (0x16E74, [0x16E54]), (0x16E75, [0x16E55]), (0x16E76, [0x16E56]),
      (0x16E77, [0x16E57]), (0x16E78, [0x16E58]), (0x16E79, [0x16E59]),
      (0x16E7A, [0x16E5A]), (0x16E7B, [0x16E5B]), (0x16E7C, [0x16E5C]),
      (0x16E7D, [0x16E5D]), (0x16E7E, [0x16E5E]), (0x16E7F, [0x16E5F]),
      (0x1E922, [0x1E900]), (0x1E923, [0x1E901]), (0x1E924, [0x1E902]),
      (0x1E925, [0x1E903]), (0x1E926, [0x1E904]), (0x1E927, [0x1E905]),
      (0x1E928, [0x1E906]), (0x1E929, [0x1E907]), (0x1E92A, [0x1E908]),
      (0x1E92B, [0x1E909]), (0x1E92C, [0x1E90A]), (0x1E92D, [0x1E90B]),
      (0x1E92E, [0x1E90C]), (0x1E92F, [0x1E90D]), (0x1E930, [0x1E90E]),
      (0x1E931, [0x1E90F]), (0x1E932, [0x1E910]), (0x1E933, [0x1E911]),
      (0x1E934, [0x1E912]), (0x1E935, [0x1E913]), (0x1E936, [0x1E914]),
      (0x1E937, [0x1E915]), (0x1E938, [0x1E916]), (0x1E939, [0x1E917]),
      (0x1E93A, [0x1E918]), (0x1E93B, [0x1E919]), (0x1E93C, [0x1E91A]),
      (0x1E93D, [0x1E91B]), (0x1E93E, [0x1E91C]), (0x1E93F, [0x1E91D]),
      (0x1E940, [0x1E91E]), (0x1E941, [0x1E91F]), (0x1E942, [0x1E920]),
      (0x1E943, [0x1E921])]"

definition upper_table :: "(nat \<times> nat list) list" where
  "upper_table =
     upper_table_0080 @ upper_table_0180 @ upper_table_0250 @ upper_table_0400 @
     upper_table_0460 @ upper_table_0530 @ upper_table_1E00 @ upper_table_1E80 @
     upper_table_1F00 @ upper_table_1F80 @ upper_table_2000 @ upper_table_2C00 @
     upper_table_A000 @ upper_table_AB00 @ upper_table_FB00 @ upper_table_10000 @
     upper_table_10500"

definition upper_ch :: "string \<Rightarrow> string" where
  "upper_ch ch =
     (case ch of
        [c] \<Rightarrow> [upper_char c]
      | cs \<Rightarrow> (case map_of upper_table (code_point cs) of
                 None \<Rightarrow> cs
               | Some us \<Rightarrow> concat (map utf8 us)))"

definition upper :: "string \<Rightarrow> string" where
  "upper s = concat (map upper_ch (utf8_chars s))"

text \<open>
  \<^verbatim>\<open>str.lower()\<close> is used only on the text of an error, to look for words of ASCII
  letters in it. It is modelled on the letters \<^verbatim>\<open>A-Z\<close>. The two code points outside
  ASCII whose lower case has an ASCII letter, \<^verbatim>\<open>U+0130\<close> (an \<^verbatim>\<open>i\<close> and a combining dot)
  and \<^verbatim>\<open>U+212A\<close> (a \<^verbatim>\<open>k\<close>), cannot complete any of the words the program looks for:
  none has a \<^verbatim>\<open>k\<close> and none ends in \<^verbatim>\<open>i\<close>.
\<close>

definition lower_char :: "char \<Rightarrow> char" where
  "lower_char c =
     (case map_of (zip ''ABCDEFGHIJKLMNOPQRSTUVWXYZ'' ''abcdefghijklmnopqrstuvwxyz'') c of
        None \<Rightarrow> c | Some l \<Rightarrow> l)"

definition lower :: "string \<Rightarrow> string" where
  "lower s = map lower_char s"

text \<open>\<^verbatim>\<open>s.startswith(p)\<close>.\<close>

definition startswith :: "string \<Rightarrow> string \<Rightarrow> bool" where
  "startswith s p = prefix p s"

text \<open>\<^verbatim>\<open>needle in hay\<close>: \<open>needle\<close> occurs in \<open>hay\<close> as a contiguous run.\<close>

fun contains :: "string \<Rightarrow> string \<Rightarrow> bool" where
  "contains needle [] = (needle = [])"
| "contains needle (c # cs) = (prefix needle (c # cs) \<or> contains needle cs)"

text \<open>\<^verbatim>\<open>sep.join(xs)\<close>.\<close>

fun join :: "string \<Rightarrow> string list \<Rightarrow> string" where
  "join sep [] = []"
| "join sep [x] = x"
| "join sep (x # y # ys) = x @ sep @ join sep (y # ys)"

subsection \<open>Dictionary operations\<close>

text \<open>\<^verbatim>\<open>d.update(other)\<close>: the items of \<open>other\<close> are stored one by one, in order.\<close>

definition dict_update :: "pydict \<Rightarrow> pydict \<Rightarrow> pydict" where
  "dict_update d other = foldl (\<lambda>acc (k, v). AList.update k v acc) d other"

text \<open>\<^verbatim>\<open>d.get(k, default)\<close> and \<^verbatim>\<open>d.get(k)\<close>, whose default is \<^verbatim>\<open>None\<close>.\<close>

definition dict_get :: "pydict \<Rightarrow> string \<Rightarrow> pyval \<Rightarrow> pyval" where
  "dict_get d k dflt = (case map_of d k of None \<Rightarrow> dflt | Some v \<Rightarrow> v)"

text \<open>\<^verbatim>\<open>d.pop(k, default)\<close>: the value and the dictionary without the key.\<close>

definition dict_pop :: "pydict \<Rightarrow> string \<Rightarrow> pyval \<Rightarrow> pyval \<times> pydict" where
  "dict_pop d k dflt = (dict_get d k dflt, AList.delete k d)"

text \<open>\<^verbatim>\<open>list(d.keys())\<close>.\<close>

definition keys :: "pydict \<Rightarrow> string list" where
  "keys d = map fst d"

section \<open>The message texts\<close>

text \<open>
  The literal texts of the module's messages, as their UTF-8 bytes, a line feed
  (\<^verbatim>\<open>0x0A\<close>) and blanks included. A name ending in \<open>_a\<close>, \<open>_b\<close>, \<open>_c\<close> is one piece of
  an f-string, in the order of the pieces.
\<close>

text \<open>Line 104, in English: \<^verbatim>\<open>attempt no.\<close>.\<close>

definition txt_retry_print_a :: string where
  "txt_retry_print_a =
     [CHR 0xE7, CHR 0xAC, CHR 0xAC] @ '' ''"

text \<open>Line 104, in English: \<^verbatim>\<open>failed to connect, retrying... error:\<close>.\<close>

definition txt_retry_print_b :: string where
  "txt_retry_print_b =
     '' '' @ [CHR 0xE6, CHR 0xAC, CHR 0xA1, CHR 0xE8, CHR 0xBF, CHR 0x9E, CHR 0xE6,
     CHR 0x8E, CHR 0xA5, CHR 0xE5, CHR 0xA4, CHR 0xB1, CHR 0xE8, CHR 0xB4, CHR 0xA5,
     CHR 0xEF, CHR 0xBC, CHR 0x8C, CHR 0xE6, CHR 0xAD, CHR 0xA3, CHR 0xE5, CHR 0x9C,
     CHR 0xA8, CHR 0xE9, CHR 0x87, CHR 0x8D, CHR 0xE8, CHR 0xAF,
     CHR 0x95] @ ''... '' @ [CHR 0xE9, CHR 0x94, CHR 0x99, CHR 0xE8, CHR 0xAF,
     CHR 0xAF] @ '': ''"

text \<open>Line 107, in English: \<^verbatim>\<open>database connection error (after retrying\<close>.\<close>

definition txt_conn_error_a :: string where
  "txt_conn_error_a =
     [CHR 0xE6, CHR 0x95, CHR 0xB0, CHR 0xE6, CHR 0x8D, CHR 0xAE, CHR 0xE5, CHR 0xBA,
     CHR 0x93, CHR 0xE8, CHR 0xBF, CHR 0x9E, CHR 0xE6, CHR 0x8E, CHR 0xA5, CHR 0xE9,
     CHR 0x94, CHR 0x99, CHR 0xE8, CHR 0xAF, CHR 0xAF] @ ''('' @ [CHR 0xE9, CHR 0x87,
     CHR 0x8D, CHR 0xE8, CHR 0xAF, CHR 0x95] @ '' ''"

text \<open>Line 107, in English: \<^verbatim>\<open>times):\<close>.\<close>

definition txt_conn_error_b :: string where
  "txt_conn_error_b =
     '' '' @ [CHR 0xE6, CHR 0xAC, CHR 0xA1, CHR 0xE5, CHR 0x90, CHR 0x8E] @ ''): ''"

text \<open>Line 109, in English: \<^verbatim>\<open>cannot connect to the PostgreSQL server, please check that the host\<close>.\<close>

definition txt_refused_a :: string where
  "txt_refused_a =
     [CHR 0x0A, CHR 0xE6, CHR 0x97, CHR 0xA0, CHR 0xE6, CHR 0xB3, CHR 0x95, CHR 0xE8,
     CHR 0xBF, CHR 0x9E, CHR 0xE6, CHR 0x8E, CHR 0xA5, CHR 0xE5, CHR 0x88,
     CHR 0xB0] @ ''PostgreSQL'' @ [CHR 0xE6, CHR 0x9C, CHR 0x8D, CHR 0xE5, CHR 0x8A,
     CHR 0xA1, CHR 0xE5, CHR 0x99, CHR 0xA8, CHR 0xEF, CHR 0xBC, CHR 0x8C, CHR 0xE8,
     CHR 0xAF, CHR 0xB7, CHR 0xE6, CHR 0xA3, CHR 0x80, CHR 0xE6, CHR 0x9F, CHR 0xA5,
     CHR 0xE4, CHR 0xB8, CHR 0xBB, CHR 0xE6, CHR 0x9C, CHR 0xBA] @ '' ''"

text \<open>Line 109, in English: \<^verbatim>\<open>and the port\<close>.\<close>

definition txt_refused_b :: string where
  "txt_refused_b =
     '' '' @ [CHR 0xE5, CHR 0x92, CHR 0x8C, CHR 0xE7, CHR 0xAB, CHR 0xAF, CHR 0xE5,
     CHR 0x8F, CHR 0xA3] @ '' ''"

text \<open>Line 109, in English: \<^verbatim>\<open>are right\<close>.\<close>

definition txt_refused_c :: string where
  "txt_refused_c =
     '' '' @ [CHR 0xE6, CHR 0x98, CHR 0xAF, CHR 0xE5, CHR 0x90, CHR 0xA6, CHR 0xE6,
     CHR 0xAD, CHR 0xA3, CHR 0xE7, CHR 0xA1, CHR 0xAE]"

text \<open>Line 110, in English: \<^verbatim>\<open>the connection timeout is\<close>.\<close>

definition txt_timeout_a :: string where
  "txt_timeout_a =
     [CHR 0x0A, CHR 0xE8, CHR 0xBF, CHR 0x9E, CHR 0xE6, CHR 0x8E, CHR 0xA5, CHR 0xE8,
     CHR 0xB6, CHR 0x85, CHR 0xE6, CHR 0x97, CHR 0xB6, CHR 0xE6, CHR 0x97, CHR 0xB6,
     CHR 0xE9, CHR 0x97, CHR 0xB4, CHR 0xE4, CHR 0xB8, CHR 0xBA] @ '' ''"

text \<open>Line 110, in English: \<^verbatim>\<open>seconds\<close>.\<close>

definition txt_timeout_b :: string where
  "txt_timeout_b =
     '' '' @ [CHR 0xE7, CHR 0xA7, CHR 0x92]"

text \<open>Line 112, in English: \<^verbatim>\<open>authentication failed, please check that the user name\<close>.\<close>

definition txt_auth_a :: string where
  "txt_auth_a =
     [CHR 0x0A, CHR 0xE8, CHR 0xAE, CHR 0xA4, CHR 0xE8, CHR 0xAF, CHR 0x81, CHR 0xE5,
     CHR 0xA4, CHR 0xB1, CHR 0xE8, CHR 0xB4, CHR 0xA5, CHR 0xEF, CHR 0xBC, CHR 0x8C,
     CHR 0xE8, CHR 0xAF, CHR 0xB7, CHR 0xE6, CHR 0xA3, CHR 0x80, CHR 0xE6, CHR 0x9F,
     CHR 0xA5, CHR 0xE7, CHR 0x94, CHR 0xA8, CHR 0xE6, CHR 0x88, CHR 0xB7, CHR 0xE5,
     CHR 0x90, CHR 0x8D] @ '' ''"

text \<open>Line 112, in English: \<^verbatim>\<open>and the password are right\<close>.\<close>

definition txt_auth_b :: string where
  "txt_auth_b =
     '' '' @ [CHR 0xE5, CHR 0x92, CHR 0x8C, CHR 0xE5, CHR 0xAF, CHR 0x86, CHR 0xE7,
     CHR 0xA0, CHR 0x81, CHR 0xE6, CHR 0x98, CHR 0xAF, CHR 0xE5, CHR 0x90, CHR 0xA6,
     CHR 0xE6, CHR 0xAD, CHR 0xA3, CHR 0xE7, CHR 0xA1, CHR 0xAE]"

text \<open>Line 114, in English: \<^verbatim>\<open>unknown database\<close>.\<close>

definition txt_nodb_a :: string where
  "txt_nodb_a =
     [CHR 0x0A, CHR 0xE6, CHR 0x9C, CHR 0xAA, CHR 0xE7, CHR 0x9F, CHR 0xA5, CHR 0xE6,
     CHR 0x95, CHR 0xB0, CHR 0xE6, CHR 0x8D, CHR 0xAE, CHR 0xE5, CHR 0xBA,
     CHR 0x93] @ '' ''"

text \<open>Line 114, in English: \<^verbatim>\<open>, please check that the database name is right\<close>.\<close>

definition txt_nodb_b :: string where
  "txt_nodb_b =
     [CHR 0xEF, CHR 0xBC, CHR 0x8C, CHR 0xE8, CHR 0xAF, CHR 0xB7, CHR 0xE7, CHR 0xA1,
     CHR 0xAE, CHR 0xE8, CHR 0xAE, CHR 0xA4, CHR 0xE6, CHR 0x95, CHR 0xB0, CHR 0xE6,
     CHR 0x8D, CHR 0xAE, CHR 0xE5, CHR 0xBA, CHR 0x93, CHR 0xE5, CHR 0x90, CHR 0x8D,
     CHR 0xE7, CHR 0xA7, CHR 0xB0, CHR 0xE6, CHR 0x98, CHR 0xAF, CHR 0xE5, CHR 0x90,
     CHR 0xA6, CHR 0xE6, CHR 0xAD, CHR 0xA3, CHR 0xE7, CHR 0xA1, CHR 0xAE]"

text \<open>Line 130, in English: \<^verbatim>\<open>the query statement must not be empty\<close>.\<close>

definition txt_query_empty :: string where
  "txt_query_empty =
     [CHR 0xE6, CHR 0x9F, CHR 0xA5, CHR 0xE8, CHR 0xAF, CHR 0xA2, CHR 0xE8, CHR 0xAF,
     CHR 0xAD, CHR 0xE5, CHR 0x8F, CHR 0xA5, CHR 0xE4, CHR 0xB8, CHR 0x8D, CHR 0xE8,
     CHR 0x83, CHR 0xBD, CHR 0xE4, CHR 0xB8, CHR 0xBA, CHR 0xE7, CHR 0xA9, CHR 0xBA]"

text \<open>Line 159, in English: \<^verbatim>\<open>executing the query failed:\<close>.\<close>

definition txt_query_failed :: string where
  "txt_query_failed =
     [CHR 0xE6, CHR 0x89, CHR 0xA7, CHR 0xE8, CHR 0xA1, CHR 0x8C, CHR 0xE6, CHR 0x9F,
     CHR 0xA5, CHR 0xE8, CHR 0xAF, CHR 0xA2, CHR 0xE5, CHR 0xA4, CHR 0xB1, CHR 0xE8,
     CHR 0xB4, CHR 0xA5] @ '': ''"

text \<open>Line 161, in English: \<^verbatim>\<open>reason: the query has an unknown column name\<close>.\<close>

definition txt_query_unknown_column :: string where
  "txt_query_unknown_column =
     [CHR 0x0A, CHR 0xE5, CHR 0x8E, CHR 0x9F, CHR 0xE5, CHR 0x9B, CHR 0xA0, CHR 0xEF,
     CHR 0xBC, CHR 0x9A, CHR 0xE6, CHR 0x9F, CHR 0xA5, CHR 0xE8, CHR 0xAF, CHR 0xA2,
     CHR 0xE4, CHR 0xB8, CHR 0xAD, CHR 0xE5, CHR 0x8C, CHR 0x85, CHR 0xE5, CHR 0x90,
     CHR 0xAB, CHR 0xE6, CHR 0x9C, CHR 0xAA, CHR 0xE7, CHR 0x9F, CHR 0xA5, CHR 0xE7,
     CHR 0x9A, CHR 0x84, CHR 0xE5, CHR 0x88, CHR 0x97, CHR 0xE5, CHR 0x90, CHR 0x8D]"

text \<open>Line 163, in English: \<^verbatim>\<open>reason: the queried table does not exist\<close>.\<close>

definition txt_query_no_table :: string where
  "txt_query_no_table =
     [CHR 0x0A, CHR 0xE5, CHR 0x8E, CHR 0x9F, CHR 0xE5, CHR 0x9B, CHR 0xA0, CHR 0xEF,
     CHR 0xBC, CHR 0x9A, CHR 0xE6, CHR 0x9F, CHR 0xA5, CHR 0xE8, CHR 0xAF, CHR 0xA2,
     CHR 0xE7, CHR 0x9A, CHR 0x84, CHR 0xE8, CHR 0xA1, CHR 0xA8, CHR 0xE4, CHR 0xB8,
     CHR 0x8D, CHR 0xE5, CHR 0xAD, CHR 0x98, CHR 0xE5, CHR 0x9C, CHR 0xA8]"

text \<open>Line 165, in English: \<^verbatim>\<open>reason: SQL syntax error\<close>.\<close>

definition txt_query_syntax :: string where
  "txt_query_syntax =
     [CHR 0x0A, CHR 0xE5, CHR 0x8E, CHR 0x9F, CHR 0xE5, CHR 0x9B, CHR 0xA0, CHR 0xEF,
     CHR 0xBC, CHR 0x9A] @ ''SQL'' @ [CHR 0xE8, CHR 0xAF, CHR 0xAD, CHR 0xE6,
     CHR 0xB3, CHR 0x95, CHR 0xE9, CHR 0x94, CHR 0x99, CHR 0xE8, CHR 0xAF, CHR 0xAF]"

text \<open>Line 168, in English: \<^verbatim>\<open>an unknown error happened during execution:\<close>.\<close>

definition txt_query_unknown_error :: string where
  "txt_query_unknown_error =
     [CHR 0xE6, CHR 0x89, CHR 0xA7, CHR 0xE8, CHR 0xA1, CHR 0x8C, CHR 0xE8, CHR 0xBF,
     CHR 0x87, CHR 0xE7, CHR 0xA8, CHR 0x8B, CHR 0xE4, CHR 0xB8, CHR 0xAD, CHR 0xE5,
     CHR 0x8F, CHR 0x91, CHR 0xE7, CHR 0x94, CHR 0x9F, CHR 0xE6, CHR 0x9C, CHR 0xAA,
     CHR 0xE7, CHR 0x9F, CHR 0xA5, CHR 0xE9, CHR 0x94, CHR 0x99, CHR 0xE8, CHR 0xAF,
     CHR 0xAF] @ '': ''"

text \<open>Lines 411 and 483, in English: \<^verbatim>\<open>the table name must not be empty\<close>.\<close>

definition txt_table_name_empty :: string where
  "txt_table_name_empty =
     [CHR 0xE8, CHR 0xA1, CHR 0xA8, CHR 0xE5, CHR 0x90, CHR 0x8D, CHR 0xE4, CHR 0xB8,
     CHR 0x8D, CHR 0xE8, CHR 0x83, CHR 0xBD, CHR 0xE4, CHR 0xB8, CHR 0xBA, CHR 0xE7,
     CHR 0xA9, CHR 0xBA]"

text \<open>Line 414, in English: \<^verbatim>\<open>the data to insert must not be empty\<close>.\<close>

definition txt_insert_empty :: string where
  "txt_insert_empty =
     [CHR 0xE6, CHR 0x8F, CHR 0x92, CHR 0xE5, CHR 0x85, CHR 0xA5, CHR 0xE6, CHR 0x95,
     CHR 0xB0, CHR 0xE6, CHR 0x8D, CHR 0xAE, CHR 0xE4, CHR 0xB8, CHR 0x8D, CHR 0xE8,
     CHR 0x83, CHR 0xBD, CHR 0xE4, CHR 0xB8, CHR 0xBA, CHR 0xE7, CHR 0xA9, CHR 0xBA]"

text \<open>Line 421, in English: \<^verbatim>\<open>wrong data format, a dictionary or a list of dictionaries is expected\<close>.\<close>

definition txt_insert_format :: string where
  "txt_insert_format =
     [CHR 0xE6, CHR 0x95, CHR 0xB0, CHR 0xE6, CHR 0x8D, CHR 0xAE, CHR 0xE6, CHR 0xA0,
     CHR 0xBC, CHR 0xE5, CHR 0xBC, CHR 0x8F, CHR 0xE9, CHR 0x94, CHR 0x99, CHR 0xE8,
     CHR 0xAF, CHR 0xAF, CHR 0xEF, CHR 0xBC, CHR 0x8C, CHR 0xE5, CHR 0xBA, CHR 0x94,
     CHR 0xE4, CHR 0xB8, CHR 0xBA, CHR 0xE5, CHR 0xAD, CHR 0x97, CHR 0xE5, CHR 0x85,
     CHR 0xB8, CHR 0xE6, CHR 0x88, CHR 0x96, CHR 0xE5, CHR 0xAD, CHR 0x97, CHR 0xE5,
     CHR 0x85, CHR 0xB8, CHR 0xE5, CHR 0x88, CHR 0x97, CHR 0xE8, CHR 0xA1, CHR 0xA8]"

text \<open>Line 449, in English: \<^verbatim>\<open>successfully, into the table\<close>.\<close>

definition txt_insert_ok_a :: string where
  "txt_insert_ok_a =
     [CHR 0xE6, CHR 0x88, CHR 0x90, CHR 0xE5, CHR 0x8A, CHR 0x9F, CHR 0xE5, CHR 0x90,
     CHR 0x91, CHR 0xE8, CHR 0xA1, CHR 0xA8] @ '' ''"

text \<open>Line 449, in English: \<^verbatim>\<open>inserted\<close>.\<close>

definition txt_insert_ok_b :: string where
  "txt_insert_ok_b =
     '' '' @ [CHR 0xE6, CHR 0x8F, CHR 0x92, CHR 0xE5, CHR 0x85, CHR 0xA5] @ '' ''"

text \<open>Line 449, in English: \<^verbatim>\<open>records\<close>.\<close>

definition txt_insert_ok_c :: string where
  "txt_insert_ok_c =
     '' '' @ [CHR 0xE6, CHR 0x9D, CHR 0xA1, CHR 0xE6, CHR 0x95, CHR 0xB0, CHR 0xE6,
     CHR 0x8D, CHR 0xAE]"

text \<open>Line 452, in English: \<^verbatim>\<open>inserting the data failed:\<close>.\<close>

definition txt_insert_failed :: string where
  "txt_insert_failed =
     [CHR 0xE6, CHR 0x8F, CHR 0x92, CHR 0xE5, CHR 0x85, CHR 0xA5, CHR 0xE6, CHR 0x95,
     CHR 0xB0, CHR 0xE6, CHR 0x8D, CHR 0xAE, CHR 0xE5, CHR 0xA4, CHR 0xB1, CHR 0xE8,
     CHR 0xB4, CHR 0xA5] @ '': ''"

text \<open>Lines 454 and 526, in English: \<^verbatim>\<open>reason: the table\<close>.\<close>

definition txt_reason_table_a :: string where
  "txt_reason_table_a =
     [CHR 0x0A, CHR 0xE5, CHR 0x8E, CHR 0x9F, CHR 0xE5, CHR 0x9B, CHR 0xA0, CHR 0xEF,
     CHR 0xBC, CHR 0x9A, CHR 0xE8, CHR 0xA1, CHR 0xA8] @ '' ''"

text \<open>Lines 454 and 526, in English: \<^verbatim>\<open>does not exist\<close>.\<close>

definition txt_reason_table_b :: string where
  "txt_reason_table_b =
     '' '' @ [CHR 0xE4, CHR 0xB8, CHR 0x8D, CHR 0xE5, CHR 0xAD, CHR 0x98, CHR 0xE5,
     CHR 0x9C, CHR 0xA8]"

text \<open>Line 456, in English: \<^verbatim>\<open>reason: a constraint of the table is violated\<close>.\<close>

definition txt_insert_constraint :: string where
  "txt_insert_constraint =
     [CHR 0x0A, CHR 0xE5, CHR 0x8E, CHR 0x9F, CHR 0xE5, CHR 0x9B, CHR 0xA0, CHR 0xEF,
     CHR 0xBC, CHR 0x9A, CHR 0xE8, CHR 0xBF, CHR 0x9D, CHR 0xE5, CHR 0x8F, CHR 0x8D,
     CHR 0xE8, CHR 0xA1, CHR 0xA8, CHR 0xE7, CHR 0xBA, CHR 0xA6, CHR 0xE6, CHR 0x9D,
     CHR 0x9F, CHR 0xE6, CHR 0x9D, CHR 0xA1, CHR 0xE4, CHR 0xBB, CHR 0xB6]"

text \<open>Line 458, in English: \<^verbatim>\<open>reason: the table has no such column\<close>.\<close>

definition txt_insert_no_column :: string where
  "txt_insert_no_column =
     [CHR 0x0A, CHR 0xE5, CHR 0x8E, CHR 0x9F, CHR 0xE5, CHR 0x9B, CHR 0xA0, CHR 0xEF,
     CHR 0xBC, CHR 0x9A, CHR 0xE8, CHR 0xA1, CHR 0xA8, CHR 0xE4, CHR 0xB8, CHR 0xAD,
     CHR 0xE4, CHR 0xB8, CHR 0x8D, CHR 0xE5, CHR 0xAD, CHR 0x98, CHR 0xE5, CHR 0x9C,
     CHR 0xA8, CHR 0xE6, CHR 0x8C, CHR 0x87, CHR 0xE5, CHR 0xAE, CHR 0x9A, CHR 0xE7,
     CHR 0x9A, CHR 0x84, CHR 0xE5, CHR 0x88, CHR 0x97]"

text \<open>Line 461, in English: \<^verbatim>\<open>an unknown error happened while inserting the data:\<close>.\<close>

definition txt_insert_unknown_error :: string where
  "txt_insert_unknown_error =
     [CHR 0xE6, CHR 0x8F, CHR 0x92, CHR 0xE5, CHR 0x85, CHR 0xA5, CHR 0xE6, CHR 0x95,
     CHR 0xB0, CHR 0xE6, CHR 0x8D, CHR 0xAE, CHR 0xE6, CHR 0x97, CHR 0xB6, CHR 0xE5,
     CHR 0x8F, CHR 0x91, CHR 0xE7, CHR 0x94, CHR 0x9F, CHR 0xE6, CHR 0x9C, CHR 0xAA,
     CHR 0xE7, CHR 0x9F, CHR 0xA5, CHR 0xE9, CHR 0x94, CHR 0x99, CHR 0xE8, CHR 0xAF,
     CHR 0xAF] @ '': ''"

text \<open>Line 486, in English: \<^verbatim>\<open>the data to update must not be empty and must be a dictionary\<close>.\<close>

definition txt_update_data_empty :: string where
  "txt_update_data_empty =
     [CHR 0xE6, CHR 0x9B, CHR 0xB4, CHR 0xE6, CHR 0x96, CHR 0xB0, CHR 0xE6, CHR 0x95,
     CHR 0xB0, CHR 0xE6, CHR 0x8D, CHR 0xAE, CHR 0xE4, CHR 0xB8, CHR 0x8D, CHR 0xE8,
     CHR 0x83, CHR 0xBD, CHR 0xE4, CHR 0xB8, CHR 0xBA, CHR 0xE7, CHR 0xA9, CHR 0xBA,
     CHR 0xE4, CHR 0xB8, CHR 0x94, CHR 0xE5, CHR 0xBF, CHR 0x85, CHR 0xE9, CHR 0xA1,
     CHR 0xBB, CHR 0xE6, CHR 0x98, CHR 0xAF, CHR 0xE5, CHR 0xAD, CHR 0x97, CHR 0xE5,
     CHR 0x85, CHR 0xB8, CHR 0xE6, CHR 0xA0, CHR 0xBC, CHR 0xE5, CHR 0xBC, CHR 0x8F]"

text \<open>Line 489, in English: \<^verbatim>\<open>the update condition must not be empty; for safety a WHERE condition is required\<close>.\<close>

definition txt_update_condition_empty :: string where
  "txt_update_condition_empty =
     [CHR 0xE6, CHR 0x9B, CHR 0xB4, CHR 0xE6, CHR 0x96, CHR 0xB0, CHR 0xE6, CHR 0x9D,
     CHR 0xA1, CHR 0xE4, CHR 0xBB, CHR 0xB6, CHR 0xE4, CHR 0xB8, CHR 0x8D, CHR 0xE8,
     CHR 0x83, CHR 0xBD, CHR 0xE4, CHR 0xB8, CHR 0xBA, CHR 0xE7, CHR 0xA9, CHR 0xBA,
     CHR 0xEF, CHR 0xBC, CHR 0x8C, CHR 0xE4, CHR 0xB8, CHR 0xBA, CHR 0xE4, CHR 0xBA,
     CHR 0x86, CHR 0xE5, CHR 0xAE, CHR 0x89, CHR 0xE5, CHR 0x85, CHR 0xA8, CHR 0xE8,
     CHR 0xB5, CHR 0xB7, CHR 0xE8, CHR 0xA7, CHR 0x81, CHR 0xEF, CHR 0xBC, CHR 0x8C,
     CHR 0xE5, CHR 0xBF, CHR 0x85, CHR 0xE9, CHR 0xA1, CHR 0xBB, CHR 0xE6, CHR 0x8F,
     CHR 0x90, CHR 0xE4, CHR 0xBE, CHR 0x9B] @ ''WHERE'' @ [CHR 0xE6, CHR 0x9D,
     CHR 0xA1, CHR 0xE4, CHR 0xBB, CHR 0xB6]"

text \<open>Line 521, in English: \<^verbatim>\<open>successfully updated, in the table\<close>.\<close>

definition txt_update_ok_a :: string where
  "txt_update_ok_a =
     [CHR 0xE6, CHR 0x88, CHR 0x90, CHR 0xE5, CHR 0x8A, CHR 0x9F, CHR 0xE6, CHR 0x9B,
     CHR 0xB4, CHR 0xE6, CHR 0x96, CHR 0xB0, CHR 0xE8, CHR 0xA1, CHR 0xA8] @ '' ''"

text \<open>Line 521, in English: \<^verbatim>\<open>the following number of\<close>.\<close>

definition txt_update_ok_b :: string where
  "txt_update_ok_b =
     '' '' @ [CHR 0xE4, CHR 0xB8, CHR 0xAD, CHR 0xE7, CHR 0x9A, CHR 0x84] @ '' ''"

text \<open>Line 521, in English: \<^verbatim>\<open>records\<close>.\<close>

definition txt_update_ok_c :: string where
  "txt_update_ok_c =
     '' '' @ [CHR 0xE6, CHR 0x9D, CHR 0xA1, CHR 0xE6, CHR 0x95, CHR 0xB0, CHR 0xE6,
     CHR 0x8D, CHR 0xAE]"

text \<open>Line 524, in English: \<^verbatim>\<open>updating the data failed:\<close>.\<close>

definition txt_update_failed :: string where
  "txt_update_failed =
     [CHR 0xE6, CHR 0x9B, CHR 0xB4, CHR 0xE6, CHR 0x96, CHR 0xB0, CHR 0xE6, CHR 0x95,
     CHR 0xB0, CHR 0xE6, CHR 0x8D, CHR 0xAE, CHR 0xE5, CHR 0xA4, CHR 0xB1, CHR 0xE8,
     CHR 0xB4, CHR 0xA5] @ '': ''"

text \<open>Line 528, in English: \<^verbatim>\<open>reason: the column to update does not exist\<close>.\<close>

definition txt_update_no_column :: string where
  "txt_update_no_column =
     [CHR 0x0A, CHR 0xE5, CHR 0x8E, CHR 0x9F, CHR 0xE5, CHR 0x9B, CHR 0xA0, CHR 0xEF,
     CHR 0xBC, CHR 0x9A, CHR 0xE5, CHR 0xB0, CHR 0x9D, CHR 0xE8, CHR 0xAF, CHR 0x95,
     CHR 0xE6, CHR 0x9B, CHR 0xB4, CHR 0xE6, CHR 0x96, CHR 0xB0, CHR 0xE4, CHR 0xB8,
     CHR 0x8D, CHR 0xE5, CHR 0xAD, CHR 0x98, CHR 0xE5, CHR 0x9C, CHR 0xA8, CHR 0xE7,
     CHR 0x9A, CHR 0x84, CHR 0xE5, CHR 0x88, CHR 0x97]"

text \<open>Line 530, in English: \<^verbatim>\<open>reason: SQL syntax error, please check the condition\<close>.\<close>

definition txt_update_syntax :: string where
  "txt_update_syntax =
     [CHR 0x0A, CHR 0xE5, CHR 0x8E, CHR 0x9F, CHR 0xE5, CHR 0x9B, CHR 0xA0, CHR 0xEF,
     CHR 0xBC, CHR 0x9A] @ ''SQL'' @ [CHR 0xE8, CHR 0xAF, CHR 0xAD, CHR 0xE6,
     CHR 0xB3, CHR 0x95, CHR 0xE9, CHR 0x94, CHR 0x99, CHR 0xE8, CHR 0xAF, CHR 0xAF,
     CHR 0xEF, CHR 0xBC, CHR 0x8C, CHR 0xE8, CHR 0xAF, CHR 0xB7, CHR 0xE6, CHR 0xA3,
     CHR 0x80, CHR 0xE6, CHR 0x9F, CHR 0xA5, CHR 0xE6, CHR 0x9D, CHR 0xA1, CHR 0xE4,
     CHR 0xBB, CHR 0xB6, CHR 0xE8, CHR 0xAF, CHR 0xAD, CHR 0xE5, CHR 0x8F, CHR 0xA5]"

text \<open>Line 533, in English: \<^verbatim>\<open>an unknown error happened while updating the data:\<close>.\<close>

definition txt_update_unknown_error :: string where
  "txt_update_unknown_error =
     [CHR 0xE6, CHR 0x9B, CHR 0xB4, CHR 0xE6, CHR 0x96, CHR 0xB0, CHR 0xE6, CHR 0x95,
     CHR 0xB0, CHR 0xE6, CHR 0x8D, CHR 0xAE, CHR 0xE6, CHR 0x97, CHR 0xB6, CHR 0xE5,
     CHR 0x8F, CHR 0x91, CHR 0xE7, CHR 0x94, CHR 0x9F, CHR 0xE6, CHR 0x9C, CHR 0xAA,
     CHR 0xE7, CHR 0x9F, CHR 0xA5, CHR 0xE9, CHR 0x94, CHR 0x99, CHR 0xE8, CHR 0xAF,
     CHR 0xAF] @ '': ''"

section \<open>Exceptions, the database driver and the program state\<close>

text \<open>
  The exceptions the program meets. \<open>Error\<close> is \<^verbatim>\<open>psycopg2.Error\<close> (any subclass),
  the only class the first \<^verbatim>\<open>except\<close> clause of each handler and the retry loop
  catch. \<open>Exception\<close> is a plain \<^verbatim>\<open>Exception(msg)\<close>, as \<^verbatim>\<open>get_connection\<close> raises,
  or any other exception of the driver that is not a \<^verbatim>\<open>psycopg2.Error\<close>. The text
  carried is \<^verbatim>\<open>str(e)\<close>, except for \<open>KeyError\<close>, which carries the missing key.
\<close>

datatype exn =
    Error string
  | Exception string
  | KeyError string
  | TypeError string
  | IndexError string
  | UnboundLocalError string

fun is_Error :: "exn \<Rightarrow> bool" where
  "is_Error (Error s) = True"
| "is_Error e = False"

text \<open>\<^verbatim>\<open>str(e)\<close>; for a \<^verbatim>\<open>KeyError\<close> it is the quoted key.\<close>

fun exn_str :: "exn \<Rightarrow> string" where
  "exn_str (Error s) = s"
| "exn_str (Exception s) = s"
| "exn_str (KeyError k) = [CHR 0x27] @ k @ [CHR 0x27]"
| "exn_str (TypeError s) = s"
| "exn_str (IndexError s) = s"
| "exn_str (UnboundLocalError s) = s"

text \<open>
  The calls the program makes on \<^verbatim>\<open>psycopg2\<close>, in the order made, are the trace of a
  run. One handler call opens at most one connection and one cursor, so neither
  needs a name.
\<close>

datatype call =
    Connect pydict
  | Cursor
  | Execute string "pyval list"
  | ExecuteMany string "pyval list list"
  | FetchAll
  | Commit
  | CursorClose
  | ConnClose

text \<open>
  The driver and the database behind it are outside the program. They are a parameter:
  each operation answers from the calls made so far and its own arguments. \<open>None\<close> is
  a normal return, \<open>Some e\<close> raises \<open>e\<close>. \<^verbatim>\<open>cursor.rowcount\<close> and \<^verbatim>\<open>conn.closed\<close>
  are attribute reads and are not recorded in the trace.
\<close>

record driver =
  psycopg2_connect :: "call list \<Rightarrow> pydict \<Rightarrow> exn option"
  conn_cursor :: "call list \<Rightarrow> exn option"
  cursor_execute :: "call list \<Rightarrow> string \<Rightarrow> pyval list \<Rightarrow> exn option"
  cursor_executemany :: "call list \<Rightarrow> string \<Rightarrow> pyval list list \<Rightarrow> exn option"
  cursor_fetchall :: "call list \<Rightarrow> exn + pydict list"
  cursor_rowcount :: "call list \<Rightarrow> int"
  conn_commit :: "call list \<Rightarrow> exn option"
  conn_closed :: "call list \<Rightarrow> bool"
  cursor_close :: "call list \<Rightarrow> exn option"
  conn_close :: "call list \<Rightarrow> exn option"

text \<open>
  Dictionaries are mutable objects that may be shared, so the configuration
  dictionaries live in a heap and are named by their address. The module globals
  \<^verbatim>\<open>GLOBAL_DB_CONFIG\<close> and \<^verbatim>\<open>DEFAULT_DB_CONFIG\<close> hold such addresses.
\<close>

record pystate =
  heap :: "pydict list"
  GLOBAL_DB_CONFIG :: "nat option"
  DEFAULT_DB_CONFIG :: nat
  trace :: "call list"
  stdout :: "string list"

text \<open>\<^verbatim>\<open>d.copy()\<close> allocates a new dictionary with the same items.\<close>

definition copy :: "nat \<Rightarrow> pystate \<Rightarrow> nat \<times> pystate" where
  "copy a st = (length (heap st), st\<lparr>heap := heap st @ [heap st ! a]\<rparr>)"

definition heap_store :: "nat \<Rightarrow> pydict \<Rightarrow> pystate \<Rightarrow> pystate" where
  "heap_store a d st = st\<lparr>heap := (heap st)[a := d]\<rparr>"

definition record_call :: "call \<Rightarrow> pystate \<Rightarrow> pystate" where
  "record_call c st = st\<lparr>trace := trace st @ [c]\<rparr>"

definition print :: "string \<Rightarrow> pystate \<Rightarrow> pystate" where
  "print s st = st\<lparr>stdout := stdout st @ [s]\<rparr>"

text \<open>\<^verbatim>\<open>d[k]\<close> raises \<^verbatim>\<open>KeyError\<close> on a missing key.\<close>

definition subscript :: "pydict \<Rightarrow> string \<Rightarrow> exn + pyval" where
  "subscript d k = (case map_of d k of None \<Rightarrow> Inl (KeyError k) | Some v \<Rightarrow> Inr v)"

section \<open>Configuration\<close>

text \<open>
  \<^verbatim>\<open>DEFAULT_DB_CONFIG\<close> (lines 25 to 33) is a dictionary literal of seven keys. Its
  values are read from the environment when the module is loaded; they are the
  fields of \<open>env\<close>, already defaulted and converted.
\<close>

record env =
  POSTGRES_HOST :: string
  POSTGRES_PORT :: int
  POSTGRES_USER :: string
  POSTGRES_PASSWORD :: string
  POSTGRES_DATABASE :: string
  POSTGRES_CONNECTION_TIMEOUT :: int
  POSTGRES_CONNECT_RETRY_COUNT :: int

definition default_db_config :: "env \<Rightarrow> pydict" where
  "default_db_config e =
     [(''host'', PStr (POSTGRES_HOST e)),
      (''port'', PInt (POSTGRES_PORT e)),
      (''user'', PStr (POSTGRES_USER e)),
      (''password'', PStr (POSTGRES_PASSWORD e)),
      (''database'', PStr (POSTGRES_DATABASE e)),
      (''connect_timeout'', PInt (POSTGRES_CONNECTION_TIMEOUT e)),
      (''connect_retry_count'', PInt (POSTGRES_CONNECT_RETRY_COUNT e))]"

text \<open>The state after the module is loaded: \<^verbatim>\<open>GLOBAL_DB_CONFIG = None\<close>.\<close>

definition module_state :: "env \<Rightarrow> pystate" where
  "module_state e =
     \<lparr>heap = [default_db_config e], GLOBAL_DB_CONFIG = None, DEFAULT_DB_CONFIG = 0,
      trace = [], stdout = []\<rparr>"

text \<open>The parsed command line: an option not given is \<^verbatim>\<open>None\<close>.\<close>

record args =
  host :: "string option"
  port :: "int option"
  user :: "string option"
  password :: "string option"
  database :: "string option"
  connection_timeout :: "int option"
  connect_retry_count :: "int option"

text \<open>\<^verbatim>\<open>if args.x: cmd_config[key] = args.x\<close>, for a text and for an integer option.\<close>

definition set_str_arg :: "string option \<Rightarrow> string \<Rightarrow> pydict \<Rightarrow> pydict" where
  "set_str_arg a k d =
     (case a of None \<Rightarrow> d | Some s \<Rightarrow> if s \<noteq> [] then AList.update k (PStr s) d else d)"

definition set_int_arg :: "int option \<Rightarrow> string \<Rightarrow> pydict \<Rightarrow> pydict" where
  "set_int_arg a k d =
     (case a of None \<Rightarrow> d | Some n \<Rightarrow> if n \<noteq> 0 then AList.update k (PInt n) d else d)"

text \<open>Lines 38 to 53 of \<^verbatim>\<open>get_config_from_args\<close>: the local dictionary \<^verbatim>\<open>cmd_config\<close>.\<close>

definition cmd_config :: "args \<Rightarrow> pydict" where
  "cmd_config a =
     set_int_arg (connect_retry_count a) ''connect_retry_count''
      (set_int_arg (connection_timeout a) ''connect_timeout''
        (set_str_arg (database a) ''database''
          (set_str_arg (password a) ''password''
            (set_str_arg (user a) ''user''
              (set_int_arg (port a) ''port''
                (set_str_arg (host a) ''host'' []))))))"

definition get_config_from_args :: "args \<Rightarrow> pystate \<Rightarrow> nat \<times> pystate" where
  "get_config_from_args a st =
     (let (config, st1) = copy (DEFAULT_DB_CONFIG st) st
      in (config, heap_store config (dict_update (heap st1 ! config) (cmd_config a)) st1))"

text \<open>Line 541: \<^verbatim>\<open>GLOBAL_DB_CONFIG = get_config_from_args()\<close>.\<close>

definition main_init :: "args \<Rightarrow> pystate \<Rightarrow> pystate" where
  "main_init a st =
     (let (config, st1) = get_config_from_args a st in st1\<lparr>GLOBAL_DB_CONFIG := Some config\<rparr>)"

section \<open>\<^verbatim>\<open>get_connection\<close>\<close>

text \<open>Lines 74 to 86: the merged copy that \<^verbatim>\<open>db_config\<close> is rebound to.\<close>

definition base_config :: "pystate \<Rightarrow> nat" where
  "base_config st =
     (case GLOBAL_DB_CONFIG st of Some g \<Rightarrow> g | None \<Rightarrow> DEFAULT_DB_CONFIG st)"

definition merge_config :: "nat option \<Rightarrow> pystate \<Rightarrow> nat \<times> pystate" where
  "merge_config db_config st =
     (case db_config of
        None \<Rightarrow> copy (base_config st) st
      | Some c \<Rightarrow>
          (let (config, st1) = copy (base_config st) st
           in (config, heap_store config (dict_update (heap st1 ! config) (heap st1 ! c)) st1)))"

text \<open>
  \<^verbatim>\<open>retry_count < max_retries\<close>: \<^verbatim>\<open>max_retries\<close> is whatever value the profile
  holds. A \<^verbatim>\<open>bool\<close> is an integer in Python; \<^verbatim>\<open>None\<close> and a text raise.
\<close>

fun lt_int :: "int \<Rightarrow> pyval \<Rightarrow> exn + bool" where
  "lt_int i (PInt n) = Inr (i < n)"
| "lt_int i (PBool b) = Inr (i < (if b then 1 else 0))"
| "lt_int i PNone =
     Inl (TypeError ([CHR 0x27] @ ''<'' @ [CHR 0x27] @ '' not supported between instances of ''
            @ [CHR 0x27] @ ''int'' @ [CHR 0x27] @ '' and '' @ [CHR 0x27] @ ''NoneType'' @ [CHR 0x27]))"
| "lt_int i (PStr s) =
     Inl (TypeError ([CHR 0x27] @ ''<'' @ [CHR 0x27] @ '' not supported between instances of ''
            @ [CHR 0x27] @ ''int'' @ [CHR 0x27] @ '' and '' @ [CHR 0x27] @ ''str'' @ [CHR 0x27]))"

text \<open>How the \<^verbatim>\<open>while\<close> loop of lines 92 to 104 is left.\<close>

datatype loop_exit =
    LoopReturn
  | LoopRaise exn
  | LoopEnd int "exn option"

fun int_bound :: "pyval \<Rightarrow> int" where
  "int_bound (PInt n) = n"
| "int_bound (PBool b) = (if b then 1 else 0)"
| "int_bound v = 0"

function connect_loop ::
  "driver \<Rightarrow> int \<Rightarrow> exn option \<Rightarrow> pyval \<Rightarrow> nat \<Rightarrow> pystate \<Rightarrow> loop_exit \<times> pystate" where
  "connect_loop drv retry_count last_error max_retries db_config st =
     (case lt_int retry_count max_retries of
        Inl e \<Rightarrow> (LoopRaise e, st)
      | Inr False \<Rightarrow> (LoopEnd retry_count last_error, st)
      | Inr True \<Rightarrow>
          (let (conn_params, st1) = copy db_config st;
               kwargs = heap st1 ! conn_params;
               st2 = record_call (Connect kwargs) st1
           in case psycopg2_connect drv (trace st1) kwargs of
                None \<Rightarrow> (LoopReturn, st2)
              | Some e \<Rightarrow>
                  if is_Error e then
                    (let st3 = (if lt_int (retry_count + 1) max_retries = Inr True
                                then print (txt_retry_print_a @ str_int (retry_count + 1)
                                             @ txt_retry_print_b @ exn_str e) st2
                                else st2)
                     in connect_loop drv (retry_count + 1) (Some e) max_retries db_config st3)
                  else (LoopRaise e, st2)))"
  by pat_completeness auto
termination
  apply (relation "measure (\<lambda>(drv, retry_count, last_error, max_retries, db_config, st).
                   nat (int_bound max_retries - retry_count))")
  apply simp
  subgoal for drv retry_count last_error max_retries
    by (cases max_retries) (auto split: if_splits)
  done

declare connect_loop.simps [simp del]

text \<open>\<^verbatim>\<open>str(last_error)\<close>, where \<^verbatim>\<open>last_error\<close> may still be \<^verbatim>\<open>None\<close>.\<close>

fun str_last_error :: "exn option \<Rightarrow> string" where
  "str_last_error None = ''None''"
| "str_last_error (Some e) = exn_str e"

text \<open>
  Lines 107 to 115: the exception raised after the loop. It is the
  \<^verbatim>\<open>Exception(error_message)\<close> of line 115, unless a subscript of lines 109 to 114
  raises \<^verbatim>\<open>KeyError\<close> first.
\<close>

definition connection_error :: "int \<Rightarrow> exn option \<Rightarrow> pydict \<Rightarrow> exn" where
  "connection_error retry_count last_error db_config =
     (let error_message = txt_conn_error_a @ str_int retry_count @ txt_conn_error_b
                            @ str_last_error last_error;
          raw = lower (str_last_error last_error)
      in if contains ''connection refused'' raw then
           (case subscript db_config ''host'' of
              Inl e \<Rightarrow> e
            | Inr h \<Rightarrow>
                (case subscript db_config ''port'' of
                   Inl e \<Rightarrow> e
                 | Inr p \<Rightarrow>
                     Exception (error_message
                       @ txt_refused_a @ py_str h @ txt_refused_b @ py_str p @ txt_refused_c
                       @ txt_timeout_a @ py_str (dict_get db_config ''connect_timeout'' (PInt 10))
                       @ txt_timeout_b)))
         else if contains ''password authentication failed'' raw then
           (case subscript db_config ''user'' of
              Inl e \<Rightarrow> e
            | Inr u \<Rightarrow> Exception (error_message @ txt_auth_a @ py_str u @ txt_auth_b))
         else if contains ''does not exist'' raw \<and> contains ''database'' raw then
           (case subscript db_config ''database'' of
              Inl e \<Rightarrow> e
            | Inr d \<Rightarrow> Exception (error_message @ txt_nodb_a @ py_str d @ txt_nodb_b))
         else Exception error_message)"

text \<open>
  \<^verbatim>\<open>get_connection\<close>: \<open>Inr ()\<close> is the connection returned, \<open>Inl e\<close> the exception
  raised.
\<close>

definition get_connection :: "driver \<Rightarrow> nat option \<Rightarrow> pystate \<Rightarrow> (exn + unit) \<times> pystate" where
  "get_connection drv db_config st =
     (let (cfg, st1) = merge_config db_config st;
          (max_retries, rest) = dict_pop (heap st1 ! cfg) ''connect_retry_count'' (PInt 3);
          st2 = heap_store cfg rest st1
      in case connect_loop drv 0 None max_retries cfg st2 of
           (LoopReturn, st3) \<Rightarrow> (Inr (), st3)
         | (LoopRaise e, st3) \<Rightarrow> (Inl e, st3)
         | (LoopEnd retry_count last_error, st3) \<Rightarrow>
             (Inl (connection_error retry_count last_error (heap st3 ! cfg)), st3))"

section \<open>The operation handlers\<close>

text \<open>
  A handler returns a dictionary (\<open>Inr\<close>) or lets an exception reach its caller
  (\<open>Inl\<close>). The values of a result dictionary may be lists of rows, so they are
  \<^typ>\<open>pydata\<close>.
\<close>

type_synonym result = "(string \<times> pydata) list"

text \<open>
  Which of the local variables \<^verbatim>\<open>conn\<close> and \<^verbatim>\<open>cursor\<close> a \<^verbatim>\<open>try\<close> block has
  assigned when it is left. \<^verbatim>\<open>cursor\<close> is assigned right after \<^verbatim>\<open>conn\<close> in every
  handler.
\<close>

datatype locals = NoConn | ConnOnly | ConnAndCursor

text \<open>
  The \<^verbatim>\<open>finally\<close> block, the same in every handler:
  \<^verbatim>\<open>if 'conn' in locals() and not conn.closed: cursor.close(); conn.close()\<close>.
  An exception raised here replaces the pending \<^verbatim>\<open>return\<close>. Reading the
  unassigned local \<^verbatim>\<open>cursor\<close> raises \<^verbatim>\<open>UnboundLocalError\<close>; its text, never read
  by the program, is that of Python 3.11.
\<close>

definition finally_close :: "driver \<Rightarrow> locals \<Rightarrow> exn + result \<Rightarrow> pystate \<Rightarrow> (exn + result) \<times> pystate" where
  "finally_close drv l r st =
     (if l \<noteq> NoConn \<and> \<not> conn_closed drv (trace st) then
        (if l = ConnOnly then
           (Inl (UnboundLocalError (''cannot access local variable '' @ [CHR 0x27] @ ''cursor''
                   @ [CHR 0x27] @ '' where it is not associated with a value'')), st)
         else
           (let st1 = record_call CursorClose st
            in case cursor_close drv (trace st) of
                 Some e \<Rightarrow> (Inl e, st1)
               | None \<Rightarrow>
                   (let st2 = record_call ConnClose st1
                    in case conn_close drv (trace st1) of
                         Some e \<Rightarrow> (Inl e, st2)
                       | None \<Rightarrow> (r, st2))))
      else (r, st))"

text \<open>
  The first two statements of every \<^verbatim>\<open>try\<close> block that reaches the database:
  \<^verbatim>\<open>conn = get_connection(db_config); cursor = conn.cursor(...)\<close>.
\<close>

definition open_cursor :: "driver \<Rightarrow> nat option \<Rightarrow> pystate \<Rightarrow> exn option \<times> locals \<times> pystate" where
  "open_cursor drv db_config st =
     (case get_connection drv db_config st of
        (Inl e, st1) \<Rightarrow> (Some e, NoConn, st1)
      | (Inr u, st1) \<Rightarrow>
          (case conn_cursor drv (trace st1) of
             Some e \<Rightarrow> (Some e, ConnOnly, record_call Cursor st1)
           | None \<Rightarrow> (None, ConnAndCursor, record_call Cursor st1)))"

subsection \<open>\<^verbatim>\<open>execute_query\<close>\<close>

text \<open>Lines 141 and 142.\<close>

definition is_result_query :: "string \<Rightarrow> bool" where
  "is_result_query query =
     (let query_upper = upper (strip query)
      in startswith query_upper ''SELECT'' \<or> startswith query_upper ''SHOW''
         \<or> startswith query_upper ''DESCRIBE'' \<or> startswith query_upper ''EXPLAIN'')"

text \<open>Lines 136 to 157, the \<^verbatim>\<open>try\<close> block.\<close>

definition execute_query_try ::
  "driver \<Rightarrow> string \<Rightarrow> pyval list \<Rightarrow> nat option \<Rightarrow> pystate \<Rightarrow> (exn + result) \<times> locals \<times> pystate" where
  "execute_query_try drv query params db_config st =
     (case open_cursor drv db_config st of
        (Some e, l, st1) \<Rightarrow> (Inl e, l, st1)
      | (None, l, st1) \<Rightarrow>
          (let st2 = record_call (Execute query params) st1
           in case cursor_execute drv (trace st1) query params of
                Some e \<Rightarrow> (Inl e, l, st2)
              | None \<Rightarrow>
                  if is_result_query query then
                    (let st3 = record_call FetchAll st2
                     in case cursor_fetchall drv (trace st2) of
                          Inl e \<Rightarrow> (Inl e, l, st3)
                        | Inr results \<Rightarrow>
                            (Inr [(''success'', DVal (PBool True)),
                                  (''rows'', DList (map DDict results)),
                                  (''row_count'', DVal (PInt (int (length results))))], l, st3))
                  else
                    (let st3 = record_call Commit st2
                     in case conn_commit drv (trace st2) of
                          Some e \<Rightarrow> (Inl e, l, st3)
                        | None \<Rightarrow>
                            (Inr [(''success'', DVal (PBool True)),
                                  (''affected_rows'', DVal (PInt (cursor_rowcount drv (trace st3))))],
                             l, st3))))"

text \<open>Lines 158 to 168, the two \<^verbatim>\<open>except\<close> clauses.\<close>

definition execute_query_except :: "string \<Rightarrow> exn \<Rightarrow> result" where
  "execute_query_except query e =
     (if is_Error e then
        (let raw = lower (exn_str e);
             error_message = txt_query_failed @ exn_str e
               @ (if contains ''column'' raw \<and> contains ''does not exist'' raw
                    then txt_query_unknown_column
                  else if contains ''relation'' raw \<and> contains ''does not exist'' raw
                    then txt_query_no_table
                  else if contains ''syntax error'' raw then txt_query_syntax
                  else [])
         in [(''error'', DVal (PStr error_message)), (''query'', DVal (PStr query))])
      else [(''error'', DVal (PStr (txt_query_unknown_error @ exn_str e))),
            (''query'', DVal (PStr query))])"

definition execute_query ::
  "driver \<Rightarrow> string \<Rightarrow> pyval list option \<Rightarrow> nat option \<Rightarrow> pystate \<Rightarrow> (exn + result) \<times> pystate" where
  "execute_query drv query params db_config st =
     (if query = [] then (Inr [(''error'', DVal (PStr txt_query_empty))], st)
      else
        (let params = (case params of None \<Rightarrow> [] | Some p \<Rightarrow> p)
         in case execute_query_try drv query params db_config st of
              (Inl e, l, st1) \<Rightarrow> finally_close drv l (Inr (execute_query_except query e)) st1
            | (Inr r, l, st1) \<Rightarrow> finally_close drv l (Inr r) st1))"

subsection \<open>\<^verbatim>\<open>insert_data\<close>\<close>

text \<open>
  Iterating \<^verbatim>\<open>data\<close> in \<^verbatim>\<open>all(isinstance(item, dict) for item in data)\<close>: a list
  gives its items, a text its characters, and a number or a truth value is not
  iterable. A dictionary has been wrapped in a list before.
\<close>

fun iter_data :: "pydata \<Rightarrow> exn + pydata list" where
  "iter_data (DList xs) = Inr xs"
| "iter_data (DDict d) = Inr (map (\<lambda>(k, v). DVal (PStr k)) d)"
| "iter_data (DVal (PStr s)) = Inr (map (\<lambda>c. DVal (PStr [c])) s)"
| "iter_data (DVal (PInt n)) =
     Inl (TypeError ([CHR 0x27] @ ''int'' @ [CHR 0x27] @ '' object is not iterable''))"
| "iter_data (DVal (PBool b)) =
     Inl (TypeError ([CHR 0x27] @ ''bool'' @ [CHR 0x27] @ '' object is not iterable''))"
| "iter_data (DVal PNone) =
     Inl (TypeError ([CHR 0x27] @ ''NoneType'' @ [CHR 0x27] @ '' object is not iterable''))"

text \<open>The items as dictionaries, when every one of them is a dictionary.\<close>

fun as_dicts :: "pydata list \<Rightarrow> pydict list option" where
  "as_dicts [] = Some []"
| "as_dicts (DDict d # xs) = map_option ((#) d) (as_dicts xs)"
| "as_dicts (x # xs) = None"

text \<open>Lines 428 to 440: the statement text and the rows of values.\<close>

definition insert_sql :: "string \<Rightarrow> string \<Rightarrow> string list \<Rightarrow> string" where
  "insert_sql schema_name table_name columns =
     (let placeholders = join '', '' (replicate (length columns) ''%s'');
          column_str = join '', '' columns
      in ''INSERT INTO '' @ schema_name @ ''.'' @ table_name @ '' ('' @ column_str
           @ '') VALUES ('' @ placeholders @ '')'')"

definition insert_values :: "string list \<Rightarrow> pydict list \<Rightarrow> pyval list list" where
  "insert_values columns data = map (\<lambda>item. map (\<lambda>col. dict_get item col PNone) columns) data"

text \<open>Lines 424 to 450, the \<^verbatim>\<open>try\<close> block; \<open>data\<close> is the list of records.\<close>

definition insert_data_try ::
  "driver \<Rightarrow> string \<Rightarrow> pydict list \<Rightarrow> string \<Rightarrow> nat option \<Rightarrow> pystate
     \<Rightarrow> (exn + result) \<times> locals \<times> pystate" where
  "insert_data_try drv table_name data schema_name db_config st =
     (case open_cursor drv db_config st of
        (Some e, l, st1) \<Rightarrow> (Inl e, l, st1)
      | (None, l, st1) \<Rightarrow>
          (case data of
             [] \<Rightarrow> (Inl (IndexError ''list index out of range''), l, st1)
           | first # others \<Rightarrow>
               (let columns = keys first;
                    sql = insert_sql schema_name table_name columns;
                    vals = insert_values columns data;
                    st2 = record_call (ExecuteMany sql vals) st1
                in case cursor_executemany drv (trace st1) sql vals of
                     Some e \<Rightarrow> (Inl e, l, st2)
                   | None \<Rightarrow>
                       (let st3 = record_call Commit st2
                        in case conn_commit drv (trace st2) of
                             Some e \<Rightarrow> (Inl e, l, st3)
                           | None \<Rightarrow>
                               (Inr [(''success'', DVal (PBool True)),
                                     (''affected_rows'', DVal (PInt (int (length data)))),
                                     (''message'', DVal (PStr (txt_insert_ok_a @ schema_name
                                        @ ''.'' @ table_name @ txt_insert_ok_b
                                        @ str_int (int (length data)) @ txt_insert_ok_c)))],
                                l, st3)))))"

text \<open>Lines 451 to 461.\<close>

definition insert_data_except :: "string \<Rightarrow> string \<Rightarrow> exn \<Rightarrow> result" where
  "insert_data_except table_name schema_name e =
     (if is_Error e then
        (let raw = lower (exn_str e);
             error_message = txt_insert_failed @ exn_str e
               @ (if contains ''does not exist'' raw
                    then txt_reason_table_a @ schema_name @ ''.'' @ table_name @ txt_reason_table_b
                  else if contains ''violates'' raw \<and> contains ''constraint'' raw
                    then txt_insert_constraint
                  else if contains ''column'' raw \<and> contains ''does not exist'' raw
                    then txt_insert_no_column
                  else [])
         in [(''error'', DVal (PStr error_message))])
      else [(''error'', DVal (PStr (txt_insert_unknown_error @ exn_str e)))])"

definition insert_data ::
  "driver \<Rightarrow> string \<Rightarrow> pydata \<Rightarrow> string \<Rightarrow> nat option \<Rightarrow> pystate \<Rightarrow> (exn + result) \<times> pystate" where
  "insert_data drv table_name data schema_name db_config st =
     (if table_name = [] then (Inr [(''error'', DVal (PStr txt_table_name_empty))], st)
      else if \<not> truthy_data data then (Inr [(''error'', DVal (PStr txt_insert_empty))], st)
      else
        (let data = (if is_dict data then DList [data] else data)
         in case iter_data data of
              Inl e \<Rightarrow> (Inl e, st)
            | Inr items \<Rightarrow>
                (case as_dicts items of
                   None \<Rightarrow> (Inr [(''error'', DVal (PStr txt_insert_format))], st)
                 | Some records \<Rightarrow>
                     (case insert_data_try drv table_name records schema_name db_config st of
                        (Inl e, l, st1) \<Rightarrow>
                          finally_close drv l (Inr (insert_data_except table_name schema_name e)) st1
                      | (Inr r, l, st1) \<Rightarrow> finally_close drv l (Inr r) st1))))"

subsection \<open>\<^verbatim>\<open>update_data\<close>\<close>

text \<open>Lines 495 to 511: the statement text and the bound parameters.\<close>

definition update_sql :: "string \<Rightarrow> string \<Rightarrow> pydict \<Rightarrow> string \<Rightarrow> string" where
  "update_sql schema_name table_name data condition =
     (let set_items = map (\<lambda>(key, v). key @ '' = %s'') data;
          set_clause = join '', '' set_items
      in ''UPDATE '' @ schema_name @ ''.'' @ table_name @ '' SET '' @ set_clause
           @ '' WHERE '' @ condition)"

definition update_params :: "pydict \<Rightarrow> pyval list option \<Rightarrow> pyval list" where
  "update_params data params =
     (let set_values = map (\<lambda>(key, v). v) data
      in case params of
           None \<Rightarrow> set_values
         | Some ps \<Rightarrow> if ps \<noteq> [] then set_values @ ps else set_values)"

text \<open>Lines 492 to 522, the \<^verbatim>\<open>try\<close> block.\<close>

definition update_data_try ::
  "driver \<Rightarrow> string \<Rightarrow> pydict \<Rightarrow> string \<Rightarrow> pyval list option \<Rightarrow> string \<Rightarrow> nat option \<Rightarrow> pystate
     \<Rightarrow> (exn + result) \<times> locals \<times> pystate" where
  "update_data_try drv table_name data condition params schema_name db_config st =
     (case open_cursor drv db_config st of
        (Some e, l, st1) \<Rightarrow> (Inl e, l, st1)
      | (None, l, st1) \<Rightarrow>
          (let sql = update_sql schema_name table_name data condition;
               all_params = update_params data params;
               st2 = record_call (Execute sql all_params) st1
           in case cursor_execute drv (trace st1) sql all_params of
                Some e \<Rightarrow> (Inl e, l, st2)
              | None \<Rightarrow>
                  (let affected_rows = cursor_rowcount drv (trace st2);
                       st3 = record_call Commit st2
                   in case conn_commit drv (trace st2) of
                        Some e \<Rightarrow> (Inl e, l, st3)
                      | None \<Rightarrow>
                          (Inr [(''success'', DVal (PBool True)),
                                (''affected_rows'', DVal (PInt affected_rows)),
                                (''message'', DVal (PStr (txt_update_ok_a @ schema_name @ ''.''
                                   @ table_name @ txt_update_ok_b @ str_int affected_rows
                                   @ txt_update_ok_c)))],
                           l, st3))))"

text \<open>Lines 523 to 533.\<close>

definition update_data_except :: "string \<Rightarrow> string \<Rightarrow> exn \<Rightarrow> result" where
  "update_data_except table_name schema_name e =
     (if is_Error e then
        (let raw = lower (exn_str e);
             error_message = txt_update_failed @ exn_str e
               @ (if contains ''does not exist'' raw
                    then txt_reason_table_a @ schema_name @ ''.'' @ table_name @ txt_reason_table_b
                  else if contains ''column'' raw \<and> contains ''does not exist'' raw
                    then txt_update_no_column
                  else if contains ''syntax error'' raw then txt_update_syntax
                  else [])
         in [(''error'', DVal (PStr error_message))])
      else [(''error'', DVal (PStr (txt_update_unknown_error @ exn_str e)))])"

text \<open>
  \<^verbatim>\<open>update_data\<close>. The condition is a text; \<open>None\<close> is the argument \<^verbatim>\<open>None\<close>,
  an absent condition. After the three checks \<open>data\<close> is a dictionary and the
  condition a text, which \<open>dict_of\<close> and \<open>text_of\<close> read.
\<close>

fun truthy_text :: "string option \<Rightarrow> bool" where
  "truthy_text None = False"
| "truthy_text (Some s) = (s \<noteq> [])"

fun dict_of :: "pydata \<Rightarrow> pydict" where
  "dict_of (DDict d) = d"
| "dict_of x = []"

fun text_of :: "string option \<Rightarrow> string" where
  "text_of (Some s) = s"
| "text_of None = []"

definition update_data ::
  "driver \<Rightarrow> string \<Rightarrow> pydata \<Rightarrow> string option \<Rightarrow> pyval list option \<Rightarrow> string \<Rightarrow> nat option
     \<Rightarrow> pystate \<Rightarrow> (exn + result) \<times> pystate" where
  "update_data drv table_name data condition params schema_name db_config st =
     (if table_name = [] then (Inr [(''error'', DVal (PStr txt_table_name_empty))], st)
      else if \<not> truthy_data data \<or> \<not> is_dict data then
        (Inr [(''error'', DVal (PStr txt_update_data_empty))], st)
      else if \<not> truthy_text condition then
        (Inr [(''error'', DVal (PStr txt_update_condition_empty))], st)
      else
        (case update_data_try drv table_name (dict_of data) (text_of condition) params
                schema_name db_config st of
           (Inl e, l, st1) \<Rightarrow>
             finally_close drv l (Inr (update_data_except table_name schema_name e)) st1
         | (Inr r, l, st1) \<Rightarrow> finally_close drv l (Inr r) st1))"

section \<open>The precedence of the specification\<close>

text \<open>
  The specification's \<^verbatim>\<open>resolve\<close>, key by key and in its own words: the per-call
  override wins, then the process-wide override, then the defaults.
\<close>

definition spec_resolve :: "pydict \<Rightarrow> pydict \<Rightarrow> pydict \<Rightarrow> string \<Rightarrow> pyval option" where
  "spec_resolve per_call process_wide defaults k =
     (case map_of per_call k of
        Some v \<Rightarrow> Some v
      | None \<Rightarrow> (case map_of process_wide k of Some v \<Rightarrow> Some v | None \<Rightarrow> map_of defaults k))"

section \<open>Example drivers and states\<close>

text \<open>A driver on which every call succeeds; a query returns one row.\<close>

definition drv_ok :: driver where
  "drv_ok =
     \<lparr>psycopg2_connect = (\<lambda>tr kw. None), conn_cursor = (\<lambda>tr. None),
      cursor_execute = (\<lambda>tr q ps. None), cursor_executemany = (\<lambda>tr q vs. None),
      cursor_fetchall = (\<lambda>tr. Inr [[(''n'', PInt 1)]]), cursor_rowcount = (\<lambda>tr. 7),
      conn_commit = (\<lambda>tr. None), conn_closed = (\<lambda>tr. False),
      cursor_close = (\<lambda>tr. None), conn_close = (\<lambda>tr. None)\<rparr>"

text \<open>A driver whose every connection attempt raises a \<^verbatim>\<open>psycopg2.Error\<close> with the text \<open>s\<close>.\<close>

definition drv_refuse :: "string \<Rightarrow> driver" where
  "drv_refuse s = drv_ok\<lparr>psycopg2_connect := (\<lambda>tr kw. Some (Error s))\<rparr>"

text \<open>The environment with no variable set, and the module state it gives.\<close>

definition env0 :: env where
  "env0 =
     \<lparr>POSTGRES_HOST = ''localhost'', POSTGRES_PORT = 5432, POSTGRES_USER = ''postgres'',
      POSTGRES_PASSWORD = ''postgres'', POSTGRES_DATABASE = ''postgres'',
      POSTGRES_CONNECTION_TIMEOUT = 10, POSTGRES_CONNECT_RETRY_COUNT = 3\<rparr>"

definition st0 :: pystate where
  "st0 = module_state env0"

text \<open>
  The state in which a caller has built the dictionary \<open>d\<close> to pass as \<^verbatim>\<open>db_config\<close>:
  it is a new object, at the address \<open>length (heap st)\<close>.
\<close>

definition with_dict :: "pydict \<Rightarrow> pystate \<Rightarrow> pystate" where
  "with_dict d st = st\<lparr>heap := heap st @ [d]\<rparr>"

text \<open>A command line that gives a host and a port only.\<close>

definition args0 :: args where
  "args0 =
     \<lparr>host = Some ''cmdhost'', port = Some 6000, user = None, password = None,
      database = None, connection_timeout = None, connect_retry_count = None\<rparr>"

text \<open>
  A driver that connects and then raises from \<^verbatim>\<open>conn.cursor()\<close> while the connection
  stays open, as for a connection that is still being set up asynchronously.
\<close>

definition drv_no_cursor :: driver where
  "drv_no_cursor =
     drv_ok\<lparr>conn_cursor := (\<lambda>tr. Some (Error ''asynchronous connection attempt underway''))\<rparr>"

text \<open>The connection parameters that the defaults of \<open>env0\<close> give.\<close>

definition profile0 :: pydict where
  "profile0 =
     [(''host'', PStr ''localhost''), (''port'', PInt 5432), (''user'', PStr ''postgres''),
      (''password'', PStr ''postgres''), (''database'', PStr ''postgres''),
      (''connect_timeout'', PInt 10)]"

text \<open>A driver whose every connection attempt raises the exception \<open>e\<close>.\<close>

definition drv_raise :: "exn \<Rightarrow> driver" where
  "drv_raise e = drv_ok\<lparr>psycopg2_connect := (\<lambda>tr kw. Some e)\<rparr>"

text \<open>A driver that connects and makes a cursor, and whose \<^verbatim>\<open>execute\<close> raises.\<close>

definition drv_execute_fails :: driver where
  "drv_execute_fails =
     drv_ok\<lparr>cursor_execute := (\<lambda>tr q ps. Some (Error ''permission denied for table t''))\<rparr>"

section \<open>Facts about the state and the dictionaries\<close>

lemma copy_simps:
  "fst (copy a st) = length (heap st)"
  "heap (snd (copy a st)) = heap st @ [heap st ! a]"
  "trace (snd (copy a st)) = trace st"
  "stdout (snd (copy a st)) = stdout st"
  "GLOBAL_DB_CONFIG (snd (copy a st)) = GLOBAL_DB_CONFIG st"
  "DEFAULT_DB_CONFIG (snd (copy a st)) = DEFAULT_DB_CONFIG st"
  by (simp_all add: copy_def)

lemma heap_store_simps:
  "heap (heap_store a d st) = (heap st)[a := d]"
  "trace (heap_store a d st) = trace st"
  "stdout (heap_store a d st) = stdout st"
  "GLOBAL_DB_CONFIG (heap_store a d st) = GLOBAL_DB_CONFIG st"
  "DEFAULT_DB_CONFIG (heap_store a d st) = DEFAULT_DB_CONFIG st"
  by (simp_all add: heap_store_def)

lemma record_call_simps:
  "heap (record_call c st) = heap st"
  "trace (record_call c st) = trace st @ [c]"
  "stdout (record_call c st) = stdout st"
  "GLOBAL_DB_CONFIG (record_call c st) = GLOBAL_DB_CONFIG st"
  "DEFAULT_DB_CONFIG (record_call c st) = DEFAULT_DB_CONFIG st"
  by (simp_all add: record_call_def)

lemma print_simps:
  "heap (print s st) = heap st"
  "trace (print s st) = trace st"
  "stdout (print s st) = stdout st @ [s]"
  "GLOBAL_DB_CONFIG (print s st) = GLOBAL_DB_CONFIG st"
  "DEFAULT_DB_CONFIG (print s st) = DEFAULT_DB_CONFIG st"
  by (simp_all add: print_def)

lemmas state_simps = copy_simps heap_store_simps record_call_simps print_simps

text \<open>The state a merge leaves, and the dictionary at the new address.\<close>

lemma merge_config_state:
  assumes "merge_config db_config st = (cfg, st1)"
  shows "cfg = length (heap st)"
    and "length (heap st1) = Suc (length (heap st))"
    and "take (length (heap st)) (heap st1) = heap st"
    and "trace st1 = trace st"
    and "GLOBAL_DB_CONFIG st1 = GLOBAL_DB_CONFIG st"
    and "DEFAULT_DB_CONFIG st1 = DEFAULT_DB_CONFIG st"
  using assms
  by (auto simp: merge_config_def copy_def heap_store_def Let_def split: option.splits prod.splits)

lemma map_of_dict_update:
  assumes "distinct (map fst other)"
  shows "map_of (dict_update d other) k =
           (case map_of other k of Some v \<Rightarrow> Some v | None \<Rightarrow> map_of d k)"
  using assms unfolding dict_update_def
proof (induction other arbitrary: d)
  case Nil
  then show ?case by simp
next
  case (Cons p ps)
  obtain a b where p: "p = (a, b)" by (cases p)
  from Cons.prems p have "map_of ps a = None"
    by (simp add: map_of_eq_None_iff)
  with Cons show ?case
    by (auto simp: p update_conv' split: option.splits)
qed

lemma merge_config_lookup:
  assumes "merge_config (Some c) st = (cfg, st1)" and "c < length (heap st)"
    and "distinct (map fst (heap st ! c))"
  shows "map_of (heap st1 ! cfg) k =
           (case map_of (heap st ! c) k of Some v \<Rightarrow> Some v
            | None \<Rightarrow> map_of (heap st ! base_config st) k)"
  using assms
  by (auto simp: merge_config_def copy_def heap_store_def Let_def map_of_dict_update nth_append
           split: option.splits prod.splits)

lemma merge_config_lookup_None:
  assumes "merge_config None st = (cfg, st1)"
  shows "heap st1 ! cfg = heap st ! base_config st"
  using assms
  by (auto simp: merge_config_def copy_def)


section \<open>The retry loop\<close>

lemma connect_loop_step_fail:
  assumes "rc < m" and "psycopg2_connect drv (trace st) (heap st ! a) = Some (Error s)"
    and "a < length (heap st)"
  shows "connect_loop drv rc le (PInt m) a st =
           connect_loop drv (rc + 1) (Some (Error s)) (PInt m) a
             (let st2 = record_call (Connect (heap st ! a)) (snd (copy a st))
              in if rc + 1 < m
                 then print (txt_retry_print_a @ str_int (rc + 1) @ txt_retry_print_b @ s) st2
                 else st2)"
  using assms
  by (subst connect_loop.simps) (simp add: copy_def record_call_def print_def nth_append Let_def)

lemma connect_loop_done:
  assumes "\<not> rc < m"
  shows "connect_loop drv rc le (PInt m) a st = (LoopEnd rc le, st)"
  using assms by (subst connect_loop.simps) simp

lemma connect_loop_all_fail:
  assumes fails: "\<And>tr kw. \<exists>s. psycopg2_connect drv tr kw = Some (Error s)"
  shows "nat (m - rc) = Suc k \<Longrightarrow> a < length (heap st) \<Longrightarrow>
         \<exists>s st'. connect_loop drv rc le (PInt m) a st = (LoopEnd m (Some (Error s)), st')
           \<and> psycopg2_connect drv (trace st @ replicate k (Connect (heap st ! a))) (heap st ! a)
               = Some (Error s)
           \<and> trace st' = trace st @ replicate (Suc k) (Connect (heap st ! a))
           \<and> heap st' = heap st @ replicate (Suc k) (heap st ! a)
           \<and> GLOBAL_DB_CONFIG st' = GLOBAL_DB_CONFIG st
           \<and> DEFAULT_DB_CONFIG st' = DEFAULT_DB_CONFIG st"
proof (induction k arbitrary: rc le st)
  case 0
  then have rc: "rc < m" "\<not> rc + 1 < m" "rc + 1 = m" by linarith+
  from fails obtain s where s: "psycopg2_connect drv (trace st) (heap st ! a) = Some (Error s)"
    by blast
  show ?case
    using s "0.prems"(2) rc
    by (simp add: connect_loop_step_fail [OF rc(1) s "0.prems"(2)] connect_loop_done
          record_call_def copy_def)
next
  case (Suc k)
  then have rc: "rc < m" "rc + 1 < m" "nat (m - (rc + 1)) = Suc k" by linarith+
  from fails obtain s where s: "psycopg2_connect drv (trace st) (heap st ! a) = Some (Error s)"
    by blast
  define st3 where "st3 = print (txt_retry_print_a @ str_int (rc + 1) @ txt_retry_print_b @ s)
                            (record_call (Connect (heap st ! a)) (snd (copy a st)))"
  have st3: "heap st3 = heap st @ [heap st ! a]" "trace st3 = trace st @ [Connect (heap st ! a)]"
    "GLOBAL_DB_CONFIG st3 = GLOBAL_DB_CONFIG st" "DEFAULT_DB_CONFIG st3 = DEFAULT_DB_CONFIG st"
    by (simp_all add: st3_def state_simps)
  have a3: "a < length (heap st3)" "heap st3 ! a = heap st ! a"
    using Suc.prems(2) by (simp_all add: st3 nth_append)
  from Suc.IH [OF rc(3) a3(1), of "Some (Error s)"]
  obtain s' st' where IH:
    "connect_loop drv (rc + 1) (Some (Error s)) (PInt m) a st3 = (LoopEnd m (Some (Error s')), st')"
    "psycopg2_connect drv (trace st3 @ replicate k (Connect (heap st3 ! a))) (heap st3 ! a)
       = Some (Error s')"
    "trace st' = trace st3 @ replicate (Suc k) (Connect (heap st3 ! a))"
    "heap st' = heap st3 @ replicate (Suc k) (heap st3 ! a)"
    "GLOBAL_DB_CONFIG st' = GLOBAL_DB_CONFIG st3"
    "DEFAULT_DB_CONFIG st' = DEFAULT_DB_CONFIG st3"
    by blast
  note IH' = IH [unfolded a3(2)]
  have "connect_loop drv rc le (PInt m) a st = (LoopEnd m (Some (Error s')), st')"
    using IH(1) rc(2) by (simp add: connect_loop_step_fail [OF rc(1) s Suc.prems(2)] st3_def)
  moreover have "psycopg2_connect drv (trace st @ replicate (Suc k) (Connect (heap st ! a))) (heap st ! a)
       = Some (Error s')"
    using IH'(2) by (simp add: st3(2) replicate_app_Cons_same)
  moreover have "trace st' = trace st @ replicate (Suc (Suc k)) (Connect (heap st ! a))"
    using IH'(3) by (simp add: st3(2))
  moreover have "heap st' = heap st @ replicate (Suc (Suc k)) (heap st ! a)"
    using IH'(4) by (simp add: st3(1))
  ultimately show ?case
    using IH(5,6) st3(3,4) by simp
qed


lemma connect_loop_unfold:
  "connect_loop drv rc le mx a st =
     (case lt_int rc mx of
        Inl e \<Rightarrow> (LoopRaise e, st)
      | Inr False \<Rightarrow> (LoopEnd rc le, st)
      | Inr True \<Rightarrow>
          (let st2 = record_call (Connect (heap st ! a)) (snd (copy a st))
           in case psycopg2_connect drv (trace st) (heap st ! a) of
                None \<Rightarrow> (LoopReturn, st2)
              | Some e \<Rightarrow>
                  if is_Error e then
                    connect_loop drv (rc + 1) (Some e) mx a
                      (if lt_int (rc + 1) mx = Inr True
                       then print (txt_retry_print_a @ str_int (rc + 1)
                                    @ txt_retry_print_b @ exn_str e) st2
                       else st2)
                  else (LoopRaise e, st2)))"
  by (subst connect_loop.simps)
     (simp add: copy_def Let_def split: sum.split bool.split option.split)

lemma lt_int_True_bound: "lt_int rc mx = Inr True \<Longrightarrow> rc < int_bound mx"
  by (cases mx) (auto split: if_splits)

lemma connect_loop_frame:
  "connect_loop drv rc le mx a st = (x, st') \<Longrightarrow> a < length (heap st) \<Longrightarrow>
     \<exists>n. heap st' = heap st @ replicate n (heap st ! a)
       \<and> trace st' = trace st @ replicate n (Connect (heap st ! a))
       \<and> GLOBAL_DB_CONFIG st' = GLOBAL_DB_CONFIG st
       \<and> DEFAULT_DB_CONFIG st' = DEFAULT_DB_CONFIG st"
proof (induction "nat (int_bound mx - rc)" arbitrary: rc le st x st' rule: less_induct)
  case less
  define d where "d = heap st ! a"
  define st2 where "st2 = record_call (Connect d) (snd (copy a st))"
  have st2: "heap st2 = heap st @ [d]" "trace st2 = trace st @ [Connect d]"
    "GLOBAL_DB_CONFIG st2 = GLOBAL_DB_CONFIG st" "DEFAULT_DB_CONFIG st2 = DEFAULT_DB_CONFIG st"
    by (simp_all add: st2_def d_def state_simps)
  have one: "st' = st2 \<Longrightarrow> ?case"
    by (rule exI [of _ 1]) (simp add: st2 d_def)
  have zero: "st' = st \<Longrightarrow> ?case"
    by (rule exI [of _ 0]) simp
  note run = less.prems(1) [unfolded connect_loop_unfold [of drv rc le mx a st]]
  show ?case
  proof (cases "lt_int rc mx")
    case (Inl e)
    with run show ?thesis by (intro zero) simp
  next
    case (Inr b)
    show ?thesis
    proof (cases b)
      case False
      with Inr run show ?thesis by (intro zero) simp
    next
      case True
      with Inr have lt: "lt_int rc mx = Inr True" by simp
      show ?thesis
      proof (cases "psycopg2_connect drv (trace st) d")
        case None
        with lt run show ?thesis
          by (intro one) (simp add: st2_def d_def Let_def)
      next
        case (Some e)
        show ?thesis
        proof (cases "is_Error e")
          case False
          with Some lt run show ?thesis
            by (intro one) (simp add: st2_def d_def Let_def)
        next
          case isE: True
          define st3 where "st3 = (if lt_int (rc + 1) mx = Inr True
                                then print (txt_retry_print_a @ str_int (rc + 1)
                                             @ txt_retry_print_b @ exn_str e) st2
                                else st2)"
          have st3: "heap st3 = heap st @ [d]" "trace st3 = trace st @ [Connect d]"
            "GLOBAL_DB_CONFIG st3 = GLOBAL_DB_CONFIG st" "DEFAULT_DB_CONFIG st3 = DEFAULT_DB_CONFIG st"
            by (simp_all add: st3_def st2 state_simps)
          have a3: "a < length (heap st3)" "heap st3 ! a = d"
            using less.prems(2) by (simp_all add: st3 nth_append d_def)
          have rec: "connect_loop drv (rc + 1) (Some e) mx a st3 = (x, st')"
            using Some lt isE run
            by (simp add: st2_def st3_def d_def Let_def split: if_splits)
          have "nat (int_bound mx - (rc + 1)) < nat (int_bound mx - rc)"
            using lt_int_True_bound [OF lt] by simp
          from less.hyps [OF this rec a3(1)]
          obtain n where n: "heap st' = heap st3 @ replicate n d"
             "trace st' = trace st3 @ replicate n (Connect d)"
             "GLOBAL_DB_CONFIG st' = GLOBAL_DB_CONFIG st3"
             "DEFAULT_DB_CONFIG st' = DEFAULT_DB_CONFIG st3"
            unfolding a3(2) by blast
          show ?thesis
            by (rule exI [of _ "Suc n"]) (simp add: n st3 d_def [symmetric])
        qed
      qed
    qed
  qed
qed


section \<open>Facts about \<^verbatim>\<open>get_connection\<close>\<close>

lemma merge_config_heap:
  assumes "merge_config db_config st = (cfg, st1)"
  shows "cfg = length (heap st)" and "heap st1 = heap st @ [heap st1 ! cfg]"
    and "trace st1 = trace st"
  using assms
  by (auto simp: merge_config_def copy_def heap_store_def Let_def split: option.splits prod.splits)

lemma get_connection_unfold:
  assumes "merge_config db_config st = (cfg, st1)"
  shows "get_connection drv db_config st =
     (case connect_loop drv 0 None (dict_get (heap st1 ! cfg) ''connect_retry_count'' (PInt 3)) cfg
             (heap_store cfg (AList.delete ''connect_retry_count'' (heap st1 ! cfg)) st1) of
           (LoopReturn, st3) \<Rightarrow> (Inr (), st3)
         | (LoopRaise e, st3) \<Rightarrow> (Inl e, st3)
         | (LoopEnd retry_count last_error, st3) \<Rightarrow>
             (Inl (connection_error retry_count last_error (heap st3 ! cfg)), st3))"
  by (simp add: get_connection_def assms dict_pop_def)

lemma popped_state:
  assumes "merge_config db_config st = (cfg, st1)"
  defines "st2 \<equiv> heap_store cfg (AList.delete ''connect_retry_count'' (heap st1 ! cfg)) st1"
  shows "heap st2 = heap st @ [AList.delete ''connect_retry_count'' (heap st1 ! cfg)]"
    and "trace st2 = trace st" and "cfg < length (heap st2)"
    and "heap st2 ! cfg = AList.delete ''connect_retry_count'' (heap st1 ! cfg)"
proof -
  note m = merge_config_heap [OF assms(1)]
  show 1: "heap st2 = heap st @ [AList.delete ''connect_retry_count'' (heap st1 ! cfg)]"
    unfolding st2_def heap_store_def using m(1) by (subst m(2)) simp
  show "trace st2 = trace st" by (simp add: st2_def heap_store_def m(3))
  show "cfg < length (heap st2)" by (simp add: 1 m(1))
  show "heap st2 ! cfg = AList.delete ''connect_retry_count'' (heap st1 ! cfg)"
    by (simp add: 1 m(1))
qed

lemma lower_None: "lower ''None'' = ''none''"
  by (simp add: lower_def lower_char_def)

lemma connection_error_None:
  "connection_error 0 None d = Exception (txt_conn_error_a @ ''0'' @ txt_conn_error_b @ ''None'')"
  by (simp add: connection_error_def lower_None str_int_def str_nat.simps digit_char_def)

lemma st0_merge: "merge_config None st0 = (Suc 0, st0\<lparr>heap := heap st0 @ [default_db_config env0]\<rparr>)"
  by (simp add: merge_config_def base_config_def st0_def module_state_def copy_def)


lemma get_connection_all_fail:
  assumes fails: "\<And>tr kw. \<exists>s. psycopg2_connect drv tr kw = Some (Error s)"
    and m: "merge_config db_config st = (cfg, st1)"
    and n: "map_of (heap st1 ! cfg) ''connect_retry_count'' = Some (PInt N)" "1 \<le> N"
  defines "profile \<equiv> AList.delete ''connect_retry_count'' (heap st1 ! cfg)"
  shows "\<exists>s. fst (get_connection drv db_config st) = Inl (connection_error N (Some (Error s)) profile)
           \<and> psycopg2_connect drv (trace st @ replicate (nat N - 1) (Connect profile)) profile
               = Some (Error s)"
    and "trace (snd (get_connection drv db_config st)) = trace st @ replicate (nat N) (Connect profile)"
    and "heap (snd (get_connection drv db_config st)) = heap st @ replicate (Suc (nat N)) profile"
proof -
  define st2 where "st2 = heap_store cfg (AList.delete ''connect_retry_count'' (heap st1 ! cfg)) st1"
  note p = popped_state [OF m, folded st2_def profile_def]
  from n(2) obtain k where k: "nat (N - 0) = Suc k" "nat N = Suc k"
    by (cases "nat N") auto
  from connect_loop_all_fail [of drv N 0 k cfg st2 None, OF fails k(1) p(3)]
  obtain s st' where loop:
    "connect_loop drv 0 None (PInt N) cfg st2 = (LoopEnd N (Some (Error s)), st')"
    "psycopg2_connect drv (trace st2 @ replicate k (Connect (heap st2 ! cfg))) (heap st2 ! cfg)
       = Some (Error s)"
    "trace st' = trace st2 @ replicate (Suc k) (Connect (heap st2 ! cfg))"
    "heap st' = heap st2 @ replicate (Suc k) (heap st2 ! cfg)"
    by blast
  note loop' = loop [unfolded p(4)]
  have cfg': "heap st' ! cfg = profile"
    by (simp add: loop'(4) nth_append p(1) merge_config_heap(1) [OF m])
  have run: "get_connection drv db_config st = (Inl (connection_error N (Some (Error s)) profile), st')"
    using n(1) loop(1) cfg'
    by (simp add: get_connection_unfold [OF m] dict_get_def st2_def)
  show "\<exists>s. fst (get_connection drv db_config st) = Inl (connection_error N (Some (Error s)) profile)
           \<and> psycopg2_connect drv (trace st @ replicate (nat N - 1) (Connect profile)) profile
               = Some (Error s)"
    using loop'(2) by (auto simp: run p(2) k(2))
  show "trace (snd (get_connection drv db_config st)) = trace st @ replicate (nat N) (Connect profile)"
    using loop'(3) by (simp add: run p(2) k(2))
  show "heap (snd (get_connection drv db_config st)) = heap st @ replicate (Suc (nat N)) profile"
    using loop'(4) by (simp add: run p(1) k(2) replicate_append_same)
qed

lemma connection_error_message:
  assumes "map_of d ''host'' \<noteq> None" "map_of d ''port'' \<noteq> None"
    "map_of d ''user'' \<noteq> None" "map_of d ''database'' \<noteq> None"
  shows "\<exists>suffix. connection_error rc (Some e) d =
           Exception (txt_conn_error_a @ str_int rc @ txt_conn_error_b @ exn_str e @ suffix)"
  using assms
  by (auto simp: connection_error_def Let_def subscript_def)

lemma connection_error_auth:
  assumes "contains ''password authentication failed'' (lower (exn_str e))"
    and "\<not> contains ''connection refused'' (lower (exn_str e))"
    and "map_of d ''user'' = Some u"
  shows "connection_error rc (Some e) d =
           Exception (txt_conn_error_a @ str_int rc @ txt_conn_error_b @ exn_str e
                        @ txt_auth_a @ py_str u @ txt_auth_b)"
  using assms
  by (simp add: connection_error_def Let_def subscript_def)

lemma connection_error_plain:
  assumes "\<not> contains ''password authentication failed'' (lower (exn_str e))"
    and "\<not> contains ''connection refused'' (lower (exn_str e))"
    and "\<not> contains ''database'' (lower (exn_str e))"
  shows "connection_error rc (Some e) d =
           Exception (txt_conn_error_a @ str_int rc @ txt_conn_error_b @ exn_str e)"
  using assms
  by (simp add: connection_error_def Let_def subscript_def)

lemma with_dict_merge:
  "merge_config (Some (Suc 0)) (with_dict d st0) =
     (Suc (Suc 0), (with_dict d st0)\<lparr>heap := heap (with_dict d st0) @ [dict_update (default_db_config env0) d]\<rparr>)"
  by (simp add: merge_config_def base_config_def st0_def module_state_def copy_def with_dict_def
        heap_store_def)

lemma str_int_3: "str_int 3 = ''3''"
  by (simp add: str_int_def str_nat.simps digit_char_def)


lemma get_connection_effects:
  assumes m: "merge_config db_config st = (cfg, st1)"
  shows "\<exists>n. heap (snd (get_connection drv db_config st)) =
               heap st @ replicate (Suc n) (AList.delete ''connect_retry_count'' (heap st1 ! cfg))
           \<and> trace (snd (get_connection drv db_config st)) =
               trace st @ replicate n (Connect (AList.delete ''connect_retry_count'' (heap st1 ! cfg)))
           \<and> GLOBAL_DB_CONFIG (snd (get_connection drv db_config st)) = GLOBAL_DB_CONFIG st
           \<and> DEFAULT_DB_CONFIG (snd (get_connection drv db_config st)) = DEFAULT_DB_CONFIG st"
proof -
  define profile where "profile = AList.delete ''connect_retry_count'' (heap st1 ! cfg)"
  define st2 where "st2 = heap_store cfg (AList.delete ''connect_retry_count'' (heap st1 ! cfg)) st1"
  define mx where "mx = dict_get (heap st1 ! cfg) ''connect_retry_count'' (PInt 3)"
  note p = popped_state [OF m, folded st2_def profile_def]
  have g: "GLOBAL_DB_CONFIG st2 = GLOBAL_DB_CONFIG st" "DEFAULT_DB_CONFIG st2 = DEFAULT_DB_CONFIG st"
    using merge_config_state(5,6) [OF m] by (simp_all add: st2_def heap_store_def)
  obtain x st3 where loop: "connect_loop drv 0 None mx cfg st2 = (x, st3)"
    by (cases "connect_loop drv 0 None mx cfg st2")
  have snd: "snd (get_connection drv db_config st) = st3"
    using loop by (cases x) (simp_all add: get_connection_unfold [OF m] mx_def st2_def)
  from connect_loop_frame [OF loop p(3)] obtain n where n:
    "heap st3 = heap st2 @ replicate n (heap st2 ! cfg)"
    "trace st3 = trace st2 @ replicate n (Connect (heap st2 ! cfg))"
    "GLOBAL_DB_CONFIG st3 = GLOBAL_DB_CONFIG st2"
    "DEFAULT_DB_CONFIG st3 = DEFAULT_DB_CONFIG st2"
    by blast
  note n' = n [unfolded p(4)]
  show ?thesis
    unfolding snd profile_def [symmetric]
    by (rule exI [of _ n]) (simp add: n' p(1,2) g replicate_append_same)
qed

lemma distinct_set_str_arg: "distinct (map fst d) \<Longrightarrow> distinct (map fst (set_str_arg a k d))"
  by (simp add: set_str_arg_def distinct_update split: option.splits)

lemma distinct_set_int_arg: "distinct (map fst d) \<Longrightarrow> distinct (map fst (set_int_arg a k d))"
  by (simp add: set_int_arg_def distinct_update split: option.splits)

lemma distinct_cmd_config: "distinct (map fst (cmd_config a))"
  by (simp add: cmd_config_def distinct_set_str_arg distinct_set_int_arg)

lemma main_init_state:
  assumes "DEFAULT_DB_CONFIG st < length (heap st)"
  shows "GLOBAL_DB_CONFIG (main_init a st) = Some (length (heap st))"
    and "heap (main_init a st) =
           heap st @ [dict_update (heap st ! DEFAULT_DB_CONFIG st) (cmd_config a)]"
    and "DEFAULT_DB_CONFIG (main_init a st) = DEFAULT_DB_CONFIG st"
    and "trace (main_init a st) = trace st"
  using assms
  by (simp_all add: main_init_def get_config_from_args_def copy_def heap_store_def)

lemma with_dict_main_init:
  "heap (with_dict d (main_init a st0)) =
     [default_db_config env0, dict_update (default_db_config env0) (cmd_config a), d]"
  "GLOBAL_DB_CONFIG (with_dict d (main_init a st0)) = Some (Suc 0)"
  "DEFAULT_DB_CONFIG (with_dict d (main_init a st0)) = 0"
  "trace (with_dict d (main_init a st0)) = []"
  by (simp_all add: with_dict_def main_init_def get_config_from_args_def copy_def heap_store_def
        st0_def module_state_def)


section \<open>Facts about the handlers\<close>

lemma finally_close_trace:
  "trace (snd (finally_close drv l r st)) = trace st
   \<or> trace (snd (finally_close drv l r st)) = trace st @ [CursorClose]
   \<or> trace (snd (finally_close drv l r st)) = trace st @ [CursorClose, ConnClose]"
  by (simp add: finally_close_def Let_def record_call_def split: option.splits)

lemma finally_close_Inr:
  "fst (finally_close drv l r st) = Inr x \<Longrightarrow> r = Inr x"
  by (simp add: finally_close_def Let_def split: option.splits if_splits)

lemma open_cursor_trace:
  assumes "open_cursor drv db_config st = (x, l, st1)"
  shows "\<exists>n p. trace (snd (get_connection drv db_config st)) = trace st @ replicate n (Connect p)
           \<and> (trace st1 = trace (snd (get_connection drv db_config st))
                \<or> trace st1 = trace (snd (get_connection drv db_config st)) @ [Cursor])"
proof -
  obtain cfg s1 where m: "merge_config db_config st = (cfg, s1)"
    by (cases "merge_config db_config st")
  from get_connection_effects [OF m, of drv] obtain n where
    n: "trace (snd (get_connection drv db_config st)) =
       trace st @ replicate n (Connect (AList.delete ''connect_retry_count'' (heap s1 ! cfg)))"
    by blast
  obtain r s2 where g: "get_connection drv db_config st = (r, s2)"
    by (cases "get_connection drv db_config st")
  have "trace st1 = trace s2 \<or> trace st1 = trace s2 @ [Cursor]"
    using assms g
    by (auto simp: open_cursor_def record_call_def split: sum.splits option.splits)
  with n g show ?thesis
    by auto
qed

lemma open_cursor_ok:
  assumes "open_cursor drv db_config st = (None, l, st1)"
  shows "l = ConnAndCursor" and "fst (get_connection drv db_config st) = Inr ()"
    and "trace st1 = trace (snd (get_connection drv db_config st)) @ [Cursor]"
    and "heap st1 = heap (snd (get_connection drv db_config st))"
  using assms
  by (auto simp: open_cursor_def record_call_def split: sum.splits option.splits prod.splits)


lemma update_params_eq:
  "update_params d params = map snd d @ (case params of None \<Rightarrow> [] | Some ps \<Rightarrow> ps)"
  by (simp add: update_params_def Let_def split_def split: option.splits)

lemma update_sql_eq:
  "update_sql schema_name table_name d cond =
     ''UPDATE '' @ schema_name @ ''.'' @ table_name @ '' SET ''
       @ join '', '' (map (\<lambda>kv. fst kv @ '' = %s'') d) @ '' WHERE '' @ cond"
  by (simp add: update_sql_def Let_def split_def)

lemma update_data_try_trace:
  assumes "open_cursor drv db_config st = (None, l, st1)"
  shows "\<exists>more. trace (snd (snd (update_data_try drv table_name d cond params schema_name db_config st)))
           = trace st1 @ Execute (update_sql schema_name table_name d cond) (update_params d params) # more"
  using assms
  by (auto simp: update_data_try_def Let_def record_call_def split: option.splits)

lemma update_data_run:
  assumes "table_name \<noteq> []" "d \<noteq> []" "cond \<noteq> []"
  shows "\<exists>l r. snd (update_data drv table_name (DDict d) (Some cond) params schema_name db_config st)
           = snd (finally_close drv l r
                    (snd (snd (update_data_try drv table_name d cond params schema_name db_config st))))"
  using assms
  by (cases "update_data_try drv table_name d cond params schema_name db_config st")
     (auto simp: update_data_def split: sum.splits)

lemma get_connection_first_success:
  assumes m: "merge_config db_config st = (cfg, s1)"
    and "lt_int 0 (dict_get (heap s1 ! cfg) ''connect_retry_count'' (PInt 3)) = Inr True"
    and "psycopg2_connect drv (trace st) (AList.delete ''connect_retry_count'' (heap s1 ! cfg)) = None"
  shows "fst (get_connection drv db_config st) = Inr ()"
    and "trace (snd (get_connection drv db_config st)) =
           trace st @ [Connect (AList.delete ''connect_retry_count'' (heap s1 ! cfg))]"
proof -
  define st2 where "st2 = heap_store cfg (AList.delete ''connect_retry_count'' (heap s1 ! cfg)) s1"
  note p = popped_state [OF m, folded st2_def]
  have loop: "connect_loop drv 0 None (dict_get (heap s1 ! cfg) ''connect_retry_count'' (PInt 3)) cfg st2
      = (LoopReturn, record_call (Connect (heap st2 ! cfg)) (snd (copy cfg st2)))"
    using assms(2,3) by (subst connect_loop_unfold) (simp add: p(2,4))
  show "fst (get_connection drv db_config st) = Inr ()"
    by (simp add: get_connection_unfold [OF m] loop [unfolded st2_def])
  show "trace (snd (get_connection drv db_config st)) =
           trace st @ [Connect (AList.delete ''connect_retry_count'' (heap s1 ! cfg))]"
    using p(2,4)
    by (simp add: get_connection_unfold [OF m] loop [unfolded st2_def] state_simps st2_def)
qed

lemma st0_connect:
  assumes "psycopg2_connect drv [] profile0 = None"
  shows "fst (get_connection drv None st0) = Inr ()"
    and "trace (snd (get_connection drv None st0)) = [Connect profile0]"
proof -
  define s1 where "s1 = st0\<lparr>heap := heap st0 @ [default_db_config env0]\<rparr>"
  have m: "merge_config None st0 = (Suc 0, s1)"
    by (simp add: st0_merge s1_def)
  have d: "heap s1 ! Suc 0 = default_db_config env0" "trace st0 = []"
    by (simp_all add: s1_def st0_def module_state_def)
  have k: "lt_int 0 (dict_get (heap s1 ! Suc 0) ''connect_retry_count'' (PInt 3)) = Inr True"
    "AList.delete ''connect_retry_count'' (heap s1 ! Suc 0) = profile0"
    unfolding d by (simp_all add: default_db_config_def env0_def dict_get_def profile0_def)
  from assms have c: "psycopg2_connect drv (trace st0) (AList.delete ''connect_retry_count'' (heap s1 ! Suc 0)) = None"
    by (simp add: k(2) d(2))
  from get_connection_first_success [OF m k(1) c]
  show "fst (get_connection drv None st0) = Inr ()"
    and "trace (snd (get_connection drv None st0)) = [Connect profile0]"
    by (simp_all add: k(2) d(2))
qed

lemma st0_open_cursor:
  assumes "psycopg2_connect drv [] profile0 = None" and "conn_cursor drv [Connect profile0] = None"
  shows "open_cursor drv None st0 =
           (None, ConnAndCursor, record_call Cursor (snd (get_connection drv None st0)))"
  using st0_connect [OF assms(1)] assms(2)
  by (cases "get_connection drv None st0") (simp add: open_cursor_def)


lemma st0_open_cursor_fails:
  assumes "psycopg2_connect drv [] profile0 = None" and "conn_cursor drv [Connect profile0] = Some e"
  shows "open_cursor drv None st0 =
           (Some e, ConnOnly, record_call Cursor (snd (get_connection drv None st0)))"
  using st0_connect [OF assms(1)] assms(2)
  by (cases "get_connection drv None st0") (simp add: open_cursor_def)


lemma finally_close_Inr_trace:
  "fst (finally_close drv l r st) = Inr x \<Longrightarrow>
     trace (snd (finally_close drv l r st)) = trace st
     \<or> trace (snd (finally_close drv l r st)) = trace st @ [CursorClose, ConnClose]"
  by (simp add: finally_close_def Let_def record_call_def split: option.splits if_splits)

lemma as_dicts_map: "as_dicts (map DDict xs) = Some xs"
  by (induction xs) simp_all

lemma insert_data_except_no_success: "map_of (insert_data_except t s e) ''success'' = None"
  by (simp add: insert_data_except_def Let_def)

lemma execute_query_except_no_success: "map_of (execute_query_except q e) ''success'' = None"
  by (simp add: execute_query_except_def Let_def)

lemma insert_data_try_Inr:
  assumes "insert_data_try drv table_name recs schema_name db_config st = (Inr r, l, st')"
  shows "\<exists>st1. open_cursor drv db_config st = (None, l, st1)
           \<and> r = [(''success'', DVal (PBool True)),
                  (''affected_rows'', DVal (PInt (int (length recs)))),
                  (''message'', DVal (PStr (txt_insert_ok_a @ schema_name @ ''.'' @ table_name
                     @ txt_insert_ok_b @ str_int (int (length recs)) @ txt_insert_ok_c)))]
           \<and> trace st' = trace st1
               @ [ExecuteMany (insert_sql schema_name table_name (keys (hd recs)))
                              (insert_values (keys (hd recs)) recs), Commit]"
  using assms
  by (auto simp: insert_data_try_def Let_def record_call_def
           split: prod.splits option.splits list.splits)

lemma insert_data_records:
  assumes "table_name \<noteq> []"
  shows "insert_data drv table_name (DList (map DDict (first # others))) schema_name db_config st =
     (case insert_data_try drv table_name (first # others) schema_name db_config st of
        (Inl e, l, st1) \<Rightarrow>
          finally_close drv l (Inr (insert_data_except table_name schema_name e)) st1
      | (Inr r, l, st1) \<Rightarrow> finally_close drv l (Inr r) st1)"
  using assms as_dicts_map [of "first # others"]
  by (simp add: insert_data_def del: as_dicts.simps)

lemma insert_data_single:
  assumes "d \<noteq> []"
  shows "insert_data drv table_name (DDict d) schema_name db_config st =
         insert_data drv table_name (DList [DDict d]) schema_name db_config st"
  using assms by (simp add: insert_data_def)


lemma execute_query_try_Inr:
  assumes "execute_query_try drv query ps db_config st = (Inr r, l, st')"
  shows "\<exists>st1. open_cursor drv db_config st = (None, l, st1)
           \<and> (if is_result_query query
               then (\<exists>rows. cursor_fetchall drv (trace st1 @ [Execute query ps]) = Inr rows
                       \<and> r = [(''success'', DVal (PBool True)),
                                (''rows'', DList (map DDict rows)),
                                (''row_count'', DVal (PInt (int (length rows))))])
                    \<and> trace st' = trace st1 @ [Execute query ps, FetchAll]
               else r = [(''success'', DVal (PBool True)),
                         (''affected_rows'',
                            DVal (PInt (cursor_rowcount drv (trace st1 @ [Execute query ps, Commit]))))]
                    \<and> trace st' = trace st1 @ [Execute query ps, Commit])"
  using assms
  by (auto simp: execute_query_try_def Let_def record_call_def
           split: prod.splits option.splits sum.splits if_splits)


lemma is_result_query_examples:
  "is_result_query ''  select 1''" "\<not> is_result_query ''DELETE FROM t''" "\<not> is_result_query []"
  by (simp_all add: is_result_query_def strip_def isspace_def whitespace_def upper_def upper_ch_def
        upper_char_def utf8_len_def startswith_def)


lemma map_of_append_first: "map_of xs k = Some v \<Longrightarrow> map_of (xs @ ys) k = Some v"
  by (simp add: map_add_Some_iff)

lemma char_of_examples: "char_of (0x53 :: nat) = CHR ''S''" "char_of (0x49 :: nat) = CHR ''I''"
  by (simp_all add: char_of_def bit_Suc_0_iff)

lemma upper_table_examples:
  "map_of upper_table 0x17F = Some [0x53]" "map_of upper_table 0x131 = Some [0x49]"
  unfolding upper_table_def
  by (rule map_of_append_first, simp add: upper_table_0080_def)+

lemma is_result_query_iff:
  "is_result_query query \<longleftrightarrow>
     startswith (upper (strip query)) ''SELECT'' \<or> startswith (upper (strip query)) ''SHOW''
     \<or> startswith (upper (strip query)) ''DESCRIBE'' \<or> startswith (upper (strip query)) ''EXPLAIN''"
  by (simp add: is_result_query_def Let_def)

text \<open>
  Texts with characters outside ASCII: a no-break space (\<^verbatim>\<open>U+00A0\<close>) and an ideographic
  space (\<^verbatim>\<open>U+3000\<close>) are stripped, a long s (\<^verbatim>\<open>U+017F\<close>) becomes \<^verbatim>\<open>S\<close> and a dotless i
  (\<^verbatim>\<open>U+0131\<close>) becomes \<^verbatim>\<open>I\<close>.
\<close>

lemma is_result_query_unicode_examples:
  "is_result_query ([CHR 0xC2, CHR 0xA0] @ ''SELECT 1'')"
  "is_result_query ([CHR 0xE3, CHR 0x80, CHR 0x80] @ ''SELECT 1'')"
  "is_result_query ([CHR 0xC5, CHR 0xBF] @ ''elect 1'')"
  "is_result_query (''expla'' @ [CHR 0xC4, CHR 0xB1] @ ''n select 1'')"
  by (simp_all add: is_result_query_def strip_def isspace_def whitespace_def upper_def upper_ch_def
        upper_char_def utf8_len_def startswith_def upper_table_examples utf8_def char_of_examples)

lemma connect_loop_first_call:
  assumes "lt_int rc mx = Inr True" and "connect_loop drv rc le mx a st = (x, st')"
    and "a < length (heap st)"
  shows "\<exists>rest. trace st' = trace st @ Connect (heap st ! a) # rest"
proof -
  define st2 where "st2 = record_call (Connect (heap st ! a)) (snd (copy a st))"
  have t2: "trace st2 = trace st @ [Connect (heap st ! a)]"
    by (simp add: st2_def state_simps)
  note run = assms(2) [unfolded connect_loop_unfold [of drv rc le mx a st]]
  show ?thesis
  proof (cases "psycopg2_connect drv (trace st) (heap st ! a)")
    case None
    with assms(1) run have "st' = st2"
      by (simp add: st2_def Let_def)
    with t2 show ?thesis by simp
  next
    case (Some e)
    show ?thesis
    proof (cases "is_Error e")
      case False
      with Some assms(1) run have "st' = st2"
        by (simp add: st2_def Let_def)
      with t2 show ?thesis by simp
    next
      case True
      define st3 where "st3 = (if lt_int (rc + 1) mx = Inr True
                                then print (txt_retry_print_a @ str_int (rc + 1)
                                             @ txt_retry_print_b @ exn_str e) st2
                                else st2)"
      have st3: "trace st3 = trace st @ [Connect (heap st ! a)]" "a < length (heap st3)"
        using assms(3) by (simp_all add: st3_def st2_def state_simps)
      have rec: "connect_loop drv (rc + 1) (Some e) mx a st3 = (x, st')"
        using Some True assms(1) run
        by (simp add: st2_def st3_def Let_def split: if_splits)
      from connect_loop_frame [OF rec st3(2)] obtain n where
        "trace st' = trace st3 @ replicate n (Connect (heap st3 ! a))"
        by blast
      then show ?thesis
        by (simp add: st3(1))
    qed
  qed
qed

lemma get_connection_first_call:
  assumes m: "merge_config db_config st = (cfg, s1)"
    and "lt_int 0 (dict_get (heap s1 ! cfg) ''connect_retry_count'' (PInt 3)) = Inr True"
  shows "\<exists>rest. trace (snd (get_connection drv db_config st)) =
           trace st @ Connect (AList.delete ''connect_retry_count'' (heap s1 ! cfg)) # rest"
proof -
  define st2 where "st2 = heap_store cfg (AList.delete ''connect_retry_count'' (heap s1 ! cfg)) s1"
  define mx where "mx = dict_get (heap s1 ! cfg) ''connect_retry_count'' (PInt 3)"
  note p = popped_state [OF m, folded st2_def]
  obtain x st3 where loop: "connect_loop drv 0 None mx cfg st2 = (x, st3)"
    by (cases "connect_loop drv 0 None mx cfg st2")
  have snd: "snd (get_connection drv db_config st) = st3"
    using loop by (cases x) (simp_all add: get_connection_unfold [OF m] mx_def st2_def)
  from connect_loop_first_call [OF assms(2) [folded mx_def] loop p(3)]
  show ?thesis
    unfolding snd p(2) p(4) .
qed

lemma get_connection_first_raise:
  assumes m: "merge_config db_config st = (cfg, s1)"
    and "lt_int 0 (dict_get (heap s1 ! cfg) ''connect_retry_count'' (PInt 3)) = Inr True"
    and "psycopg2_connect drv (trace st) (AList.delete ''connect_retry_count'' (heap s1 ! cfg)) = Some e"
    and "\<not> is_Error e"
  shows "fst (get_connection drv db_config st) = Inl e"
    and "trace (snd (get_connection drv db_config st)) =
           trace st @ [Connect (AList.delete ''connect_retry_count'' (heap s1 ! cfg))]"
proof -
  define st2 where "st2 = heap_store cfg (AList.delete ''connect_retry_count'' (heap s1 ! cfg)) s1"
  note p = popped_state [OF m, folded st2_def]
  have loop: "connect_loop drv 0 None (dict_get (heap s1 ! cfg) ''connect_retry_count'' (PInt 3)) cfg st2
      = (LoopRaise e, record_call (Connect (heap st2 ! cfg)) (snd (copy cfg st2)))"
    using assms(2,3,4) by (subst connect_loop_unfold) (simp add: p(2,4))
  show "fst (get_connection drv db_config st) = Inl e"
    by (simp add: get_connection_unfold [OF m] loop [unfolded st2_def])
  show "trace (snd (get_connection drv db_config st)) =
           trace st @ [Connect (AList.delete ''connect_retry_count'' (heap s1 ! cfg))]"
    using p(2,4)
    by (simp add: get_connection_unfold [OF m] loop [unfolded st2_def] state_simps st2_def)
qed

lemma execute_query_success:
  assumes "fst (execute_query drv query params db_config st) = Inr r"
    and "map_of r ''success'' = Some (DVal (PBool True))"
  shows "\<exists>n p cl.
           (cl = [] \<or> cl = [CursorClose, ConnClose])
           \<and> (if is_result_query query
                then trace (snd (execute_query drv query params db_config st))
                       = trace st @ replicate n (Connect p)
                           @ [Cursor, Execute query (case params of None \<Rightarrow> [] | Some ps \<Rightarrow> ps),
                              FetchAll] @ cl
                     \<and> (\<exists>rows.
                           cursor_fetchall drv
                             (trace st @ replicate n (Connect p)
                                @ [Cursor, Execute query (case params of None \<Rightarrow> [] | Some ps \<Rightarrow> ps)])
                             = Inr rows
                           \<and> r = [(''success'', DVal (PBool True)),
                                    (''rows'', DList (map DDict rows)),
                                    (''row_count'', DVal (PInt (int (length rows))))])
                else trace (snd (execute_query drv query params db_config st))
                       = trace st @ replicate n (Connect p)
                           @ [Cursor, Execute query (case params of None \<Rightarrow> [] | Some ps \<Rightarrow> ps),
                              Commit] @ cl
                     \<and> r = [(''success'', DVal (PBool True)),
                              (''affected_rows'',
                                 DVal (PInt (cursor_rowcount drv
                                   (trace st @ replicate n (Connect p)
                                      @ [Cursor,
                                         Execute query (case params of None \<Rightarrow> [] | Some ps \<Rightarrow> ps),
                                         Commit]))))])"
proof -
  define ps where "ps = (case params of None \<Rightarrow> [] | Some ps \<Rightarrow> ps)"
  have ne: "query \<noteq> []"
    using assms by (auto simp: execute_query_def)
  obtain x l st' where t: "execute_query_try drv query ps db_config st = (x, l, st')"
    by (cases "execute_query_try drv query ps db_config st")
  have run: "execute_query drv query params db_config st =
      finally_close drv l
        (Inr (case x of Inl e \<Rightarrow> execute_query_except query e | Inr r \<Rightarrow> r)) st'"
    using t ne by (cases x) (simp_all add: execute_query_def ps_def)
  from assms(1) have "Inr (case x of Inl e \<Rightarrow> execute_query_except query e | Inr r \<Rightarrow> r)
      = (Inr r :: exn + result)"
    unfolding run by (rule finally_close_Inr)
  with assms(2) have x: "x = Inr r"
    by (cases x) (auto simp: execute_query_except_no_success)
  from execute_query_try_Inr [OF t [unfolded x]] obtain st1 where s:
    "open_cursor drv db_config st = (None, l, st1)"
    "if is_result_query query
               then (\<exists>rows. cursor_fetchall drv (trace st1 @ [Execute query ps]) = Inr rows
                       \<and> r = [(''success'', DVal (PBool True)),
                                (''rows'', DList (map DDict rows)),
                                (''row_count'', DVal (PInt (int (length rows))))])
                    \<and> trace st' = trace st1 @ [Execute query ps, FetchAll]
               else r = [(''success'', DVal (PBool True)),
                         (''affected_rows'',
                            DVal (PInt (cursor_rowcount drv (trace st1 @ [Execute query ps, Commit]))))]
                    \<and> trace st' = trace st1 @ [Execute query ps, Commit]"
    by blast
  from open_cursor_trace [OF s(1)] open_cursor_ok(3) [OF s(1)] obtain n p where
    o: "trace st1 = trace st @ replicate n (Connect p) @ [Cursor]"
    by auto
  from assms(1) have "trace (snd (execute_query drv query params db_config st)) = trace st' \<or>
    trace (snd (execute_query drv query params db_config st)) = trace st' @ [CursorClose, ConnClose]"
    unfolding run by (rule finally_close_Inr_trace)
  then obtain cl where cl: "cl = [] \<or> cl = [CursorClose, ConnClose]"
    "trace (snd (execute_query drv query params db_config st)) = trace st' @ cl"
    by auto
  show ?thesis
    unfolding ps_def [symmetric]
    apply (rule exI [of _ n], rule exI [of _ p], rule exI [of _ cl])
    using s(2) cl by (auto simp: o)
qed


lemma st0_connect_raise:
  assumes "psycopg2_connect drv [] profile0 = Some e" and "\<not> is_Error e"
  shows "fst (get_connection drv None st0) = Inl e"
    and "trace (snd (get_connection drv None st0)) = [Connect profile0]"
proof -
  define s1 where "s1 = st0\<lparr>heap := heap st0 @ [default_db_config env0]\<rparr>"
  have m: "merge_config None st0 = (Suc 0, s1)"
    by (simp add: st0_merge s1_def)
  have d: "heap s1 ! Suc 0 = default_db_config env0" "trace st0 = []"
    by (simp_all add: s1_def st0_def module_state_def)
  have k: "lt_int 0 (dict_get (heap s1 ! Suc 0) ''connect_retry_count'' (PInt 3)) = Inr True"
    "AList.delete ''connect_retry_count'' (heap s1 ! Suc 0) = profile0"
    unfolding d by (simp_all add: default_db_config_def env0_def dict_get_def profile0_def)
  from assms(1) have c: "psycopg2_connect drv (trace st0)
      (AList.delete ''connect_retry_count'' (heap s1 ! Suc 0)) = Some e"
    by (simp add: k(2) d(2))
  from get_connection_first_raise [OF m k(1) c assms(2)]
  show "fst (get_connection drv None st0) = Inl e"
    and "trace (snd (get_connection drv None st0)) = [Connect profile0]"
    by (simp_all add: k(2) d(2))
qed

section \<open>The precedence of the configurations\<close>

text \<open>
  Claim C2. Let \<open>process_wide\<close> be the overrides of the command line, with which line
  541 made \<^verbatim>\<open>GLOBAL_DB_CONFIG\<close> from a copy of \<^verbatim>\<open>DEFAULT_DB_CONFIG\<close> (none when the
  global is still \<^verbatim>\<open>None\<close>), and \<open>per_call\<close> the dictionary passed as \<^verbatim>\<open>db_config\<close>
  (none when the argument is \<^verbatim>\<open>None\<close>). The effective profile, the merged copy of
  lines 74 to 86, holds for every key the per-call value when the per-call dictionary
  has the key, else the process-wide value when the command line gave one, else the
  default. Every connection attempt of \<^verbatim>\<open>get_connection\<close> is made with these values,
  for every key but \<^verbatim>\<open>connect_retry_count\<close>. When the retry count so resolved (3 when
  no configuration has the key) allows an attempt, the first call \<^verbatim>\<open>get_connection\<close>
  makes on the driver is \<^verbatim>\<open>psycopg2.connect\<close> with these values and without the key
  \<^verbatim>\<open>connect_retry_count\<close>.
\<close>

theorem effective_profile_precedence:
  assumes "case GLOBAL_DB_CONFIG st of
             None \<Rightarrow> process_wide = []
           | Some g \<Rightarrow> heap st ! g = dict_update (heap st ! DEFAULT_DB_CONFIG st) process_wide"
    and "distinct (map fst process_wide)"
    and "case db_config of
           None \<Rightarrow> per_call = []
         | Some c \<Rightarrow> c < length (heap st) \<and> heap st ! c = per_call \<and> distinct (map fst per_call)"
    and "merge_config db_config st = (cfg, st1)"
  shows "map_of (heap st1 ! cfg) k =
           spec_resolve per_call process_wide (heap st ! DEFAULT_DB_CONFIG st) k
         \<and> (\<forall>c \<in> set (drop (length (trace st)) (trace (snd (get_connection drv db_config st)))).
              \<exists>kw. c = Connect kw
                \<and> (\<forall>k'. k' \<noteq> ''connect_retry_count'' \<longrightarrow>
                      map_of kw k' = spec_resolve per_call process_wide (heap st ! DEFAULT_DB_CONFIG st) k'))
         \<and> (lt_int 0 (case spec_resolve per_call process_wide (heap st ! DEFAULT_DB_CONFIG st)
                              ''connect_retry_count'' of
                         None \<Rightarrow> PInt 3 | Some v \<Rightarrow> v) = Inr True \<longrightarrow>
              (\<exists>kw rest.
                 trace (snd (get_connection drv db_config st)) = trace st @ Connect kw # rest
                 \<and> map_of kw ''connect_retry_count'' = None
                 \<and> (\<forall>k'. k' \<noteq> ''connect_retry_count'' \<longrightarrow>
                       map_of kw k' =
                         spec_resolve per_call process_wide (heap st ! DEFAULT_DB_CONFIG st) k')))"
proof -
  have base: "map_of (heap st ! base_config st) k' =
                (case map_of process_wide k' of
                   Some v \<Rightarrow> Some v | None \<Rightarrow> map_of (heap st ! DEFAULT_DB_CONFIG st) k')" for k'
    using assms(1,2)
    by (cases "GLOBAL_DB_CONFIG st") (simp_all add: base_config_def map_of_dict_update)
  have eff: "map_of (heap st1 ! cfg) k' =
               spec_resolve per_call process_wide (heap st ! DEFAULT_DB_CONFIG st) k'" for k'
  proof (cases db_config)
    case None
    with assms(3,4) show ?thesis
      by (simp add: merge_config_lookup_None base spec_resolve_def)
  next
    case (Some c)
    with assms(3) have c: "c < length (heap st)" "distinct (map fst (heap st ! c))"
      "heap st ! c = per_call"
      by simp_all
    from merge_config_lookup [OF assms(4) [unfolded Some] c(1,2)] show ?thesis
      by (simp add: c(3) base spec_resolve_def split: option.splits)
  qed
  define profile where "profile = AList.delete ''connect_retry_count'' (heap st1 ! cfg)"
  have prof: "map_of profile ''connect_retry_count'' = None"
    "\<And>k'. k' \<noteq> ''connect_retry_count'' \<Longrightarrow>
       map_of profile k' = spec_resolve per_call process_wide (heap st ! DEFAULT_DB_CONFIG st) k'"
    by (simp_all add: profile_def delete_conv' eff)
  from get_connection_effects [OF assms(4), of drv] obtain n where
    "trace (snd (get_connection drv db_config st)) = trace st @ replicate n (Connect profile)"
    unfolding profile_def by blast
  then have all: "\<forall>c \<in> set (drop (length (trace st)) (trace (snd (get_connection drv db_config st)))).
              \<exists>kw. c = Connect kw
                \<and> (\<forall>k'. k' \<noteq> ''connect_retry_count'' \<longrightarrow>
                      map_of kw k' = spec_resolve per_call process_wide (heap st ! DEFAULT_DB_CONFIG st) k')"
    using prof(2) by auto
  have due: "\<exists>kw rest.
                 trace (snd (get_connection drv db_config st)) = trace st @ Connect kw # rest
                 \<and> map_of kw ''connect_retry_count'' = None
                 \<and> (\<forall>k'. k' \<noteq> ''connect_retry_count'' \<longrightarrow>
                       map_of kw k' =
                         spec_resolve per_call process_wide (heap st ! DEFAULT_DB_CONFIG st) k')"
    if "lt_int 0 (case spec_resolve per_call process_wide (heap st ! DEFAULT_DB_CONFIG st)
                              ''connect_retry_count'' of
                         None \<Rightarrow> PInt 3 | Some v \<Rightarrow> v) = Inr True"
  proof -
    from that have "lt_int 0 (dict_get (heap st1 ! cfg) ''connect_retry_count'' (PInt 3)) = Inr True"
      by (simp add: dict_get_def eff)
    from get_connection_first_call [OF assms(4) this, of drv] obtain rest where
      "trace (snd (get_connection drv db_config st)) = trace st @ Connect profile # rest"
      unfolding profile_def by blast
    with prof show ?thesis
      by blast
  qed
  from eff all due show ?thesis
    by blast
qed

theorem effective_profile_precedence_witness:
  "map_of (heap (snd (merge_config (Some 2) (with_dict [(''host'', PStr ''callhost'')] (main_init args0 st0))))
             ! fst (merge_config (Some 2) (with_dict [(''host'', PStr ''callhost'')] (main_init args0 st0))))
          ''host'' = Some (PStr ''callhost'')
   \<and> map_of (heap (snd (merge_config (Some 2) (with_dict [(''host'', PStr ''callhost'')] (main_init args0 st0))))
             ! fst (merge_config (Some 2) (with_dict [(''host'', PStr ''callhost'')] (main_init args0 st0))))
          ''port'' = Some (PInt 6000)
   \<and> map_of (heap (snd (merge_config (Some 2) (with_dict [(''host'', PStr ''callhost'')] (main_init args0 st0))))
             ! fst (merge_config (Some 2) (with_dict [(''host'', PStr ''callhost'')] (main_init args0 st0))))
          ''user'' = Some (PStr ''postgres'')
   \<and> trace (snd (get_connection drv_ok (Some 2)
                   (with_dict [(''host'', PStr ''callhost'')] (main_init args0 st0))))
       = [Connect [(''host'', PStr ''callhost''), (''port'', PInt 6000), (''user'', PStr ''postgres''),
                   (''password'', PStr ''postgres''), (''database'', PStr ''postgres''),
                   (''connect_timeout'', PInt 10)]]
   \<and> (\<exists>kw rest.
         trace (snd (get_connection (drv_refuse ''timeout expired'') (Some 2)
                   (with_dict [(''host'', PStr ''callhost'')] (main_init args0 st0))))
           = Connect kw # rest
         \<and> map_of kw ''host'' = Some (PStr ''callhost'')
         \<and> map_of kw ''port'' = Some (PInt 6000)
         \<and> map_of kw ''user'' = Some (PStr ''postgres'')
         \<and> map_of kw ''connect_retry_count'' = None)"
proof -
  define d where "d = [(''host'', PStr ''callhost'')]"
  define st where "st = with_dict d (main_init args0 st0)"
  define mc where "mc = merge_config (Some 2) st"
  note h = with_dict_main_init [of d args0, folded st_def]
  have c0: "cmd_config args0 = [(''host'', PStr ''cmdhost''), (''port'', PInt 6000)]"
    by (simp add: cmd_config_def args0_def set_str_arg_def set_int_arg_def)
  have 1: "case GLOBAL_DB_CONFIG st of
             None \<Rightarrow> cmd_config args0 = []
           | Some g \<Rightarrow> heap st ! g = dict_update (heap st ! DEFAULT_DB_CONFIG st) (cmd_config args0)"
    by (simp add: h)
  have 3: "case Some 2 of
           None \<Rightarrow> d = []
         | Some c \<Rightarrow> c < length (heap st) \<and> heap st ! c = d \<and> distinct (map fst d)"
    by (simp add: h d_def)
  have 4: "merge_config (Some 2) st = (fst mc, snd mc)"
    by (simp add: mc_def)
  have hD: "heap st ! DEFAULT_DB_CONFIG st = default_db_config env0"
    by (simp add: h)
  have res: "spec_resolve d (cmd_config args0) (default_db_config env0) ''host''
               = Some (PStr ''callhost'')"
    "spec_resolve d (cmd_config args0) (default_db_config env0) ''port'' = Some (PInt 6000)"
    "spec_resolve d (cmd_config args0) (default_db_config env0) ''user''
               = Some (PStr ''postgres'')"
    "spec_resolve d (cmd_config args0) (default_db_config env0) ''connect_retry_count''
               = Some (PInt 3)"
    by (simp_all add: spec_resolve_def d_def c0 default_db_config_def env0_def)
  have e: "heap (snd mc) ! fst mc =
      [(''host'', PStr ''callhost''), (''port'', PInt 6000), (''user'', PStr ''postgres''),
       (''password'', PStr ''postgres''), (''database'', PStr ''postgres''),
       (''connect_timeout'', PInt 10), (''connect_retry_count'', PInt 3)]"
    by (simp add: mc_def merge_config_def base_config_def copy_def heap_store_def h dict_update_def
          c0 d_def default_db_config_def env0_def)
  have lt: "lt_int 0 (dict_get (heap (snd mc) ! fst mc) ''connect_retry_count'' (PInt 3)) = Inr True"
    by (simp add: e dict_get_def)
  have ok: "psycopg2_connect drv_ok (trace st)
              (AList.delete ''connect_retry_count'' (heap (snd mc) ! fst mc)) = None"
    by (simp add: drv_ok_def)
  note t = effective_profile_precedence [OF 1 distinct_cmd_config 3 4, unfolded hD]
  note run = get_connection_first_success(2) [OF 4 lt ok]
  have first: "\<exists>kw rest.
         trace (snd (get_connection (drv_refuse ''timeout expired'') (Some 2) st)) = Connect kw # rest
         \<and> map_of kw ''host'' = Some (PStr ''callhost'')
         \<and> map_of kw ''port'' = Some (PInt 6000)
         \<and> map_of kw ''user'' = Some (PStr ''postgres'')
         \<and> map_of kw ''connect_retry_count'' = None"
    using t [of "''host''" "drv_refuse ''timeout expired''", THEN conjunct2, THEN conjunct2]
    by (auto simp: res h(4))
  have "map_of (heap (snd mc) ! fst mc) ''host'' = Some (PStr ''callhost'')"
    "map_of (heap (snd mc) ! fst mc) ''port'' = Some (PInt 6000)"
    "map_of (heap (snd mc) ! fst mc) ''user'' = Some (PStr ''postgres'')"
    by (simp_all add: t [THEN conjunct1] res)
  moreover have "trace (snd (get_connection drv_ok (Some 2) st))
       = [Connect [(''host'', PStr ''callhost''), (''port'', PInt 6000), (''user'', PStr ''postgres''),
                   (''password'', PStr ''postgres''), (''database'', PStr ''postgres''),
                   (''connect_timeout'', PInt 10)]]"
    using run by (simp add: e h)
  ultimately show ?thesis
    using first unfolding mc_def st_def d_def by simp
qed

section \<open>Connection attempts and the error raised\<close>

text \<open>
  Claim C1, as the program has it. Let the effective profile, the dictionary
  \<^verbatim>\<open>db_config\<close> is rebound to by lines 74 to 86, hold \<^verbatim>\<open>connect_retry_count = N\<close> with
  \<open>N \<ge> 1\<close>, and let every call of \<^verbatim>\<open>psycopg2.connect\<close> raise a \<^verbatim>\<open>psycopg2.Error\<close>, the
  one class that line 99 catches. Then \<^verbatim>\<open>get_connection\<close> makes exactly \<open>N\<close> connection
  attempts, each with the profile less the retry count, and raises an \<^verbatim>\<open>Exception\<close>
  whose message gives the count \<open>N\<close> and then the text of the error of the last
  attempt. The profile holds the keys \<^verbatim>\<open>host\<close>, \<^verbatim>\<open>port\<close>, \<^verbatim>\<open>user\<close> and
  \<^verbatim>\<open>database\<close>, as every profile merged from \<^verbatim>\<open>DEFAULT_DB_CONFIG\<close> does.
\<close>

theorem get_connection_exhausts_retries:
  assumes "\<And>tr kw. \<exists>s. psycopg2_connect drv tr kw = Some (Error s)"
    and "merge_config db_config st = (cfg, st1)"
    and "map_of (heap st1 ! cfg) ''connect_retry_count'' = Some (PInt N)" and "1 \<le> N"
    and "map_of (heap st1 ! cfg) ''host'' \<noteq> None" and "map_of (heap st1 ! cfg) ''port'' \<noteq> None"
    and "map_of (heap st1 ! cfg) ''user'' \<noteq> None" and "map_of (heap st1 ! cfg) ''database'' \<noteq> None"
  shows "trace (snd (get_connection drv db_config st)) =
           trace st @ replicate (nat N) (Connect (AList.delete ''connect_retry_count'' (heap st1 ! cfg)))
         \<and> (\<exists>s suffix.
               psycopg2_connect drv (butlast (trace (snd (get_connection drv db_config st))))
                  (AList.delete ''connect_retry_count'' (heap st1 ! cfg)) = Some (Error s)
               \<and> fst (get_connection drv db_config st) =
                   Inl (Exception (txt_conn_error_a @ str_int N @ txt_conn_error_b @ s @ suffix)))"
proof -
  define profile where "profile = AList.delete ''connect_retry_count'' (heap st1 ! cfg)"
  note run = get_connection_all_fail [OF assms(1-4), folded profile_def]
  from run(1) obtain s where s:
    "fst (get_connection drv db_config st) = Inl (connection_error N (Some (Error s)) profile)"
    "psycopg2_connect drv (trace st @ replicate (nat N - 1) (Connect profile)) profile = Some (Error s)"
    by blast
  have "map_of profile ''host'' \<noteq> None" "map_of profile ''port'' \<noteq> None"
    "map_of profile ''user'' \<noteq> None" "map_of profile ''database'' \<noteq> None"
    using assms(5-8) by (simp_all add: profile_def delete_conv')
  from connection_error_message [OF this, of N "Error s"]
  obtain suffix where "connection_error N (Some (Error s)) profile =
      Exception (txt_conn_error_a @ str_int N @ txt_conn_error_b @ s @ suffix)"
    by auto
  moreover have "butlast (trace st @ replicate (nat N) (Connect profile))
                   = trace st @ replicate (nat N - 1) (Connect profile)"
  proof (cases "nat N")
    case 0
    with assms(4) show ?thesis by simp
  next
    case (Suc k)
    have "replicate (Suc k) (Connect profile) = replicate k (Connect profile) @ [Connect profile]"
      by (simp add: replicate_append_same)
    then show ?thesis
      by (simp add: Suc butlast_append del: replicate_Suc)
  qed
  ultimately show ?thesis
    using s run(2) unfolding profile_def [symmetric] by auto
qed

theorem get_connection_exhausts_retries_witness:
  "trace (snd (get_connection (drv_refuse ''timeout expired'') None st0)) =
     replicate 3 (Connect [(''host'', PStr ''localhost''), (''port'', PInt 5432),
       (''user'', PStr ''postgres''), (''password'', PStr ''postgres''),
       (''database'', PStr ''postgres''), (''connect_timeout'', PInt 10)])
   \<and> (\<exists>suffix. fst (get_connection (drv_refuse ''timeout expired'') None st0) =
          Inl (Exception (txt_conn_error_a @ ''3'' @ txt_conn_error_b @ ''timeout expired'' @ suffix)))"
proof -
  define st1 where "st1 = st0\<lparr>heap := heap st0 @ [default_db_config env0]\<rparr>"
  have fails: "\<And>tr kw. \<exists>s. psycopg2_connect (drv_refuse ''timeout expired'') tr kw = Some (Error s)"
    by (simp add: drv_refuse_def)
  have m: "merge_config None st0 = (Suc 0, st1)"
    by (simp add: st0_merge st1_def)
  have d: "heap st1 ! Suc 0 = default_db_config env0"
    by (simp add: st1_def st0_def module_state_def)
  have k: "map_of (heap st1 ! Suc 0) ''connect_retry_count'' = Some (PInt 3)"
    "map_of (heap st1 ! Suc 0) ''host'' \<noteq> None" "map_of (heap st1 ! Suc 0) ''port'' \<noteq> None"
    "map_of (heap st1 ! Suc 0) ''user'' \<noteq> None" "map_of (heap st1 ! Suc 0) ''database'' \<noteq> None"
    by (simp_all add: d default_db_config_def env0_def)
  have tr: "trace st0 = []"
    by (simp add: st0_def module_state_def)
  from get_connection_exhausts_retries [OF fails m k(1) _ k(2-5)]
  show ?thesis
    by (simp add: d tr str_int_3 default_db_config_def env0_def drv_refuse_def)
qed

text \<open>
  The claim as written speaks of every failing attempt. An attempt that fails with
  an exception that is not a \<^verbatim>\<open>psycopg2.Error\<close>, such as a \<^verbatim>\<open>TypeError\<close>, is not caught
  by line 99: with a retry count of 3 and a driver that raises it at every attempt,
  one attempt is made and the \<^verbatim>\<open>TypeError\<close> itself reaches the caller.
\<close>

theorem get_connection_other_exception_counterexample:
  "map_of (default_db_config env0) ''connect_retry_count'' = Some (PInt 3)
   \<and> psycopg2_connect
         (drv_raise (TypeError ([CHR 0x27] @ ''str'' @ [CHR 0x27] @ '' object is not callable'')))
         [] profile0
       = Some (TypeError ([CHR 0x27] @ ''str'' @ [CHR 0x27] @ '' object is not callable''))
   \<and> psycopg2_connect
         (drv_raise (TypeError ([CHR 0x27] @ ''str'' @ [CHR 0x27] @ '' object is not callable'')))
         [Connect profile0] profile0
       = Some (TypeError ([CHR 0x27] @ ''str'' @ [CHR 0x27] @ '' object is not callable''))
   \<and> psycopg2_connect
         (drv_raise (TypeError ([CHR 0x27] @ ''str'' @ [CHR 0x27] @ '' object is not callable'')))
         [Connect profile0, Connect profile0] profile0
       = Some (TypeError ([CHR 0x27] @ ''str'' @ [CHR 0x27] @ '' object is not callable''))
   \<and> fst (get_connection
             (drv_raise (TypeError ([CHR 0x27] @ ''str'' @ [CHR 0x27] @ '' object is not callable'')))
             None st0)
       = Inl (TypeError ([CHR 0x27] @ ''str'' @ [CHR 0x27] @ '' object is not callable''))
   \<and> trace (snd (get_connection
             (drv_raise (TypeError ([CHR 0x27] @ ''str'' @ [CHR 0x27] @ '' object is not callable'')))
             None st0))
       = [Connect profile0]"
proof -
  define e where "e = TypeError ([CHR 0x27] @ ''str'' @ [CHR 0x27] @ '' object is not callable'')"
  have c: "\<And>tr kw. psycopg2_connect (drv_raise e) tr kw = Some e"
    by (simp add: drv_raise_def)
  have n: "\<not> is_Error e"
    by (simp add: e_def)
  have k: "map_of (default_db_config env0) ''connect_retry_count'' = Some (PInt 3)"
    by (simp add: default_db_config_def env0_def)
  from st0_connect_raise [OF c n] c k show ?thesis
    unfolding e_def by simp
qed

text \<open>
  Claim C10. When the effective profile holds a \<^verbatim>\<open>connect_retry_count\<close> that is zero or
  negative, \<^verbatim>\<open>get_connection\<close> calls \<^verbatim>\<open>psycopg2.connect\<close> not once, whatever the
  driver would answer, and raises an \<^verbatim>\<open>Exception\<close> whose message reports \<open>0\<close> retries
  and the last error \<^verbatim>\<open>None\<close>.
\<close>

theorem get_connection_no_retries:
  assumes "merge_config db_config st = (cfg, st1)"
    and "map_of (heap st1 ! cfg) ''connect_retry_count'' = Some (PInt n)"
    and "n \<le> 0"
  shows "fst (get_connection drv db_config st) =
           Inl (Exception (txt_conn_error_a @ ''0'' @ txt_conn_error_b @ ''None''))
         \<and> trace (snd (get_connection drv db_config st)) = trace st"
  using assms(2,3) popped_state(2) [OF assms(1)]
  by (simp add: get_connection_unfold [OF assms(1)] dict_get_def connect_loop_done
        connection_error_None)

theorem get_connection_no_retries_witness:
  "fst (get_connection drv_ok (Some (Suc 0)) (with_dict [(''connect_retry_count'', PInt 0)] st0)) =
     Inl (Exception (txt_conn_error_a @ ''0'' @ txt_conn_error_b @ ''None''))
   \<and> trace (snd (get_connection drv_ok (Some (Suc 0)) (with_dict [(''connect_retry_count'', PInt 0)] st0))) = []"
proof -
  define d where "d = [(''connect_retry_count'', PInt 0)]"
  define st1 where "st1 = (with_dict d st0)\<lparr>heap := heap (with_dict d st0) @ [dict_update (default_db_config env0) d]\<rparr>"
  have m: "merge_config (Some (Suc 0)) (with_dict d st0) = (Suc (Suc 0), st1)"
    by (simp add: with_dict_merge st1_def)
  have k: "map_of (heap st1 ! Suc (Suc 0)) ''connect_retry_count'' = Some (PInt 0)"
    by (simp add: st1_def with_dict_def st0_def module_state_def d_def dict_update_def
          default_db_config_def)
  have tr: "\<And>x. trace (with_dict x st0) = []"
    by (simp add: with_dict_def st0_def module_state_def)
  from get_connection_no_retries [OF m k, of drv_ok]
  show ?thesis
    by (simp add: tr d_def)
qed


text \<open>
  Claim C5, as the program has it. After the retries are exhausted the user name hint
  of line 112 is appended when the lower-cased text of the last error contains the one
  phrase \<^verbatim>\<open>password authentication failed\<close> and does not contain
  \<^verbatim>\<open>connection refused\<close>.
\<close>

theorem get_connection_authentication_hint:
  assumes "\<And>tr kw. \<exists>s. psycopg2_connect drv tr kw = Some (Error s)"
    and "merge_config db_config st = (cfg, st1)"
    and "map_of (heap st1 ! cfg) ''connect_retry_count'' = Some (PInt N)" and "1 \<le> N"
    and "psycopg2_connect drv
           (trace st @ replicate (nat N - 1) (Connect (AList.delete ''connect_retry_count'' (heap st1 ! cfg))))
           (AList.delete ''connect_retry_count'' (heap st1 ! cfg)) = Some (Error s)"
    and "contains ''password authentication failed'' (lower s)"
    and "\<not> contains ''connection refused'' (lower s)"
    and "map_of (heap st1 ! cfg) ''user'' = Some u"
  shows "fst (get_connection drv db_config st) =
           Inl (Exception (txt_conn_error_a @ str_int N @ txt_conn_error_b @ s
                             @ txt_auth_a @ py_str u @ txt_auth_b))"
proof -
  define profile where "profile = AList.delete ''connect_retry_count'' (heap st1 ! cfg)"
  from get_connection_all_fail(1) [OF assms(1-4), folded profile_def] assms(5)
  have "fst (get_connection drv db_config st) = Inl (connection_error N (Some (Error s)) profile)"
    by (auto simp: profile_def)
  moreover have "map_of profile ''user'' = Some u"
    using assms(8) by (simp add: profile_def delete_conv')
  ultimately show ?thesis
    using assms(6,7) by (simp add: connection_error_auth)
qed

theorem get_connection_authentication_hint_witness:
  "fst (get_connection (drv_refuse ''FATAL:  password authentication failed for user x'') None st0) =
     Inl (Exception (txt_conn_error_a @ ''3'' @ txt_conn_error_b
            @ ''FATAL:  password authentication failed for user x''
            @ txt_auth_a @ ''postgres'' @ txt_auth_b))"
proof -
  define t where "t = ''FATAL:  password authentication failed for user x''"
  define st1 where "st1 = st0\<lparr>heap := heap st0 @ [default_db_config env0]\<rparr>"
  have fails: "\<And>tr kw. \<exists>s. psycopg2_connect (drv_refuse t) tr kw = Some (Error s)"
    by (simp add: drv_refuse_def)
  have last: "\<And>tr kw. psycopg2_connect (drv_refuse t) tr kw = Some (Error t)"
    by (simp add: drv_refuse_def)
  have m: "merge_config None st0 = (Suc 0, st1)"
    by (simp add: st0_merge st1_def)
  have d: "heap st1 ! Suc 0 = default_db_config env0"
    by (simp add: st1_def st0_def module_state_def)
  have k: "map_of (heap st1 ! Suc 0) ''connect_retry_count'' = Some (PInt 3)"
    "map_of (heap st1 ! Suc 0) ''user'' = Some (PStr ''postgres'')"
    unfolding d by (simp_all add: default_db_config_def env0_def)
  have c: "contains ''password authentication failed'' (lower t)"
    "\<not> contains ''connection refused'' (lower t)"
    by (simp_all add: t_def lower_def lower_char_def)
  from get_connection_authentication_hint [OF fails m k(1) _ last c k(2)]
  show ?thesis
    by (simp add: str_int_3 t_def)
qed

text \<open>
  The claim as written asks only for the two words \<^verbatim>\<open>password\<close> and
  \<^verbatim>\<open>authentication failed\<close> somewhere in the text. The error text
  \<^verbatim>\<open>authentication failed: wrong password\<close> has both and no
  \<^verbatim>\<open>connection refused\<close>, and no hint is appended.
\<close>

theorem authentication_hint_counterexample:
  "contains ''password'' (lower ''authentication failed: wrong password'')
   \<and> contains ''authentication failed'' (lower ''authentication failed: wrong password'')
   \<and> \<not> contains ''connection refused'' (lower ''authentication failed: wrong password'')
   \<and> fst (get_connection (drv_refuse ''authentication failed: wrong password'') None st0) =
       Inl (Exception (txt_conn_error_a @ ''3'' @ txt_conn_error_b
              @ ''authentication failed: wrong password''))
   \<and> fst (get_connection (drv_refuse ''authentication failed: wrong password'') None st0) \<noteq>
       Inl (Exception (txt_conn_error_a @ ''3'' @ txt_conn_error_b
              @ ''authentication failed: wrong password''
              @ txt_auth_a @ ''postgres'' @ txt_auth_b))"
proof -
  define t where "t = ''authentication failed: wrong password''"
  define st1 where "st1 = st0\<lparr>heap := heap st0 @ [default_db_config env0]\<rparr>"
  have fails: "\<And>tr kw. \<exists>s. psycopg2_connect (drv_refuse t) tr kw = Some (Error s)"
    by (simp add: drv_refuse_def)
  have m: "merge_config None st0 = (Suc 0, st1)"
    by (simp add: st0_merge st1_def)
  have k: "map_of (heap st1 ! Suc 0) ''connect_retry_count'' = Some (PInt 3)"
    by (simp add: st1_def st0_def module_state_def default_db_config_def env0_def)
  have lt: "lower t = t"
    by (simp add: t_def lower_def lower_char_def)
  have c: "contains ''password'' t" "contains ''authentication failed'' t"
    "\<not> contains ''connection refused'' t" "\<not> contains ''password authentication failed'' t"
    "\<not> contains ''database'' t"
    by (simp_all add: t_def)
  from get_connection_all_fail(1) [OF fails m k]
  have run: "fst (get_connection (drv_refuse t) None st0) =
      Inl (Exception (txt_conn_error_a @ ''3'' @ txt_conn_error_b @ t))"
    using c by (auto simp: drv_refuse_def connection_error_plain lt str_int_3)
  have "txt_auth_a \<noteq> []"
    by (simp add: txt_auth_a_def)
  with run c show ?thesis
    by (simp add: lt t_def [symmetric])
qed

section \<open>What \<^verbatim>\<open>get_connection\<close> passes on and what it leaves alone\<close>

text \<open>
  Claim C9. Every call of \<^verbatim>\<open>psycopg2.connect\<close> that \<^verbatim>\<open>get_connection\<close> makes carries the
  effective profile with the key \<^verbatim>\<open>connect_retry_count\<close> deleted, so the key is never a
  connection parameter. The deletion is made in the merged copy: every dictionary that
  existed before the call, among them the caller's \<^verbatim>\<open>db_config\<close>, the process-wide
  configuration and the defaults, is the same after it, and the two module globals
  still name the same objects.
\<close>

theorem get_connection_frame:
  assumes "merge_config db_config st = (cfg, st1)"
  shows "(\<forall>c \<in> set (drop (length (trace st)) (trace (snd (get_connection drv db_config st)))).
            c = Connect (AList.delete ''connect_retry_count'' (heap st1 ! cfg)))
         \<and> map_of (AList.delete ''connect_retry_count'' (heap st1 ! cfg)) ''connect_retry_count'' = None
         \<and> (\<forall>a < length (heap st). heap (snd (get_connection drv db_config st)) ! a = heap st ! a)
         \<and> GLOBAL_DB_CONFIG (snd (get_connection drv db_config st)) = GLOBAL_DB_CONFIG st
         \<and> DEFAULT_DB_CONFIG (snd (get_connection drv db_config st)) = DEFAULT_DB_CONFIG st"
proof -
  from get_connection_effects [OF assms, of drv] obtain n where
    "heap (snd (get_connection drv db_config st)) =
               heap st @ replicate (Suc n) (AList.delete ''connect_retry_count'' (heap st1 ! cfg))"
    "trace (snd (get_connection drv db_config st)) =
               trace st @ replicate n (Connect (AList.delete ''connect_retry_count'' (heap st1 ! cfg)))"
    "GLOBAL_DB_CONFIG (snd (get_connection drv db_config st)) = GLOBAL_DB_CONFIG st"
    "DEFAULT_DB_CONFIG (snd (get_connection drv db_config st)) = DEFAULT_DB_CONFIG st"
    by blast
  then show ?thesis
    by (simp add: nth_append delete_conv' del: replicate_Suc)
qed

theorem get_connection_frame_witness:
  "trace (snd (get_connection (drv_refuse ''timeout expired'') (Some (Suc 0))
            (with_dict [(''connect_retry_count'', PInt 2), (''host'', PStr ''db'')] st0))) =
     replicate 2 (Connect [(''host'', PStr ''db''), (''port'', PInt 5432),
       (''user'', PStr ''postgres''), (''password'', PStr ''postgres''),
       (''database'', PStr ''postgres''), (''connect_timeout'', PInt 10)])
   \<and> heap (snd (get_connection (drv_refuse ''timeout expired'') (Some (Suc 0))
            (with_dict [(''connect_retry_count'', PInt 2), (''host'', PStr ''db'')] st0))) ! Suc 0 =
       [(''connect_retry_count'', PInt 2), (''host'', PStr ''db'')]
   \<and> heap (snd (get_connection (drv_refuse ''timeout expired'') (Some (Suc 0))
            (with_dict [(''connect_retry_count'', PInt 2), (''host'', PStr ''db'')] st0))) ! 0 =
       default_db_config env0"
proof -
  define d where "d = [(''connect_retry_count'', PInt 2), (''host'', PStr ''db'')]"
  define st1 where "st1 = (with_dict d st0)\<lparr>heap := heap (with_dict d st0) @ [dict_update (default_db_config env0) d]\<rparr>"
  have fails: "\<And>tr kw. \<exists>s. psycopg2_connect (drv_refuse ''timeout expired'') tr kw = Some (Error s)"
    by (simp add: drv_refuse_def)
  have m: "merge_config (Some (Suc 0)) (with_dict d st0) = (Suc (Suc 0), st1)"
    by (simp add: with_dict_merge st1_def)
  have e: "heap st1 ! Suc (Suc 0) =
      [(''host'', PStr ''db''), (''port'', PInt 5432),
       (''user'', PStr ''postgres''), (''password'', PStr ''postgres''),
       (''database'', PStr ''postgres''), (''connect_timeout'', PInt 10),
       (''connect_retry_count'', PInt 2)]"
    by (simp add: st1_def with_dict_def st0_def module_state_def d_def dict_update_def
          default_db_config_def env0_def)
  have k: "map_of (heap st1 ! Suc (Suc 0)) ''connect_retry_count'' = Some (PInt 2)"
    by (simp add: e)
  have h: "heap (with_dict d st0) = [default_db_config env0, d]" "trace (with_dict d st0) = []"
    by (simp_all add: with_dict_def st0_def module_state_def)
  from get_connection_frame [OF m, of "drv_refuse ''timeout expired''"]
    get_connection_all_fail(2) [OF fails m k]
  show ?thesis
    unfolding e h d_def [symmetric] by (simp add: numeral_2_eq_2)
qed

section \<open>The two results of \<^verbatim>\<open>execute_query\<close>\<close>

text \<open>
  Claim C3, as the program has it. Let \<^verbatim>\<open>execute_query\<close> return a success result.
  When the statement, after \<^verbatim>\<open>str.strip()\<close> and \<^verbatim>\<open>str.upper()\<close>, starts with
  \<^verbatim>\<open>SELECT\<close>, \<^verbatim>\<open>SHOW\<close>, \<^verbatim>\<open>DESCRIBE\<close> or \<^verbatim>\<open>EXPLAIN\<close>, the calls after the cursor
  is made are \<^verbatim>\<open>execute\<close> and \<^verbatim>\<open>fetchall\<close> and no \<^verbatim>\<open>commit\<close>, and the result holds
  the rows fetched and their number. For every other statement the calls are
  \<^verbatim>\<open>execute\<close> and \<^verbatim>\<open>commit\<close>, and the result holds \<^verbatim>\<open>cursor.rowcount\<close> as read after
  the commit.
\<close>

theorem execute_query_result_shape:
  assumes "fst (execute_query drv query params db_config st) = Inr r"
    and "map_of r ''success'' = Some (DVal (PBool True))"
  shows "\<exists>n p cl.
           (cl = [] \<or> cl = [CursorClose, ConnClose])
           \<and> (if startswith (upper (strip query)) ''SELECT''
                   \<or> startswith (upper (strip query)) ''SHOW''
                   \<or> startswith (upper (strip query)) ''DESCRIBE''
                   \<or> startswith (upper (strip query)) ''EXPLAIN''
                then trace (snd (execute_query drv query params db_config st))
                       = trace st @ replicate n (Connect p)
                           @ [Cursor, Execute query (case params of None \<Rightarrow> [] | Some ps \<Rightarrow> ps),
                              FetchAll] @ cl
                     \<and> (\<exists>rows.
                           cursor_fetchall drv
                             (trace st @ replicate n (Connect p)
                                @ [Cursor, Execute query (case params of None \<Rightarrow> [] | Some ps \<Rightarrow> ps)])
                             = Inr rows
                           \<and> r = [(''success'', DVal (PBool True)),
                                    (''rows'', DList (map DDict rows)),
                                    (''row_count'', DVal (PInt (int (length rows))))])
                else trace (snd (execute_query drv query params db_config st))
                       = trace st @ replicate n (Connect p)
                           @ [Cursor, Execute query (case params of None \<Rightarrow> [] | Some ps \<Rightarrow> ps),
                              Commit] @ cl
                     \<and> r = [(''success'', DVal (PBool True)),
                              (''affected_rows'',
                                 DVal (PInt (cursor_rowcount drv
                                   (trace st @ replicate n (Connect p)
                                      @ [Cursor,
                                         Execute query (case params of None \<Rightarrow> [] | Some ps \<Rightarrow> ps),
                                         Commit]))))])"
  using execute_query_success [OF assms, unfolded is_result_query_iff] .

theorem execute_query_result_shape_witness:
  "fst (execute_query drv_ok ''  select 1'' None None st0) =
     Inr [(''success'', DVal (PBool True)), (''rows'', DList [DDict [(''n'', PInt 1)]]),
          (''row_count'', DVal (PInt 1))]
   \<and> trace (snd (execute_query drv_ok ''  select 1'' None None st0)) =
       [Connect profile0, Cursor, Execute ''  select 1'' [], FetchAll, CursorClose, ConnClose]
   \<and> fst (execute_query drv_ok ''DELETE FROM t'' None None st0) =
       Inr [(''success'', DVal (PBool True)), (''affected_rows'', DVal (PInt 7))]
   \<and> trace (snd (execute_query drv_ok ''DELETE FROM t'' None None st0)) =
       [Connect profile0, Cursor, Execute ''DELETE FROM t'' [], Commit, CursorClose, ConnClose]"
proof -
  have oc: "open_cursor drv_ok None st0 =
           (None, ConnAndCursor, record_call Cursor (snd (get_connection drv_ok None st0)))"
    by (rule st0_open_cursor) (simp_all add: drv_ok_def)
  have tr: "trace (snd (get_connection drv_ok None st0)) = [Connect profile0]"
    by (rule st0_connect) (simp add: drv_ok_def)
  have d: "\<And>t. \<not> conn_closed drv_ok t" "\<And>t. cursor_close drv_ok t = None"
    "\<And>t. conn_close drv_ok t = None" "\<And>t. conn_commit drv_ok t = None"
    "\<And>t q v. cursor_execute drv_ok t q v = None"
    "\<And>t. cursor_fetchall drv_ok t = Inr [[(''n'', PInt 1)]]"
    "\<And>t. cursor_rowcount drv_ok t = 7"
    by (simp_all add: drv_ok_def)
  have rd: "fst (execute_query drv_ok ''  select 1'' None None st0) =
     Inr [(''success'', DVal (PBool True)), (''rows'', DList [DDict [(''n'', PInt 1)]]),
          (''row_count'', DVal (PInt 1))]"
    by (simp add: execute_query_def execute_query_try_def oc finally_close_def d Let_def
          is_result_query_examples)
  have wr: "fst (execute_query drv_ok ''DELETE FROM t'' None None st0) =
       Inr [(''success'', DVal (PBool True)), (''affected_rows'', DVal (PInt 7))]"
    by (simp add: execute_query_def execute_query_try_def oc finally_close_def d Let_def
          is_result_query_examples)
  have trd: "trace (snd (execute_query drv_ok ''  select 1'' None None st0)) =
       [Connect profile0, Cursor, Execute ''  select 1'' [], FetchAll, CursorClose, ConnClose]"
    by (simp add: execute_query_def execute_query_try_def oc finally_close_def d Let_def
          is_result_query_examples record_call_def tr)
  have twr: "trace (snd (execute_query drv_ok ''DELETE FROM t'' None None st0)) =
       [Connect profile0, Cursor, Execute ''DELETE FROM t'' [], Commit, CursorClose, ConnClose]"
    by (simp add: execute_query_def execute_query_try_def oc finally_close_def d Let_def
          is_result_query_examples record_call_def tr)
  from execute_query_result_shape [OF rd] execute_query_result_shape [OF wr] rd wr trd twr
  show ?thesis
    by simp
qed
text \<open>
  The claim as written speaks of every statement text. Two texts that start with none
  of the four words show what it leaves out. For the empty text line 129 returns an
  error dictionary: nothing is executed and nothing is committed, on a driver that
  would accept every call. For \<^verbatim>\<open>DELETE FROM t\<close> on a driver whose \<^verbatim>\<open>execute\<close> raises
  a \<^verbatim>\<open>psycopg2.Error\<close>, the result is the error dictionary of lines 158 to 166, and no
  \<^verbatim>\<open>commit\<close> is among the calls made.
\<close>

theorem execute_query_counterexample:
  "\<not> startswith (upper (strip [])) ''SELECT'' \<and> \<not> startswith (upper (strip [])) ''SHOW''
   \<and> \<not> startswith (upper (strip [])) ''DESCRIBE'' \<and> \<not> startswith (upper (strip [])) ''EXPLAIN''
   \<and> fst (execute_query drv_ok [] None None st0) = Inr [(''error'', DVal (PStr txt_query_empty))]
   \<and> trace (snd (execute_query drv_ok [] None None st0)) = []
   \<and> \<not> startswith (upper (strip ''DELETE FROM t'')) ''SELECT''
   \<and> \<not> startswith (upper (strip ''DELETE FROM t'')) ''SHOW''
   \<and> \<not> startswith (upper (strip ''DELETE FROM t'')) ''DESCRIBE''
   \<and> \<not> startswith (upper (strip ''DELETE FROM t'')) ''EXPLAIN''
   \<and> fst (execute_query drv_execute_fails ''DELETE FROM t'' None None st0) =
       Inr [(''error'', DVal (PStr (txt_query_failed @ ''permission denied for table t''))),
            (''query'', DVal (PStr ''DELETE FROM t''))]
   \<and> trace (snd (execute_query drv_execute_fails ''DELETE FROM t'' None None st0)) =
       [Connect profile0, Cursor, Execute ''DELETE FROM t'' [], CursorClose, ConnClose]"
proof -
  have oc: "open_cursor drv_execute_fails None st0 =
           (None, ConnAndCursor, record_call Cursor (snd (get_connection drv_execute_fails None st0)))"
    by (rule st0_open_cursor) (simp_all add: drv_execute_fails_def drv_ok_def)
  have tr: "trace (snd (get_connection drv_execute_fails None st0)) = [Connect profile0]"
    by (rule st0_connect) (simp add: drv_execute_fails_def drv_ok_def)
  have d: "\<And>t. \<not> conn_closed drv_execute_fails t" "\<And>t. cursor_close drv_execute_fails t = None"
    "\<And>t. conn_close drv_execute_fails t = None"
    "\<And>t q v. cursor_execute drv_execute_fails t q v = Some (Error ''permission denied for table t'')"
    by (simp_all add: drv_execute_fails_def drv_ok_def)
  have w: "\<not> startswith (upper (strip [])) ''SELECT''" "\<not> startswith (upper (strip [])) ''SHOW''"
    "\<not> startswith (upper (strip [])) ''DESCRIBE''" "\<not> startswith (upper (strip [])) ''EXPLAIN''"
    "\<not> startswith (upper (strip ''DELETE FROM t'')) ''SELECT''"
    "\<not> startswith (upper (strip ''DELETE FROM t'')) ''SHOW''"
    "\<not> startswith (upper (strip ''DELETE FROM t'')) ''DESCRIBE''"
    "\<not> startswith (upper (strip ''DELETE FROM t'')) ''EXPLAIN''"
    using is_result_query_examples(2,3) by (simp_all add: is_result_query_iff)
  have l: "lower ''permission denied for table t'' = ''permission denied for table t''"
    by (simp add: lower_def lower_char_def)
  have e: "execute_query_except ''DELETE FROM t'' (Error ''permission denied for table t'') =
       [(''error'', DVal (PStr (txt_query_failed @ ''permission denied for table t''))),
        (''query'', DVal (PStr ''DELETE FROM t''))]"
    by (simp add: execute_query_except_def l)
  have empty: "execute_query drv_ok [] None None st0 =
      (Inr [(''error'', DVal (PStr txt_query_empty))], st0)"
    by (simp add: execute_query_def)
  have t0: "trace st0 = []"
    by (simp add: st0_def module_state_def)
  have run: "execute_query drv_execute_fails ''DELETE FROM t'' None None st0 =
      finally_close drv_execute_fails ConnAndCursor
        (Inr (execute_query_except ''DELETE FROM t'' (Error ''permission denied for table t'')))
        (record_call (Execute ''DELETE FROM t'' [])
           (record_call Cursor (snd (get_connection drv_execute_fails None st0))))"
    by (simp add: execute_query_def execute_query_try_def oc d Let_def)
  show ?thesis
    unfolding run e
    by (simp add: w empty t0 finally_close_def d Let_def record_call_def tr)
qed

section \<open>The exit paths of the handlers\<close>

text \<open>
  Claim C4 asks that a handler returns a dictionary on every path and closes the
  connection it opened. The \<^verbatim>\<open>finally\<close> block tests only that \<^verbatim>\<open>conn\<close> is assigned
  before it calls \<^verbatim>\<open>cursor.close()\<close>. When the connection is opened and
  \<^verbatim>\<open>conn.cursor()\<close> raises, the \<^verbatim>\<open>except\<close> clause prepares the error dictionary, and
  then the \<^verbatim>\<open>finally\<close> block raises \<^verbatim>\<open>UnboundLocalError\<close> in its place: the exception
  reaches the caller and \<^verbatim>\<open>conn.close()\<close> is never called. The run below is
  \<^verbatim>\<open>execute_query\<close> on such a driver.
\<close>

theorem cursor_failure_escapes:
  "fst (execute_query drv_no_cursor ''SELECT 1'' None None st0) =
     Inl (UnboundLocalError (''cannot access local variable '' @ [CHR 0x27] @ ''cursor''
            @ [CHR 0x27] @ '' where it is not associated with a value''))
   \<and> trace (snd (execute_query drv_no_cursor ''SELECT 1'' None None st0)) = [Connect profile0, Cursor]"
proof -
  have oc: "open_cursor drv_no_cursor None st0 =
           (Some (Error ''asynchronous connection attempt underway''), ConnOnly,
            record_call Cursor (snd (get_connection drv_no_cursor None st0)))"
    by (rule st0_open_cursor_fails) (simp_all add: drv_no_cursor_def drv_ok_def)
  have tr: "trace (snd (get_connection drv_no_cursor None st0)) = [Connect profile0]"
    by (rule st0_connect) (simp add: drv_no_cursor_def drv_ok_def)
  have cl: "\<And>t. \<not> conn_closed drv_no_cursor t"
    by (simp add: drv_no_cursor_def drv_ok_def)
  show ?thesis
    by (simp add: execute_query_def execute_query_try_def oc finally_close_def cl record_call_def tr)
qed

text \<open>The same run of \<^verbatim>\<open>update_data\<close>, whose \<^verbatim>\<open>finally\<close> block is the same.\<close>

lemma cursor_failure_in_update_data:
  "fst (update_data drv_no_cursor ''users'' (DDict [(''name'', PStr ''a'')]) (Some ''id = 1'') None
          ''public'' None st0) =
     Inl (UnboundLocalError (''cannot access local variable '' @ [CHR 0x27] @ ''cursor''
            @ [CHR 0x27] @ '' where it is not associated with a value''))
   \<and> trace (snd (update_data drv_no_cursor ''users'' (DDict [(''name'', PStr ''a'')]) (Some ''id = 1'')
                  None ''public'' None st0)) = [Connect profile0, Cursor]"
proof -
  have oc: "open_cursor drv_no_cursor None st0 =
           (Some (Error ''asynchronous connection attempt underway''), ConnOnly,
            record_call Cursor (snd (get_connection drv_no_cursor None st0)))"
    by (rule st0_open_cursor_fails) (simp_all add: drv_no_cursor_def drv_ok_def)
  have tr: "trace (snd (get_connection drv_no_cursor None st0)) = [Connect profile0]"
    by (rule st0_connect) (simp add: drv_no_cursor_def drv_ok_def)
  have cl: "\<And>t. \<not> conn_closed drv_no_cursor t"
    by (simp add: drv_no_cursor_def drv_ok_def)
  show ?thesis
    by (simp add: update_data_def update_data_try_def oc finally_close_def cl record_call_def tr)
qed

section \<open>The batch of \<^verbatim>\<open>insert_data\<close>\<close>

text \<open>
  Claim C7. Let \<^verbatim>\<open>insert_data\<close> be called with a list of \<open>N\<close> records, the first of them
  \<open>first\<close>, and return a success result. Then \<^verbatim>\<open>affected_rows\<close> is \<open>N\<close>, and the calls
  made on the driver are the connection attempts, \<^verbatim>\<open>cursor()\<close>, one
  \<^verbatim>\<open>executemany\<close>, \<^verbatim>\<open>commit\<close> and the two closes (none when the driver reports the
  connection closed). The one \<^verbatim>\<open>executemany\<close> has a statement whose columns are the keys
  of \<open>first\<close>, with as many placeholders, and one row of values per record: the
  record's value for each key of \<open>first\<close>, \<^verbatim>\<open>None\<close> where the record lacks the key. A
  single record that is not empty is treated as the list of that one record.
\<close>

theorem insert_data_batch:
  assumes "table_name \<noteq> []"
    and "fst (insert_data drv table_name (DList (map DDict (first # others))) schema_name db_config st)
           = Inr r"
    and "map_of r ''success'' = Some (DVal (PBool True))"
  shows "map_of r ''affected_rows'' = Some (DVal (PInt (int (length (first # others)))))
         \<and> (\<exists>n p cl.
               trace (snd (insert_data drv table_name (DList (map DDict (first # others))) schema_name
                             db_config st))
               = trace st @ replicate n (Connect p)
                   @ [Cursor,
                      ExecuteMany
                        (''INSERT INTO '' @ schema_name @ ''.'' @ table_name @ '' (''
                           @ join '', '' (map fst first) @ '') VALUES (''
                           @ join '', '' (replicate (length first) ''%s'') @ '')'')
                        (map (\<lambda>item. map (\<lambda>col. case map_of item col of None \<Rightarrow> PNone | Some v \<Rightarrow> v)
                                          (map fst first))
                             (first # others)),
                      Commit]
                   @ cl
               \<and> (cl = [] \<or> cl = [CursorClose, ConnClose]))
         \<and> (first \<noteq> [] \<longrightarrow>
               insert_data drv table_name (DDict first) schema_name db_config st
               = insert_data drv table_name (DList [DDict first]) schema_name db_config st)"
proof -
  define recs where "recs = first # others"
  obtain x l st' where t: "insert_data_try drv table_name recs schema_name db_config st = (x, l, st')"
    by (cases "insert_data_try drv table_name recs schema_name db_config st")
  have run: "insert_data drv table_name (DList (map DDict recs)) schema_name db_config st =
      finally_close drv l
        (Inr (case x of Inl e \<Rightarrow> insert_data_except table_name schema_name e | Inr r \<Rightarrow> r)) st'"
    unfolding recs_def
    using t [unfolded recs_def]
      insert_data_records [OF assms(1), of drv first others schema_name db_config st]
    by (cases x) simp_all
  from assms(2) have "Inr (case x of Inl e \<Rightarrow> insert_data_except table_name schema_name e | Inr r \<Rightarrow> r)
      = (Inr r :: exn + result)"
    unfolding recs_def [symmetric] run by (rule finally_close_Inr)
  with assms(3) have x: "x = Inr r"
    by (cases x) (auto simp: insert_data_except_no_success)
  from insert_data_try_Inr [OF t [unfolded x]] obtain st1 where s:
    "open_cursor drv db_config st = (None, l, st1)"
    "r = [(''success'', DVal (PBool True)),
          (''affected_rows'', DVal (PInt (int (length recs)))),
          (''message'', DVal (PStr (txt_insert_ok_a @ schema_name @ ''.'' @ table_name
             @ txt_insert_ok_b @ str_int (int (length recs)) @ txt_insert_ok_c)))]"
    "trace st' = trace st1
               @ [ExecuteMany (insert_sql schema_name table_name (keys (hd recs)))
                              (insert_values (keys (hd recs)) recs), Commit]"
    by blast
  from open_cursor_trace [OF s(1)] open_cursor_ok(3) [OF s(1)] obtain n p where
    o: "trace st1 = trace st @ replicate n (Connect p) @ [Cursor]"
    by auto
  have sql: "insert_sql schema_name table_name (keys (hd recs)) =
      ''INSERT INTO '' @ schema_name @ ''.'' @ table_name @ '' (''
         @ join '', '' (map fst first) @ '') VALUES (''
         @ join '', '' (replicate (length first) ''%s'') @ '')''"
    by (simp add: insert_sql_def keys_def recs_def Let_def)
  have vals: "insert_values (keys (hd recs)) recs =
      map (\<lambda>item. map (\<lambda>col. case map_of item col of None \<Rightarrow> PNone | Some v \<Rightarrow> v)
                                          (map fst first)) recs"
    by (simp add: insert_values_def keys_def recs_def dict_get_def)
  from assms(2) have "trace (snd (insert_data drv table_name (DList (map DDict recs)) schema_name db_config st))
      = trace st' \<or>
    trace (snd (insert_data drv table_name (DList (map DDict recs)) schema_name db_config st))
      = trace st' @ [CursorClose, ConnClose]"
    unfolding recs_def [symmetric] run by (rule finally_close_Inr_trace)
  then have "\<exists>cl. trace (snd (insert_data drv table_name (DList (map DDict recs)) schema_name db_config st))
      = trace st @ replicate n (Connect p)
          @ [Cursor, ExecuteMany (insert_sql schema_name table_name (keys (hd recs)))
                              (insert_values (keys (hd recs)) recs), Commit] @ cl
      \<and> (cl = [] \<or> cl = [CursorClose, ConnClose])"
    unfolding s(3) o by auto
  then show ?thesis
    unfolding sql vals unfolding recs_def [symmetric]
    by (auto simp: s(2) insert_data_single)
qed


theorem insert_data_batch_witness:
  "\<exists>r. fst (insert_data drv_ok ''t''
               (DList (map DDict [[(''a'', PInt 1), (''b'', PInt 2)], [(''b'', PInt 3)]]))
               ''public'' None st0) = Inr r
       \<and> map_of r ''affected_rows'' = Some (DVal (PInt 2))
       \<and> trace (snd (insert_data drv_ok ''t''
               (DList (map DDict [[(''a'', PInt 1), (''b'', PInt 2)], [(''b'', PInt 3)]]))
               ''public'' None st0))
           = [Connect profile0, Cursor,
              ExecuteMany ''INSERT INTO public.t (a, b) VALUES (%s, %s)''
                [[PInt 1, PInt 2], [PNone, PInt 3]],
              Commit, CursorClose, ConnClose]"
proof -
  have oc: "open_cursor drv_ok None st0 =
           (None, ConnAndCursor, record_call Cursor (snd (get_connection drv_ok None st0)))"
    by (rule st0_open_cursor) (simp_all add: drv_ok_def)
  have tr: "trace (snd (get_connection drv_ok None st0)) = [Connect profile0]"
    by (rule st0_connect) (simp add: drv_ok_def)
  have d: "\<And>t. \<not> conn_closed drv_ok t" "\<And>t. cursor_close drv_ok t = None"
    "\<And>t. conn_close drv_ok t = None" "\<And>t. conn_commit drv_ok t = None"
    "\<And>t q v. cursor_executemany drv_ok t q v = None"
    by (simp_all add: drv_ok_def)
  have ev: "fst (insert_data drv_ok ''t''
               (DList (map DDict [[(''a'', PInt 1), (''b'', PInt 2)], [(''b'', PInt 3)]]))
               ''public'' None st0) =
      Inr [(''success'', DVal (PBool True)), (''affected_rows'', DVal (PInt 2)),
           (''message'', DVal (PStr (txt_insert_ok_a @ ''public.t'' @ txt_insert_ok_b
              @ str_int 2 @ txt_insert_ok_c)))]"
    by (simp add: insert_data_def insert_data_try_def oc finally_close_def d Let_def)
  have t: "trace (snd (insert_data drv_ok ''t''
               (DList (map DDict [[(''a'', PInt 1), (''b'', PInt 2)], [(''b'', PInt 3)]]))
               ''public'' None st0))
           = [Connect profile0, Cursor,
              ExecuteMany ''INSERT INTO public.t (a, b) VALUES (%s, %s)''
                [[PInt 1, PInt 2], [PNone, PInt 3]],
              Commit, CursorClose, ConnClose]"
    by (simp add: insert_data_def insert_data_try_def oc finally_close_def d Let_def
          record_call_def tr insert_sql_def insert_values_def keys_def dict_get_def)
  from insert_data_batch [OF _ ev] ev t
  show ?thesis
    by simp
qed

section \<open>Validation in \<^verbatim>\<open>update_data\<close>\<close>

text \<open>
  Claim C6. A call of \<^verbatim>\<open>update_data\<close> whose condition is \<^verbatim>\<open>None\<close> or the empty
  text returns a validation error at once: the result is one of the three
  \<^verbatim>\<open>{"error": ...}\<close> dictionaries of lines 482 to 489 (the one for the condition when
  the table name and the data pass their checks), and the state is the state before
  the call, so no dictionary was copied, no statement text reached the driver, no
  connection was opened and nothing was executed.
\<close>

theorem update_data_rejects_empty_condition:
  "(condition = None \<or> condition = Some []) \<longrightarrow>
   update_data drv table_name data condition params schema_name db_config st =
     (Inr [(''error'', DVal (PStr
        (if table_name = [] then txt_table_name_empty
         else if \<not> truthy_data data \<or> \<not> is_dict data then txt_update_data_empty
         else txt_update_condition_empty)))], st)"
  by (auto simp: update_data_def)

theorem update_data_rejects_empty_condition_witness:
  "update_data drv_ok ''users'' (DDict [(''name'', PStr ''a'')]) None (Some [PInt 1]) ''public'' None st0
     = (Inr [(''error'', DVal (PStr txt_update_condition_empty))], st0)
   \<and> update_data drv_ok ''users'' (DDict [(''name'', PStr ''a'')]) (Some []) None ''public'' None st0
     = (Inr [(''error'', DVal (PStr txt_update_condition_empty))], st0)"
  using update_data_rejects_empty_condition
          [of None drv_ok "''users''" "DDict [(''name'', PStr ''a'')]" "Some [PInt 1]" "''public''" None st0]
        update_data_rejects_empty_condition
          [of "Some []" drv_ok "''users''" "DDict [(''name'', PStr ''a'')]" None "''public''" None st0]
  by simp

section \<open>The parameters of \<^verbatim>\<open>update_data\<close>\<close>

text \<open>
  Claim C8. When \<^verbatim>\<open>update_data\<close> has passed its checks and holds a cursor, its next
  call on the driver is \<^verbatim>\<open>cursor.execute\<close>, with the values of the data dictionary in
  the dictionary's order followed by the caller's parameters (none for \<^verbatim>\<open>None\<close>), and
  with a statement whose \<^verbatim>\<open>SET\<close> clause lists \<^verbatim>\<open>key = %s\<close> in the same order: the
  \<open>i\<close>-th item names the key whose value is the \<open>i\<close>-th parameter.
\<close>

theorem update_data_binds_set_values_first:
  assumes "table_name \<noteq> []" and "d \<noteq> []" and "cond \<noteq> []"
    and "open_cursor drv db_config st = (None, l, st1)"
  shows "(\<exists>rest. trace (snd (update_data drv table_name (DDict d) (Some cond) params schema_name
                                db_config st))
            = trace st1
                @ Execute (''UPDATE '' @ schema_name @ ''.'' @ table_name @ '' SET ''
                             @ join '', '' (map (\<lambda>kv. fst kv @ '' = %s'') d) @ '' WHERE '' @ cond)
                          (map snd d @ (case params of None \<Rightarrow> [] | Some ps \<Rightarrow> ps))
                # rest)
         \<and> (\<forall>i < length d.
               map (\<lambda>kv. fst kv @ '' = %s'') d ! i = fst (d ! i) @ '' = %s''
               \<and> (map snd d @ (case params of None \<Rightarrow> [] | Some ps \<Rightarrow> ps)) ! i = snd (d ! i))"
proof -
  from update_data_try_trace [OF assms(4)] obtain more where
    t: "trace (snd (snd (update_data_try drv table_name d cond params schema_name db_config st)))
           = trace st1 @ Execute (update_sql schema_name table_name d cond) (update_params d params) # more"
    by blast
  from update_data_run [OF assms(1-3)] obtain l' r where
    f: "snd (update_data drv table_name (DDict d) (Some cond) params schema_name db_config st)
           = snd (finally_close drv l' r
                    (snd (snd (update_data_try drv table_name d cond params schema_name db_config st))))"
    by blast
  have "\<exists>rest. trace (snd (update_data drv table_name (DDict d) (Some cond) params schema_name
                                db_config st))
            = trace st1 @ Execute (update_sql schema_name table_name d cond) (update_params d params) # rest"
    using finally_close_trace [of drv l' r
            "snd (snd (update_data_try drv table_name d cond params schema_name db_config st))"]
    unfolding f t by auto
  then show ?thesis
    by (simp add: update_sql_eq update_params_eq nth_append)
qed


theorem update_data_binds_set_values_first_witness:
  "\<exists>rest. trace (snd (update_data drv_ok ''users'' (DDict [(''name'', PStr ''a''), (''age'', PInt 3)])
                         (Some ''id = %s'') (Some [PInt 9]) ''public'' None st0))
     = [Connect profile0, Cursor,
        Execute ''UPDATE public.users SET name = %s, age = %s WHERE id = %s''
                [PStr ''a'', PInt 3, PInt 9]] @ rest"
proof -
  have oc: "open_cursor drv_ok None st0 =
           (None, ConnAndCursor, record_call Cursor (snd (get_connection drv_ok None st0)))"
    by (rule st0_open_cursor) (simp_all add: drv_ok_def)
  have tr: "trace (snd (get_connection drv_ok None st0)) = [Connect profile0]"
    by (rule st0_connect) (simp add: drv_ok_def)
  from update_data_binds_set_values_first [OF _ _ _ oc, of "''users''"
         "[(''name'', PStr ''a''), (''age'', PInt 3)]" "''id = %s''" "Some [PInt 9]" "''public''"]
  show ?thesis
    by (simp add: record_call_def tr)
qed

end
